(* ===== verification/Prelude.thy ===== *)
theory Prelude
  imports Main "HOL-Library.Word"
begin

text \<open>
  Shared vocabulary of the development: the machine integer types of the C sources
  (\<open>uint8_t\<close>, \<open>uint16_t\<close>, \<open>uint32_t\<close> as words), the \<open>FunctionalState\<close> enum
  of the STM32 standard peripheral library, the read-modify-write idiom
  \<^verbatim>\<open>if (NewState != DISABLE) REG |= BIT; else REG &= ~BIT;\<close> that every driver uses,
  and the bit-level lemmas on words that the component theories share. The
  collection \<open>reg_simps\<close> gathers the rules that compute single bits of a register
  after such writes; component proofs use it with \<open>simp add: reg_simps\<close>.
\<close>

unbundle bit_operations_syntax

type_synonym u8 = "8 word"
type_synonym u16 = "16 word"
type_synonym u32 = "32 word"
type_synonym i32 = "32 word"

named_theorems reg_simps \<open>bit-level evaluation of register writes\<close>

text \<open>
  Register code clears bits with \<open>r & ~MASK\<close>; keep \<open>NOT MASK\<close> as it is written
  instead of normalising it to a negative numeral, so that \<open>reg_simps\<close> apply.
\<close>

declare not_numeral_eq [simp del]

text \<open>\<open>typedef enum {DISABLE = 0, ENABLE = !DISABLE} FunctionalState;\<close>\<close>

datatype functional_state = DISABLE | ENABLE

definition fs_val :: "functional_state \<Rightarrow> 'a::len word" where
  "fs_val s = (case s of DISABLE \<Rightarrow> 0 | ENABLE \<Rightarrow> 1)"

text \<open>
  The conditional set/clear of a mask: \<open>if (b) r |= m; else r &= ~m;\<close>.
\<close>

definition cfg_bit :: "bool \<Rightarrow> 'a::len word \<Rightarrow> 'a word \<Rightarrow> 'a word" where
  "cfg_bit b m r = (if b then r OR m else r AND NOT m)"

text \<open>
  The reset control of the RCC, called by the \<open>DeInit\<close> functions of the drivers:
  \<open>RCC_APBxPeriphResetCmd(periph, state)\<close>, the peripheral named by its RCC bit.
\<close>

datatype rcc_call =
    RCC_APB1PeriphResetCmd string functional_state
  | RCC_APB2PeriphResetCmd string functional_state

subsection \<open>Bits of register writes\<close>

lemma bit_cfg_bit [reg_simps]:
  "bit (cfg_bit b m r) n \<longleftrightarrow> (if bit m n then b else bit r n)"
  by (auto simp: cfg_bit_def bit_or_iff bit_and_iff bit_not_iff dest: bit_imp_possible_bit)

lemma bit_or_mask [reg_simps]: "bit (r OR m) n \<longleftrightarrow> bit r n \<or> bit m n"
  by (simp add: bit_or_iff)

lemma bit_and_not_mask [reg_simps]:
  "bit (r AND NOT m :: 'a::len word) n \<longleftrightarrow> bit r n \<and> \<not> bit m n"
  by (auto simp: bit_and_iff bit_not_iff dest: bit_imp_possible_bit)

lemma bit_pow2_word [reg_simps]:
  "bit (2 ^ k :: 'a::len word) n \<longleftrightarrow> n = k \<and> k < LENGTH('a)"
  by (auto simp: bit_exp_iff possible_bit_def)

lemma bit_push_bit_one [reg_simps]:
  "bit (push_bit k 1 :: 'a::len word) n \<longleftrightarrow> n = k \<and> k < LENGTH('a)"
  by (auto simp: bit_exp_iff possible_bit_def)

lemma bit_mask_pow2:
  "(m::'a::len word) = 2 ^ k \<Longrightarrow> k < LENGTH('a) \<Longrightarrow> bit m n \<longleftrightarrow> n = k"
  by (auto simp: bit_pow2_word)

lemma cfg_bit_idem [simp]: "cfg_bit b m (cfg_bit b m r) = cfg_bit b m r"
  by (rule bit_eqI) (simp add: reg_simps)

lemma fs_val_ENABLE_iff: "(fs_val s = (1::'a::len word)) \<longleftrightarrow> s = ENABLE"
  by (cases s) (simp_all add: fs_val_def)

subsection \<open>Counting loops on words\<close>

text \<open>
  A loop \<open>while (... && i != limit) i++;\<close> on an unsigned counter stops: the distance
  \<open>limit - i\<close>, taken modulo \<open>2^n\<close>, decreases at every increment.
\<close>

lemma unat_sub_incr:
  assumes "(w::'a::len word) \<noteq> t"
  shows "unat (t - (w + 1)) = unat (t - w) - 1"
proof -
  from assms have "t - w \<noteq> 0" by simp
  then have "unat (t - w - 1) = unat (t - w) - 1" by (rule unat_minus_one)
  then show ?thesis by (simp add: diff_diff_eq)
qed

lemma unat_sub_incr_less:
  assumes "(w::'a::len word) \<noteq> t"
  shows "unat (t - (w + 1)) < unat (t - w)"
proof -
  from assms have "t - w \<noteq> 0" by simp
  then have "unat (t - w - 1) < unat (t - w)" by (rule measure_unat)
  then show ?thesis by (simp add: diff_diff_eq)
qed

lemma bit_word_lt_pow2:
  assumes "(x::'a::len word) < 2 ^ k" and "bit x n"
  shows "n < k"
proof (rule ccontr)
  assume "\<not> n < k"
  from assms(1) have "x AND mask k = x" by (rule less_mask_eq)
  with assms(2) have "bit (x AND mask k) n" by simp
  with \<open>\<not> n < k\<close> show False by (simp add: bit_and_iff bit_mask_iff)
qed

lemma word_le_1_cases: "(x::'a::len word) \<le> 1 \<Longrightarrow> x = 0 \<or> x = 1"
proof -
  assume "x \<le> 1"
  then have "unat x \<le> 1" by (simp add: word_le_nat_alt)
  then have "unat x = 0 \<or> unat x = 1" by linarith
  then show "x = 0 \<or> x = 1" by (metis unat_eq_zero unsigned_1 word_unat_eq_iff)
qed

subsection \<open>Packing two half-words into a word\<close>

text \<open>
  \<open>(h << 16) | l\<close> for two 16-bit values read into a 32-bit register, and the two
  halves read back: the round trip used by every 16/32-bit register packing.
\<close>

definition pack16 :: "u16 \<Rightarrow> u16 \<Rightarrow> u32" where
  "pack16 h l = push_bit 16 (ucast h) OR ucast l"

lemma pack16_hi [simp]: "(ucast (drop_bit 16 (pack16 h l)) :: u16) = h"
  by (rule bit_eqI)
     (auto simp: pack16_def bit_ucast_iff bit_drop_bit_eq bit_or_iff bit_push_bit_iff
           dest: bit_imp_le_length)

lemma pack16_lo [simp]: "(ucast (pack16 h l) :: u16) = l"
  by (rule bit_eqI)
     (auto simp: pack16_def bit_ucast_iff bit_or_iff bit_push_bit_iff)

lemma pack16_inj: "pack16 h l = pack16 h' l' \<longleftrightarrow> h = h' \<and> l = l'"
  by (metis pack16_hi pack16_lo)

subsection \<open>Signed counters\<close>

text \<open>
  \<open>while ((c--) > 0)\<close> on an \<open>int32_t\<close>: a positive counter is decremented
  without wrap-around.
\<close>

lemma sint_dec: "0 < sint (c :: 'a::len word) \<Longrightarrow> sint (c - 1) = sint c - 1"
proof -
  assume "0 < sint c"
  moreover have "sint c < 2 ^ (LENGTH('a) - 1)" by (rule sint_lt)
  moreover have "- (2 ^ (LENGTH('a) - 1)) \<le> sint c" by (rule sint_ge)
  ultimately show ?thesis
    by (cases "LENGTH('a) = 1") (simp_all add: sint_word_ariths signed_take_bit_int_eq_self)
qed

lemma sint_of_nat_small:
  "j < 2 ^ (LENGTH('a) - 1) \<Longrightarrow> sint (of_nat j :: 'a::len word) = int j"
proof -
  assume "j < 2 ^ (LENGTH('a) - 1)"
  then have "int j < 2 ^ (LENGTH('a) - 1)" by (metis of_nat_less_iff of_nat_numeral of_nat_power)
  moreover have "- (2 ^ (LENGTH('a) - 1)) \<le> int j" by (rule order_trans [of _ 0]) simp_all
  ultimately have "signed_take_bit (LENGTH('a) - 1) (int j) = int j"
    by (intro signed_take_bit_int_eq_self)
  then show ?thesis by (simp add: signed_of_nat)
qed

lemma all_nat_split: "(\<forall>j::nat. P j) \<longleftrightarrow> P 0 \<and> (\<forall>j. P (Suc j))"
  by (metis not0_implies_Suc)

subsection \<open>Deadlines on a wrapping counter\<close>

text \<open>
  A counter \<open>t\<close> of \<open>w\<close> bits advanced by \<open>e\<close> events, against the deadline
  \<open>t + d\<close> computed with wrap-around: reaching a value at or below a deadline that
  wrapped needs the counter to wrap too, and passing the deadline needs more than
  \<open>d\<close> events.
\<close>

lemma deadline_wrapped:
  "(t :: 'a::len word) + of_nat e \<le> x \<Longrightarrow> x < t \<Longrightarrow> 2 ^ LENGTH('a) - unat t \<le> e"
proof (rule ccontr)
  assume a: "t + of_nat e \<le> x" "x < t" "\<not> 2 ^ LENGTH('a) - unat t \<le> e"
  then have "e < 2 ^ LENGTH('a)" by linarith
  then have "unat (of_nat e :: 'a word) = e" by (simp add: unat_of_nat)
  moreover have "unat t + e < 2 ^ LENGTH('a)" using a(3) by linarith
  ultimately have "unat (t + of_nat e) = unat t + e" by (simp add: unat_plus_if')
  with a(1,2) show False by (simp add: word_le_nat_alt word_less_nat_alt)
qed

lemma deadline_passed:
  fixes t d :: "'a::len word"
  assumes "t \<le> t + d \<or> 2 ^ LENGTH('a) - unat t \<le> e" and "t + d < t + of_nat e"
  shows "unat d < e"
proof (rule ccontr)
  assume "\<not> unat d < e"
  then have "unat (of_nat e :: 'a word) = e" by (intro le_unat_uoi [of _ d]) simp
  then have e: "unat (t + of_nat e) =
      (if unat t + e < 2 ^ LENGTH('a) then unat t + e else unat t + e - 2 ^ LENGTH('a))"
    by (simp add: unat_plus_if')
  have d: "unat (t + d) =
      (if unat t + unat d < 2 ^ LENGTH('a) then unat t + unat d else unat t + unat d - 2 ^ LENGTH('a))"
    by (simp add: unat_plus_if')
  have lt: "unat (t + d) < unat (t + of_nat e)" using assms(2) by (simp add: word_less_nat_alt)
  have "t \<le> t + d \<longleftrightarrow> unat t + unat d < 2 ^ LENGTH('a)"
    by (simp add: unat_plus_simple unat_add_lem)
  with assms(1) \<open>\<not> unat d < e\<close> e d lt show False by (auto split: if_splits)
qed

lemma word_less_plus_one: "x \<noteq> - 1 \<Longrightarrow> x < x + (1 :: 'a::len word)"
proof -
  assume "x \<noteq> - 1"
  then have "1 + x \<noteq> 0" by (metis add.commute eq_neg_iff_add_eq_0)
  then have "unat (1 + x) = Suc (unat x)" by (rule unatSuc)
  then show ?thesis by (simp add: word_less_nat_alt add.commute)
qed

text \<open>A value confined to the bits of a field by \<open>v AND NOT m = 0\<close> has no bit outside it.\<close>

lemma bit_within_field: "v AND NOT m = 0 \<Longrightarrow> bit v n \<Longrightarrow> bit (m :: 'a::len word) n"
proof -
  assume "v AND NOT m = 0" "bit v n"
  then have "\<not> bit (v AND NOT m) n" by simp
  with \<open>bit v n\<close> show "bit m n" by (simp add: bit_and_iff bit_not_iff bit_imp_le_length)
qed

text \<open>
  A narrowing cast that keeps the value, and a shifted field combined with a value
  below the shift: \<open>(a << k) | b\<close> adds when \<open>b < 2^k\<close>.
\<close>

lemma unat_ucast_small:
  "unat (x::'a::len word) < 2 ^ LENGTH('b) \<Longrightarrow> unat (ucast x :: 'b::len word) = unat x"
  by (simp add: unsigned_ucast_eq take_bit_nat_eq_self)

lemma push_bit_or_low:
  fixes a b :: "'a::len word"
  assumes "unat b < 2 ^ k"
  shows "push_bit k a OR b = push_bit k a + b"
proof -
  have "take_bit k b = b"
    using assms by (simp add: word_unat_eq_iff unsigned_take_bit_eq take_bit_nat_eq_self)
  then have "\<not> bit b n" if "k \<le> n" for n
    using that by (metis bit_take_bit_iff not_le)
  then show ?thesis
    by (intro disjunctive_add [symmetric]) (auto simp: bit_push_bit_iff)
qed

text \<open>
  A value below \<open>2^w\<close> has no bit at or above \<open>w\<close>; inserting such a value into
  the field \<open>push_bit k (mask w)\<close> of a register and reading it back gives the value,
  and leaves the bits outside the field alone. A cleared field overwritten by a
  wider constant is the constant OR the register.
\<close>

lemma low_bits_only: "unat (v::'a::len word) < 2 ^ w \<Longrightarrow> bit v n \<Longrightarrow> n < w"
proof -
  assume "unat v < 2 ^ w" "bit v n"
  then have "take_bit w v = v" by (simp add: word_unat_eq_iff unsigned_take_bit_eq take_bit_nat_eq_self)
  with \<open>bit v n\<close> show "n < w" by (metis bit_take_bit_iff)
qed

lemma field_get_set:
  fixes x v :: "'a::len word"
  assumes "unat v < 2 ^ w" and fits: "k + w \<le> LENGTH('a)"
  shows "drop_bit k ((x AND NOT (push_bit k (mask w)) OR push_bit k v) AND push_bit k (mask w)) = v"
proof (rule bit_eqI)
  fix n assume "possible_bit TYPE('a word) n"
  show "bit (drop_bit k ((x AND NOT (push_bit k (mask w)) OR push_bit k v) AND push_bit k (mask w))) n = bit v n"
    using low_bits_only [OF assms(1), of n] fits
    by (auto simp: bit_drop_bit_eq bit_and_iff bit_or_iff bit_not_iff bit_push_bit_iff bit_mask_iff dest: bit_imp_le_length)
qed

lemma field_set_frame:
  fixes x v :: "'a::len word"
  assumes "unat v < 2 ^ w"
  shows "(x AND NOT (push_bit k (mask w)) OR push_bit k v) AND NOT (push_bit k (mask w)) = x AND NOT (push_bit k (mask w))"
proof (rule bit_eqI)
  fix n
  show "bit ((x AND NOT (push_bit k (mask w)) OR push_bit k v) AND NOT (push_bit k (mask w))) n =
        bit (x AND NOT (push_bit k (mask w))) n"
    using low_bits_only [OF assms, of "n - k"]
    by (auto simp: bit_and_iff bit_or_iff bit_not_iff bit_push_bit_iff bit_mask_iff)
qed

lemma or_absorbs_field: "m AND NOT M = 0 \<Longrightarrow> (x AND NOT m) OR M = x OR (M :: 'a::len word)"
  by (rule bit_eqI) (auto simp: bit_and_iff bit_or_iff bit_not_iff dest: bit_within_field)

lemma bit_fs_val: "bit (fs_val c :: 'a::len word) n \<longleftrightarrow> n = 0 \<and> c = ENABLE"
  by (cases c) (simp_all add: fs_val_def bit_1_iff)

text \<open>
  Masks on disjoint bits: a write to one field, through \<open>cfg_bit\<close> or by clearing
  with a keep-mask \<open>k\<close> and OR-ing in a value, leaves every field \<open>f\<close> outside it
  unchanged, and the written field reads back as the value.
\<close>

lemma fs_not_DISABLE [simp]: "(st \<noteq> DISABLE) = (st = ENABLE)"
  by (cases st) simp_all

lemma and_zero_bit: "a AND b = 0 \<Longrightarrow> bit a n \<Longrightarrow> \<not> bit (b :: 'a::len word) n"
proof
  assume z: "a AND b = 0" and "bit a n" "bit b n"
  have "bit (a AND b) n" using \<open>bit a n\<close> \<open>bit b n\<close> by (simp add: bit_and_iff)
  with z show False by simp
qed

lemma and_eq_bit: "a AND b = b \<Longrightarrow> bit b n \<Longrightarrow> bit a n"
  by (metis bit_and_iff)

lemma and_eq_bit': "a AND b = a \<Longrightarrow> bit a n \<Longrightarrow> bit b n"
  by (metis bit_and_iff)

lemma and_clear: "k AND f = 0 \<Longrightarrow> (r AND k) AND f = (0 :: 'a::len word)"
  by (rule bit_eqI) (auto simp: bit_and_iff dest: and_zero_bit)

lemma cfg_bit_and_disjoint: "m AND f = 0 \<Longrightarrow> cfg_bit b m r AND f = r AND (f :: 'a::len word)"
  by (rule bit_eqI) (auto simp: bit_cfg_bit bit_and_iff dest: and_zero_bit)

lemma and_keep: "k AND f = f \<Longrightarrow> (r AND k) AND f = r AND (f :: 'a::len word)"
  by (rule bit_eqI) (auto simp: bit_and_iff dest: and_eq_bit)

lemma set_field_keep:
  "k AND f = f \<Longrightarrow> v AND f = 0 \<Longrightarrow> ((r AND k) OR v) AND f = r AND (f :: 'a::len word)"
  by (rule bit_eqI) (auto simp: bit_or_iff bit_and_iff dest: and_eq_bit and_zero_bit)

lemma set_field_clear:
  "k AND f = 0 \<Longrightarrow> v AND f = v \<Longrightarrow> ((r AND k) OR v) AND f = (v :: 'a::len word)"
  by (rule bit_eqI) (auto simp: bit_or_iff bit_and_iff dest: and_eq_bit' and_zero_bit)

text \<open>
  Reserved bits stay clear: a value whose bits all lie below \<open>k\<close> has none in a mask
  that is clear below \<open>k\<close>, and OR, AND and \<open>cfg_bit\<close> keep a mask's bits clear when
  their operands do.
\<close>

lemma bits_below_and_high:
  assumes v: "\<And>n. bit (v :: 'a::len word) n \<Longrightarrow> n < k" and m: "m AND mask k = 0"
  shows "v AND m = 0"
proof (rule bit_eqI)
  fix n
  show "bit (v AND m) n = bit 0 n"
  proof
    assume "bit (v AND m) n"
    then have "bit v n" "bit m n" by (simp_all add: bit_and_iff)
    then have "bit (mask k :: 'a word) n" using v by (simp add: bit_mask_iff bit_imp_le_length)
    with and_zero_bit [OF m \<open>bit m n\<close>] show "bit 0 n" by simp
  qed simp
qed

lemma low_value_and_high:
  "unat (v :: 'a::len word) < 2 ^ k \<Longrightarrow> m AND mask k = 0 \<Longrightarrow> v AND m = 0"
  by (rule bits_below_and_high) (auto dest: low_bits_only)

lemma push_low_value_and_high:
  "unat (v :: 'a::len word) < 2 ^ w \<Longrightarrow> m AND mask (k + w) = 0 \<Longrightarrow> push_bit k v AND m = 0"
  by (rule bits_below_and_high) (auto simp: bit_push_bit_iff dest: low_bits_only)

lemma or_and_zero: "x AND r = 0 \<Longrightarrow> v AND r = 0 \<Longrightarrow> (x OR v) AND r = (0 :: 'a::len word)"
  by (simp add: word_ao_dist)

lemma and_and_zero: "x AND r = 0 \<Longrightarrow> (x AND k) AND r = (0 :: 'a::len word)"
  by (metis and.left_commute and.commute and_zero_eq)

lemma cfg_bit_and_zero: "x AND r = 0 \<Longrightarrow> m AND r = 0 \<Longrightarrow> cfg_bit b m x AND r = (0 :: 'a::len word)"
  by (simp add: cfg_bit_def or_and_zero and_and_zero)

lemma and_mask_small: "unat (x :: 'a::len word) < 2 ^ k \<Longrightarrow> x AND mask k = x"
  by (simp add: take_bit_eq_mask [symmetric] word_unat_eq_iff unsigned_take_bit_eq take_bit_nat_eq_self)

text \<open>A two-valued enumeration checked by \<open>x <= 1\<close>.\<close>

lemma word_le_1_iff: "(w :: 'a::len word) \<le> 1 \<longleftrightarrow> w = 0 \<or> w = 1"
proof
  assume "w \<le> 1"
  then have "unat w \<le> 1" by (simp add: word_le_nat_alt)
  then have "unat w = 0 \<or> unat w = 1" by arith
  then show "w = 0 \<or> w = 1" by (auto simp: word_unat_eq_iff)
qed auto

end
