(* ===== verification/Can.thy ===== *)
theory Can
  imports Prelude
begin

text \<open>
  The CAN controller driver of \<^verbatim>\<open>src/Libraries/STM32F37x_StdPeriph_Driver/src/stm32f37x_can.c\<close>:
  \<open>CAN_Init\<close> (initialisation handshake with the bounded INAK polling loops, the six
  control flags of MCR and the packed bit timing register BTR) and \<open>CAN_FilterInit\<close>
  (one filter bank of the acceptance filter, 16- or 32-bit scale). The peripheral's
  register block is the record \<open>CAN_TypeDef\<close>; the status register MSR is driven by
  the hardware and is modelled as the sequence of values that successive reads of it
  return, so that every poll of the handshake is one read and the number of reads is
  part of the state.
\<close>

unbundle bit_operations_syntax

section \<open>Register block and constants\<close>

text \<open>Bit masks of the vendor header \<^verbatim>\<open>stm32f37x.h\<close> (not part of the sources).\<close>

definition CAN_MCR_INRQ :: u32 where
  "CAN_MCR_INRQ = 0x01"

definition CAN_MCR_SLEEP :: u32 where
  "CAN_MCR_SLEEP = 0x02"

definition CAN_MCR_TXFP :: u32 where
  "CAN_MCR_TXFP = 0x04"

definition CAN_MCR_RFLM :: u32 where
  "CAN_MCR_RFLM = 0x08"

definition CAN_MCR_NART :: u32 where
  "CAN_MCR_NART = 0x10"

definition CAN_MCR_AWUM :: u32 where
  "CAN_MCR_AWUM = 0x20"

definition CAN_MCR_ABOM :: u32 where
  "CAN_MCR_ABOM = 0x40"

definition CAN_MCR_TTCM :: u32 where
  "CAN_MCR_TTCM = 0x80"

definition CAN_MSR_INAK :: u32 where
  "CAN_MSR_INAK = 0x01"

lemmas can_mask_defs = CAN_MCR_INRQ_def CAN_MCR_SLEEP_def CAN_MCR_TXFP_def CAN_MCR_RFLM_def CAN_MCR_NART_def CAN_MCR_AWUM_def CAN_MCR_ABOM_def CAN_MCR_TTCM_def CAN_MSR_INAK_def

lemma can_mask_bits [reg_simps]:
  "bit CAN_MCR_INRQ n \<longleftrightarrow> n = 0"
  "bit CAN_MCR_SLEEP n \<longleftrightarrow> n = 1"
  "bit CAN_MCR_TXFP n \<longleftrightarrow> n = 2"
  "bit CAN_MCR_RFLM n \<longleftrightarrow> n = 3"
  "bit CAN_MCR_NART n \<longleftrightarrow> n = 4"
  "bit CAN_MCR_AWUM n \<longleftrightarrow> n = 5"
  "bit CAN_MCR_ABOM n \<longleftrightarrow> n = 6"
  "bit CAN_MCR_TTCM n \<longleftrightarrow> n = 7"
  "bit CAN_MSR_INAK n \<longleftrightarrow> n = 0"
  unfolding can_mask_defs by (rule bit_mask_pow2; simp)+

text \<open>Private defines of \<^verbatim>\<open>stm32f37x_can.c\<close>.\<close>

definition FMR_FINIT :: u32 where
  "FMR_FINIT = 0x00000001"

definition INAK_TIMEOUT :: u32 where
  "INAK_TIMEOUT = 0x0000FFFF"

record CAN_FilterRegister_TypeDef =
  FR1 :: u32
  FR2 :: u32

text \<open>
  \<open>MSR\<close> gives the value of the status register at the \<open>k\<close>-th read since reset;
  \<open>msr_reads\<close> counts the reads made so far. The filter bank array is indexed by
  any \<open>nat\<close>: the hardware has 14 banks and indices beyond are outside the array,
  which the driver only guards by \<open>assert_param\<close>.
\<close>

record CAN_TypeDef =
  MCR :: u32
  MSR :: "nat \<Rightarrow> u32"
  msr_reads :: nat
  BTR :: u32
  FMR :: u32
  FM1R :: u32
  FS1R :: u32
  FFA1R :: u32
  FA1R :: u32
  sFilterRegister :: "nat \<Rightarrow> CAN_FilterRegister_TypeDef"

datatype CAN_InitStatus = CAN_InitStatus_Failed | CAN_InitStatus_Success

text \<open>\<open>CAN1\<close> is the only instance \<open>IS_CAN_ALL_PERIPH\<close> accepts.\<close>

datatype can_id = CAN1

record CAN_InitTypeDef =
  CAN_Prescaler :: u16
  CAN_Mode :: u8
  CAN_SJW :: u8
  CAN_BS1 :: u8
  CAN_BS2 :: u8
  CAN_TTCM :: functional_state
  CAN_ABOM :: functional_state
  CAN_AWUM :: functional_state
  CAN_NART :: functional_state
  CAN_RFLM :: functional_state
  CAN_TXFP :: functional_state

section \<open>Reset\<close>

text \<open>\<open>CAN_DeInit\<close> pulses the reset line of \<open>CAN1\<close> in the RCC.\<close>

definition CAN_DeInit :: "can_id \<Rightarrow> rcc_call list" where
  "CAN_DeInit x =
     (if x = CAN1 then [RCC_APB1PeriphResetCmd ''CAN1'' ENABLE, RCC_APB1PeriphResetCmd ''CAN1'' DISABLE]
      else [])"

section \<open>Initialisation handshake\<close>

text \<open>One read of \<open>CANx->MSR\<close>.\<close>

definition read_MSR :: "CAN_TypeDef \<Rightarrow> u32 \<times> CAN_TypeDef" where
  "read_MSR s = (MSR s (msr_reads s), s\<lparr>msr_reads := Suc (msr_reads s)\<rparr>)"

definition inak_set :: "u32 \<Rightarrow> bool" where
  "inak_set msr \<longleftrightarrow> (msr AND CAN_MSR_INAK) = CAN_MSR_INAK"

text \<open>
  The two polling loops of \<open>CAN_Init\<close>, with the level of INAK they wait for
  (\<open>True\<close>: wait for the acknowledge of the initialisation request, \<open>False\<close>:
  wait for its release):
  \<^verbatim>\<open>while (((CANx->MSR & CAN_MSR_INAK) != CAN_MSR_INAK) && (wait_ack != INAK_TIMEOUT))
    wait_ack++;\<close>
  The condition reads MSR first (\<open>&&\<close> evaluates left to right), so every test of
  the loop condition is one read. The counter is a \<open>uint32_t\<close>; the loop stops
  because \<open>INAK_TIMEOUT - wait_ack\<close> (computed modulo \<open>2^32\<close>) decreases.
\<close>

function wait_inak :: "bool \<Rightarrow> u32 \<Rightarrow> CAN_TypeDef \<Rightarrow> u32 \<times> CAN_TypeDef" where
  "wait_inak tgt wait_ack s =
     (case read_MSR s of (msr, s') \<Rightarrow>
        if inak_set msr \<noteq> tgt \<and> wait_ack \<noteq> INAK_TIMEOUT
        then wait_inak tgt (wait_ack + 1) s'
        else (wait_ack, s'))"
  by pat_completeness auto
termination
  by (relation "measure (\<lambda>(tgt, w, s). unat (INAK_TIMEOUT - w))")
     (auto simp: read_MSR_def intro: unat_sub_incr_less)

declare wait_inak.simps [simp del]

text \<open>
  \<open>BTR = (Mode << 30) | (SJW << 24) | (BS1 << 16) | (BS2 << 20) | (Prescaler - 1)\<close>,
  every field widened to \<open>uint32_t\<close> first, so \<open>Prescaler - 1\<close> wraps for 0.
\<close>

definition can_btr_value :: "CAN_InitTypeDef \<Rightarrow> u32" where
  "can_btr_value c =
     push_bit 30 (ucast (CAN_Mode c)) OR push_bit 24 (ucast (CAN_SJW c)) OR
     push_bit 16 (ucast (CAN_BS1 c)) OR push_bit 20 (ucast (CAN_BS2 c)) OR
     (ucast (CAN_Prescaler c) - 1)"

text \<open>The six flag writes of \<open>CAN_Init\<close>, in the order of the source.\<close>

definition can_mcr_flags :: "CAN_InitTypeDef \<Rightarrow> u32 \<Rightarrow> u32" where
  "can_mcr_flags c mcr =
     cfg_bit (CAN_TXFP c = ENABLE) CAN_MCR_TXFP
      (cfg_bit (CAN_RFLM c = ENABLE) CAN_MCR_RFLM
       (cfg_bit (CAN_NART c = ENABLE) CAN_MCR_NART
        (cfg_bit (CAN_AWUM c = ENABLE) CAN_MCR_AWUM
         (cfg_bit (CAN_ABOM c = ENABLE) CAN_MCR_ABOM
          (cfg_bit (CAN_TTCM c = ENABLE) CAN_MCR_TTCM mcr)))))"

text \<open>The configuration done in initialisation mode: flags, then BTR.\<close>

definition can_init_config :: "CAN_InitTypeDef \<Rightarrow> CAN_TypeDef \<Rightarrow> CAN_TypeDef" where
  "can_init_config c s = s\<lparr>MCR := can_mcr_flags c (MCR s), BTR := can_btr_value c\<rparr>"

definition CAN_Init :: "CAN_InitTypeDef \<Rightarrow> CAN_TypeDef \<Rightarrow> CAN_InitStatus \<times> CAN_TypeDef" where
  "CAN_Init c s0 =
     (let s1 = s0\<lparr>MCR := MCR s0 AND NOT CAN_MCR_SLEEP\<rparr>;
          s2 = s1\<lparr>MCR := MCR s1 OR CAN_MCR_INRQ\<rparr>;
          (_, s3) = wait_inak True 0 s2;
          (msr, s4) = read_MSR s3
      in if \<not> inak_set msr then (CAN_InitStatus_Failed, s4)
         else
           (let s5 = can_init_config c s4;
                s6 = s5\<lparr>MCR := MCR s5 AND NOT CAN_MCR_INRQ\<rparr>;
                (_, s7) = wait_inak False 0 s6;
                (msr', s8) = read_MSR s7
            in if inak_set msr' then (CAN_InitStatus_Failed, s8)
               else (CAN_InitStatus_Success, s8)))"

section \<open>Acceptance filter\<close>

abbreviation (input) CAN_FilterMode_IdMask :: u8 where "CAN_FilterMode_IdMask \<equiv> 0x00"
abbreviation (input) CAN_FilterMode_IdList :: u8 where "CAN_FilterMode_IdList \<equiv> 0x01"
abbreviation (input) CAN_FilterScale_16bit :: u8 where "CAN_FilterScale_16bit \<equiv> 0x00"
abbreviation (input) CAN_FilterScale_32bit :: u8 where "CAN_FilterScale_32bit \<equiv> 0x01"
abbreviation (input) CAN_Filter_FIFO0 :: u16 where "CAN_Filter_FIFO0 \<equiv> 0x00"
abbreviation (input) CAN_Filter_FIFO1 :: u16 where "CAN_Filter_FIFO1 \<equiv> 0x01"

record CAN_FilterInitTypeDef =
  CAN_FilterIdHigh :: u16
  CAN_FilterIdLow :: u16
  CAN_FilterMaskIdHigh :: u16
  CAN_FilterMaskIdLow :: u16
  CAN_FilterFIFOAssignment :: u16
  CAN_FilterNumber :: u8
  CAN_FilterMode :: u8
  CAN_FilterScale :: u8
  CAN_FilterActivation :: functional_state

definition set_FR1 :: "nat \<Rightarrow> u32 \<Rightarrow> CAN_TypeDef \<Rightarrow> CAN_TypeDef" where
  "set_FR1 n v s = s\<lparr>sFilterRegister := (sFilterRegister s)(n := (sFilterRegister s n)\<lparr>FR1 := v\<rparr>)\<rparr>"

definition set_FR2 :: "nat \<Rightarrow> u32 \<Rightarrow> CAN_TypeDef \<Rightarrow> CAN_TypeDef" where
  "set_FR2 n v s = s\<lparr>sFilterRegister := (sFilterRegister s)(n := (sFilterRegister s n)\<lparr>FR2 := v\<rparr>)\<rparr>"

definition half_pack :: "u16 \<Rightarrow> u16 \<Rightarrow> u32" where
  "half_pack h l = push_bit 16 (0x0000FFFF AND ucast h) OR (0x0000FFFF AND ucast l)"

definition filter_number_bit_pos :: "CAN_FilterInitTypeDef \<Rightarrow> u32" where
  "filter_number_bit_pos f = push_bit (unat (CAN_FilterNumber f)) 1"

definition CAN_FilterInit_head :: "CAN_FilterInitTypeDef \<Rightarrow> CAN_TypeDef \<Rightarrow> CAN_TypeDef" where
  "CAN_FilterInit_head f s0 =
     (let pos = filter_number_bit_pos f; n = unat (CAN_FilterNumber f);
          s1 = s0\<lparr>FMR := FMR s0 OR FMR_FINIT\<rparr>;
          s2 = s1\<lparr>FA1R := FA1R s1 AND NOT pos\<rparr>;
          s3 = (if CAN_FilterScale f = CAN_FilterScale_16bit
                then set_FR2 n (half_pack (CAN_FilterMaskIdHigh f) (CAN_FilterIdHigh f))
                      (set_FR1 n (half_pack (CAN_FilterMaskIdLow f) (CAN_FilterIdLow f))
                        (s2\<lparr>FS1R := FS1R s2 AND NOT pos\<rparr>))
                else s2);
          s4 = (if CAN_FilterScale f = CAN_FilterScale_32bit
                then set_FR2 n (half_pack (CAN_FilterMaskIdHigh f) (CAN_FilterMaskIdLow f))
                      (set_FR1 n (half_pack (CAN_FilterIdHigh f) (CAN_FilterIdLow f))
                        (s3\<lparr>FS1R := FS1R s3 OR pos\<rparr>))
                else s3)
      in s4)"

text \<open>
  Lines 368-372 test the filter mode and begin the identifier/mask branch
  (\<open>FM1R &= ~filter_number_bit_pos\<close>); the file ends there. The identifier-list
  branch, the FIFO assignment, the activation and the exit from filter
  initialisation mode follow spec section 4.2 (steps 4 to 7) and the ST driver.
\<close>

definition CAN_FilterInit_tail :: "CAN_FilterInitTypeDef \<Rightarrow> CAN_TypeDef \<Rightarrow> CAN_TypeDef" where
  "CAN_FilterInit_tail f s4 =
     (let pos = filter_number_bit_pos f;
          s5 = (if CAN_FilterMode f = CAN_FilterMode_IdMask
                then s4\<lparr>FM1R := FM1R s4 AND NOT pos\<rparr>
                else s4\<lparr>FM1R := FM1R s4 OR pos\<rparr>);
          s6 = (if CAN_FilterFIFOAssignment f = CAN_Filter_FIFO0
                then s5\<lparr>FFA1R := FFA1R s5 AND NOT pos\<rparr> else s5);
          s7 = (if CAN_FilterFIFOAssignment f = CAN_Filter_FIFO1
                then s6\<lparr>FFA1R := FFA1R s6 OR pos\<rparr> else s6);
          s8 = (if CAN_FilterActivation f = ENABLE
                then s7\<lparr>FA1R := FA1R s7 OR pos\<rparr> else s7)
      in s8\<lparr>FMR := FMR s8 AND NOT FMR_FINIT\<rparr>)"

definition CAN_FilterInit :: "CAN_FilterInitTypeDef \<Rightarrow> CAN_TypeDef \<Rightarrow> CAN_TypeDef" where
  "CAN_FilterInit f s = CAN_FilterInit_tail f (CAN_FilterInit_head f s)"

text \<open>
  The configuration of one filter bank as the controller sees it: its register pair
  and its bits in the scale, mode, FIFO assignment and activation registers; and the
  filter registers as \<open>CAN_FilterInit\<close> leaves them, in closed form.
\<close>

definition filter_bank :: "CAN_TypeDef \<Rightarrow> nat \<Rightarrow> CAN_FilterRegister_TypeDef \<times> bool \<times> bool \<times> bool \<times> bool" where
  "filter_bank s n =
     (sFilterRegister s n, bit (FS1R s) n, bit (FM1R s) n, bit (FFA1R s) n, bit (FA1R s) n)"

definition filter_regs_after :: "CAN_FilterInitTypeDef \<Rightarrow> CAN_TypeDef \<Rightarrow> nat \<Rightarrow> CAN_FilterRegister_TypeDef" where
  "filter_regs_after f s =
     (let n = unat (CAN_FilterNumber f) in
      if CAN_FilterScale f = CAN_FilterScale_16bit
      then (sFilterRegister s)(n := (sFilterRegister s n)\<lparr>
              FR1 := pack16 (CAN_FilterMaskIdLow f) (CAN_FilterIdLow f),
              FR2 := pack16 (CAN_FilterMaskIdHigh f) (CAN_FilterIdHigh f)\<rparr>)
      else if CAN_FilterScale f = CAN_FilterScale_32bit
      then (sFilterRegister s)(n := (sFilterRegister s n)\<lparr>
              FR1 := pack16 (CAN_FilterIdHigh f) (CAN_FilterIdLow f),
              FR2 := pack16 (CAN_FilterMaskIdHigh f) (CAN_FilterMaskIdLow f)\<rparr>)
      else sFilterRegister s)"

text \<open>
  The \<open>assert_param\<close> checks of \<open>CAN_Init\<close> (\<open>IS_CAN_MODE\<close>, \<open>IS_CAN_SJW\<close>,
  \<open>IS_CAN_BS1\<close>, \<open>IS_CAN_BS2\<close>, \<open>IS_CAN_PRESCALER\<close>); the six \<open>IS_FUNCTIONAL_STATE\<close>
  checks hold by the type. They are compiled out in release builds, so the model
  of \<open>CAN_Init\<close> does not test them; they appear as hypotheses of theorems only.
\<close>

definition can_init_params_ok :: "CAN_InitTypeDef \<Rightarrow> bool" where
  "can_init_params_ok c \<longleftrightarrow>
     CAN_Mode c \<le> 3 \<and> CAN_SJW c \<le> 3 \<and> CAN_BS1 c \<le> 15 \<and> CAN_BS2 c \<le> 7 \<and>
     1 \<le> CAN_Prescaler c \<and> CAN_Prescaler c \<le> 1024"

text \<open>
  The fields of BTR as the controller reads them (reference manual RM0313):
  mode bits 31:30 (SILM, LBKM), SJW 25:24, TS2 22:20, TS1 19:16, BRP 9:0.
\<close>

definition btr_fields :: "u32 \<Rightarrow> u32 \<times> u32 \<times> u32 \<times> u32 \<times> u32" where
  "btr_fields btr =
     (drop_bit 30 btr, take_bit 2 (drop_bit 24 btr), take_bit 4 (drop_bit 16 btr),
      take_bit 3 (drop_bit 20 btr), take_bit 10 btr)"

section \<open>Lemmas on the handshake\<close>

subsection \<open>The polling loop\<close>

lemma wait_inak_unfold:
  "wait_inak tgt w s =
     (if inak_set (MSR s (msr_reads s)) \<noteq> tgt \<and> w \<noteq> INAK_TIMEOUT
      then wait_inak tgt (w + 1) (s\<lparr>msr_reads := Suc (msr_reads s)\<rparr>)
      else (w, s\<lparr>msr_reads := Suc (msr_reads s)\<rparr>))"
  by (subst wait_inak.simps) (simp add: read_MSR_def)

lemma wait_inak_exit:
  assumes "\<forall>j<k. inak_set (MSR s (msr_reads s + j)) \<noteq> tgt"
    and "inak_set (MSR s (msr_reads s + k)) = tgt"
    and "k \<le> unat (INAK_TIMEOUT - w)"
  shows "wait_inak tgt w s = (w + of_nat k, s\<lparr>msr_reads := msr_reads s + k + 1\<rparr>)"
  using assms
proof (induction k arbitrary: w s)
  case 0
  then show ?case by (simp add: wait_inak_unfold [of tgt w s])
next
  case (Suc k)
  have ne: "inak_set (MSR s (msr_reads s)) \<noteq> tgt" using Suc.prems(1) by auto
  have w: "w \<noteq> INAK_TIMEOUT" using Suc.prems(3) by auto
  let ?s' = "s\<lparr>msr_reads := Suc (msr_reads s)\<rparr>"
  have "wait_inak tgt (w + 1) ?s' = (w + 1 + of_nat k, ?s'\<lparr>msr_reads := msr_reads ?s' + k + 1\<rparr>)"
  proof (rule Suc.IH)
    show "\<forall>j<k. inak_set (MSR ?s' (msr_reads ?s' + j)) \<noteq> tgt" using Suc.prems(1) by auto
    show "inak_set (MSR ?s' (msr_reads ?s' + k)) = tgt" using Suc.prems(2) by simp
    show "k \<le> unat (INAK_TIMEOUT - (w + 1))" using Suc.prems(3) w by (simp add: unat_sub_incr)
  qed
  with ne w show ?case by (simp add: wait_inak_unfold [of tgt w s] ac_simps)
qed

lemma wait_inak_timeout:
  assumes "\<forall>j\<le>unat (INAK_TIMEOUT - w). inak_set (MSR s (msr_reads s + j)) \<noteq> tgt"
  shows "wait_inak tgt w s = (INAK_TIMEOUT, s\<lparr>msr_reads := msr_reads s + unat (INAK_TIMEOUT - w) + 1\<rparr>)"
  using assms
proof (induction "unat (INAK_TIMEOUT - w)" arbitrary: w s)
  case 0
  then have "w = INAK_TIMEOUT" by (simp add: unat_eq_zero)
  with "0.prems" show ?case by (simp add: wait_inak_unfold [of tgt INAK_TIMEOUT s])
next
  case (Suc n)
  have w: "w \<noteq> INAK_TIMEOUT" using Suc.hyps(2) by auto
  have ne: "inak_set (MSR s (msr_reads s)) \<noteq> tgt" using Suc.prems by auto
  let ?s' = "s\<lparr>msr_reads := Suc (msr_reads s)\<rparr>"
  have n: "n = unat (INAK_TIMEOUT - (w + 1))" using Suc.hyps(2) w by (simp add: unat_sub_incr)
  have "wait_inak tgt (w + 1) ?s' = (INAK_TIMEOUT, ?s'\<lparr>msr_reads := msr_reads ?s' + unat (INAK_TIMEOUT - (w + 1)) + 1\<rparr>)"
  proof (rule Suc.hyps(1) [OF n])
    show "\<forall>j\<le>unat (INAK_TIMEOUT - (w + 1)). inak_set (MSR ?s' (msr_reads ?s' + j)) \<noteq> tgt"
    proof (intro allI impI)
      fix j
      assume "j \<le> unat (INAK_TIMEOUT - (w + 1))"
      then have "Suc j \<le> unat (INAK_TIMEOUT - w)" using n Suc.hyps(2) by simp
      with Suc.prems have "inak_set (MSR s (msr_reads s + Suc j)) \<noteq> tgt" by blast
      then show "inak_set (MSR ?s' (msr_reads ?s' + j)) \<noteq> tgt" by simp
    qed
  qed
  with ne w n Suc.hyps(2) show ?case by (simp add: wait_inak_unfold [of tgt w s])
qed

lemma wait_inak_frame:
  "wait_inak tgt w s = (w', s') \<Longrightarrow> \<exists>n. s' = s\<lparr>msr_reads := n\<rparr>"
proof (induction tgt w s arbitrary: w' s' rule: wait_inak.induct)
  case (1 tgt w s)
  then show ?case
    by (fastforce simp: wait_inak_unfold [of tgt w s] read_MSR_def split: if_splits)
qed


lemma unat_INAK_TIMEOUT [simp]: "unat INAK_TIMEOUT = 65535"
  by (simp add: INAK_TIMEOUT_def)

subsection \<open>Branches of CAN_Init\<close>

lemma CAN_Init_after_ack:
  assumes l1: "wait_inak True 0 (s\<lparr>MCR := MCR s AND NOT CAN_MCR_SLEEP OR CAN_MCR_INRQ\<rparr>) =
               (w, s\<lparr>MCR := MCR s AND NOT CAN_MCR_SLEEP OR CAN_MCR_INRQ, msr_reads := r\<rparr>)"
    and "inak_set (MSR s r)"
    and "k2 \<le> 65535" and "\<forall>j<k2. inak_set (MSR s (Suc r + j))"
    and "\<not> inak_set (MSR s (Suc r + k2))" and "\<not> inak_set (MSR s (r + k2 + 2))"
  shows "CAN_Init c s =
    (CAN_InitStatus_Success,
     s\<lparr>MCR := can_mcr_flags c (MCR s AND NOT CAN_MCR_SLEEP OR CAN_MCR_INRQ) AND NOT CAN_MCR_INRQ,
       BTR := can_btr_value c, msr_reads := r + k2 + 3\<rparr>)"
proof -
  let ?s6 = "s\<lparr>msr_reads := Suc r, BTR := can_btr_value c,
      MCR := can_mcr_flags c (MCR s AND NOT CAN_MCR_SLEEP OR CAN_MCR_INRQ) AND NOT CAN_MCR_INRQ\<rparr>"
  have l2: "wait_inak False 0 ?s6 = (of_nat k2, ?s6\<lparr>msr_reads := Suc r + k2 + 1\<rparr>)"
    using wait_inak_exit [of k2 ?s6 False 0] assms(3-5) by simp
  show ?thesis
    using assms(2,6) l1 l2
    by (simp add: CAN_Init_def can_init_config_def read_MSR_def add.assoc numeral_3_eq_3 numeral_2_eq_2)
qed

text \<open>
  C4: when the acknowledge never appears, \<open>CAN_Init\<close> fails after exactly 65537 reads of
  MSR (65536 tests of the loop condition, the counter running from 0 to
  \<open>INAK_TIMEOUT\<close>, and the final check), leaves the controller with SLEEP cleared
  and INRQ requested, and programs neither the flags nor BTR.
\<close>

theorem CAN_Init_timeout:
  assumes "\<forall>j\<le>65536. \<not> inak_set (MSR s (msr_reads s + j))"
  shows "CAN_Init c s =
    (CAN_InitStatus_Failed,
     s\<lparr>MCR := MCR s AND NOT CAN_MCR_SLEEP OR CAN_MCR_INRQ, msr_reads := msr_reads s + 65537\<rparr>)"
proof -
  let ?s2 = "s\<lparr>MCR := MCR s AND NOT CAN_MCR_SLEEP OR CAN_MCR_INRQ\<rparr>"
  have "\<forall>j\<le>unat (INAK_TIMEOUT - 0). inak_set (MSR ?s2 (msr_reads ?s2 + j)) \<noteq> True"
    using assms by simp
  then have "wait_inak True 0 ?s2 = (INAK_TIMEOUT, ?s2\<lparr>msr_reads := msr_reads s + 65536\<rparr>)"
    by (simp add: wait_inak_timeout)
  then show ?thesis using assms by (simp add: CAN_Init_def read_MSR_def)
qed

text \<open>
  C1: the successful handshake. If INAK is first seen at read \<open>k1\<close> of the first loop
  and again at the check read, then stays set for \<open>k2\<close> reads of the second loop and is
  clear at its exit and at the final check, \<open>CAN_Init\<close> returns
  \<open>CAN_InitStatus_Success\<close> with the six flags written into MCR, SLEEP and INRQ
  cleared, BTR programmed, and \<open>k1 + k2 + 4\<close> reads of MSR.
\<close>

theorem CAN_Init_success:
  assumes "k1 \<le> 65535" and "\<forall>j<k1. \<not> inak_set (MSR s (msr_reads s + j))"
    and "inak_set (MSR s (msr_reads s + k1))" and "inak_set (MSR s (msr_reads s + k1 + 1))"
    and "k2 \<le> 65535" and "\<forall>j<k2. inak_set (MSR s (msr_reads s + k1 + 2 + j))"
    and "\<not> inak_set (MSR s (msr_reads s + k1 + 2 + k2))"
    and "\<not> inak_set (MSR s (msr_reads s + k1 + k2 + 3))"
  shows "CAN_Init c s =
    (CAN_InitStatus_Success,
     s\<lparr>MCR := can_mcr_flags c (MCR s AND NOT CAN_MCR_SLEEP OR CAN_MCR_INRQ) AND NOT CAN_MCR_INRQ,
       BTR := can_btr_value c, msr_reads := msr_reads s + k1 + k2 + 4\<rparr>)"
proof -
  let ?s2 = "s\<lparr>MCR := MCR s AND NOT CAN_MCR_SLEEP OR CAN_MCR_INRQ\<rparr>"
  have "wait_inak True 0 ?s2 = (of_nat k1, ?s2\<lparr>msr_reads := msr_reads s + k1 + 1\<rparr>)"
    using wait_inak_exit [of k1 ?s2 True 0] assms(1-3) by simp
  from CAN_Init_after_ack [OF this, of k2 c] assms(4-8) show ?thesis
    by (simp add: ac_simps numeral_3_eq_3)
qed

text \<open>
  C7: the boundary of the timeout. The loop tests MSR 65536 times and the result is
  decided by one more read: an acknowledge that first appears at that check read,
  after the loop has given up, still counts, and the initialisation proceeds and can
  succeed. The failure of C4 therefore needs 65537 reads without acknowledge, one more
  than the ceiling of 65535 increments of \<open>wait_ack\<close>.
\<close>

theorem CAN_Init_late_ack:
  assumes "\<forall>j<65536. \<not> inak_set (MSR s (msr_reads s + j))"
    and "inak_set (MSR s (msr_reads s + 65536))"
    and "k2 \<le> 65535" and "\<forall>j<k2. inak_set (MSR s (msr_reads s + 65537 + j))"
    and "\<not> inak_set (MSR s (msr_reads s + 65537 + k2))"
    and "\<not> inak_set (MSR s (msr_reads s + k2 + 65538))"
  shows "CAN_Init c s =
    (CAN_InitStatus_Success,
     s\<lparr>MCR := can_mcr_flags c (MCR s AND NOT CAN_MCR_SLEEP OR CAN_MCR_INRQ) AND NOT CAN_MCR_INRQ,
       BTR := can_btr_value c, msr_reads := msr_reads s + k2 + 65539\<rparr>)"
proof -
  let ?s2 = "s\<lparr>MCR := MCR s AND NOT CAN_MCR_SLEEP OR CAN_MCR_INRQ\<rparr>"
  have "\<forall>j\<le>unat (INAK_TIMEOUT - 0). inak_set (MSR ?s2 (msr_reads ?s2 + j)) \<noteq> True"
    using assms(1) by (simp add: less_Suc_eq_le [symmetric])
  then have "wait_inak True 0 ?s2 = (INAK_TIMEOUT, ?s2\<lparr>msr_reads := msr_reads s + 65536\<rparr>)"
    by (simp add: wait_inak_timeout)
  from CAN_Init_after_ack [OF this, of k2 c] assms(2-6) show ?thesis
    by (simp add: ac_simps)
qed

lemma CAN_Init_Success_regs:
  assumes "CAN_Init c s = (CAN_InitStatus_Success, s')"
  shows "s' = s\<lparr>MCR := can_mcr_flags c (MCR s AND NOT CAN_MCR_SLEEP OR CAN_MCR_INRQ) AND NOT CAN_MCR_INRQ,
                  BTR := can_btr_value c, msr_reads := msr_reads s'\<rparr>"
proof -
  let ?s2 = "s\<lparr>MCR := MCR s AND NOT CAN_MCR_SLEEP OR CAN_MCR_INRQ\<rparr>"
  obtain w3 s3 where l1: "wait_inak True 0 ?s2 = (w3, s3)" by fastforce
  let ?s6 = "(can_init_config c (snd (read_MSR s3)))\<lparr>MCR := MCR (can_init_config c (snd (read_MSR s3))) AND NOT CAN_MCR_INRQ\<rparr>"
  obtain w7 s7 where l2: "wait_inak False 0 ?s6 = (w7, s7)" by fastforce
  obtain n3 where f1: "s3 = ?s2\<lparr>msr_reads := n3\<rparr>" using wait_inak_frame [OF l1] by blast
  obtain n7 where f2: "s7 = ?s6\<lparr>msr_reads := n7\<rparr>" using wait_inak_frame [OF l2] by blast
  have "s' = snd (read_MSR s7)"
    using assms l1 l2 by (simp add: CAN_Init_def Let_def read_MSR_def split: if_splits)
  then show ?thesis
    using f1 f2 by (simp add: read_MSR_def can_init_config_def)
qed

subsection \<open>The bit timing register\<close>

lemma btr_bits:
  "bit (can_btr_value c) n \<longleftrightarrow>
     (30 \<le> n \<and> n < 32 \<and> bit (CAN_Mode c) (n - 30)) \<or> (24 \<le> n \<and> bit (CAN_SJW c) (n - 24)) \<or>
     (16 \<le> n \<and> bit (CAN_BS1 c) (n - 16)) \<or> (20 \<le> n \<and> bit (CAN_BS2 c) (n - 20)) \<or>
     bit (ucast (CAN_Prescaler c) - 1 :: u32) n"
  by (auto simp: can_btr_value_def bit_or_iff bit_push_bit_iff bit_ucast_iff possible_bit_def dest: bit_imp_le_length)


lemma prescaler_minus_one_lt:
  assumes "1 \<le> p" and "p \<le> (1024::u16)"
  shows "(ucast p - 1 :: u32) < 2 ^ 10"
proof -
  have "unat p < 2 ^ 16" using unsigned_less [of p] by simp
  then have u: "unat (ucast p :: u32) = unat p"
    by (simp add: unsigned_ucast_eq take_bit_nat_eq_self_iff)
  have "1 \<le> unat p" using assms(1) by (simp add: word_le_nat_alt)
  moreover have "unat p \<le> 1024" using assms(2) by (simp add: word_le_nat_alt)
  moreover have "(1::u32) \<le> ucast p" using \<open>1 \<le> unat p\<close> u by (simp add: word_le_nat_alt)
  ultimately show ?thesis using u by (simp add: word_less_nat_alt unat_sub)
qed

text \<open>
  C5: with the parameters in the ranges \<open>assert_param\<close> checks, the packed BTR
  decodes field by field to the requested mode, SJW, BS1, BS2 and prescaler minus one:
  no field spills into its neighbour.
\<close>

theorem can_btr_roundtrip:
  assumes "can_init_params_ok c"
  shows "btr_fields (can_btr_value c) =
           (ucast (CAN_Mode c), ucast (CAN_SJW c), ucast (CAN_BS1 c), ucast (CAN_BS2 c),
            ucast (CAN_Prescaler c) - 1)"
proof -
  have lt: "CAN_Mode c < 2 ^ 2" "CAN_SJW c < 2 ^ 2" "CAN_BS1 c < 2 ^ 4" "CAN_BS2 c < 2 ^ 3"
    using assms by (auto simp: can_init_params_ok_def intro: le_less_trans)
  have p: "(ucast (CAN_Prescaler c) - 1 :: u32) < 2 ^ 10"
    using assms unfolding can_init_params_ok_def by (intro prescaler_minus_one_lt) simp_all
  note bnd = bit_word_lt_pow2 [OF lt(1)] bit_word_lt_pow2 [OF lt(2)] bit_word_lt_pow2 [OF lt(3)]
    bit_word_lt_pow2 [OF lt(4)] bit_word_lt_pow2 [OF p]
  show ?thesis
    unfolding btr_fields_def prod.inject
    by (intro conjI; rule bit_eqI;
        auto simp: btr_bits bit_take_bit_iff bit_drop_bit_eq bit_ucast_iff possible_bit_def
             dest: bnd)
qed

subsection \<open>Properties of a successful initialisation\<close>

lemma can_mcr_flags_bit [reg_simps]:
  "bit (can_mcr_flags c m) n \<longleftrightarrow>
     (if n = 2 then CAN_TXFP c = ENABLE else if n = 3 then CAN_RFLM c = ENABLE
      else if n = 4 then CAN_NART c = ENABLE else if n = 5 then CAN_AWUM c = ENABLE
      else if n = 6 then CAN_ABOM c = ENABLE else if n = 7 then CAN_TTCM c = ENABLE
      else bit m n)"
  by (simp add: can_mcr_flags_def reg_simps)

text \<open>
  C2: after a successful \<open>CAN_Init\<close>, each of the six flag bits of MCR (TTCM bit 7,
  ABOM 6, AWUM 5, NART 4, RFLM 3, TXFP 2) reads back as the value requested in the
  init structure, independently of the others; INRQ and SLEEP are clear; bits 8 and
  above (DBF, RESET) are those MCR had before the call; BTR holds the packed timing.
\<close>

theorem CAN_Init_flags:
  assumes "CAN_Init c s = (CAN_InitStatus_Success, s')"
  shows "(bit (MCR s') 7 \<longleftrightarrow> CAN_TTCM c = ENABLE) \<and> (bit (MCR s') 6 \<longleftrightarrow> CAN_ABOM c = ENABLE) \<and>
         (bit (MCR s') 5 \<longleftrightarrow> CAN_AWUM c = ENABLE) \<and> (bit (MCR s') 4 \<longleftrightarrow> CAN_NART c = ENABLE) \<and>
         (bit (MCR s') 3 \<longleftrightarrow> CAN_RFLM c = ENABLE) \<and> (bit (MCR s') 2 \<longleftrightarrow> CAN_TXFP c = ENABLE) \<and>
         \<not> bit (MCR s') 0 \<and> \<not> bit (MCR s') 1 \<and>
         (\<forall>n. 8 \<le> n \<longrightarrow> bit (MCR s') n = bit (MCR s) n) \<and> BTR s' = can_btr_value c"
proof -
  note e = CAN_Init_Success_regs [OF assms]
  have "MCR s' = can_mcr_flags c (MCR s AND NOT CAN_MCR_SLEEP OR CAN_MCR_INRQ) AND NOT CAN_MCR_INRQ"
    by (subst e) simp
  moreover have "BTR s' = can_btr_value c"
    by (subst e) simp
  ultimately show ?thesis by (simp add: reg_simps)
qed

text \<open>
  \<open>CAN_Init\<close> is idempotent on the register image: running it a second time with
  the same init structure, both handshakes succeeding, leaves every register as the
  first run left it (only the count of MSR reads advances).
\<close>

theorem CAN_Init_idempotent:
  assumes "CAN_Init c s = (CAN_InitStatus_Success, s1)"
    and "CAN_Init c s1 = (CAN_InitStatus_Success, s2)"
  shows "s2 = s1\<lparr>msr_reads := msr_reads s2\<rparr>"
proof -
  let ?m = "\<lambda>x. can_mcr_flags c (x AND NOT CAN_MCR_SLEEP OR CAN_MCR_INRQ) AND NOT CAN_MCR_INRQ"
  have r1: "s1 = s\<lparr>MCR := ?m (MCR s), BTR := can_btr_value c, msr_reads := msr_reads s1\<rparr>"
    by (rule CAN_Init_Success_regs [OF assms(1)])
  have r2: "s2 = s1\<lparr>MCR := ?m (MCR s1), BTR := can_btr_value c, msr_reads := msr_reads s2\<rparr>"
    by (rule CAN_Init_Success_regs [OF assms(2)])
  have "?m (?m x) = ?m x" for x
    by (rule bit_eqI) (auto simp: reg_simps)
  moreover have "MCR s1 = ?m (MCR s)" by (subst r1) simp
  ultimately have "?m (MCR s1) = MCR s1" by simp
  moreover have "BTR s1 = can_btr_value c" by (subst r1) simp
  ultimately show ?thesis by (subst r2) (cases s1, simp)
qed

text \<open>
  \<open>CAN_Prescaler - 1\<close> is computed in \<open>uint32_t\<close>: a prescaler of 0, which only
  \<open>assert_param\<close> rejects, wraps to \<open>0xFFFFFFFF\<close> and sets every bit of BTR, so the
  mode, SJW, BS1 and BS2 fields all read as their maximum.
\<close>

theorem can_btr_prescaler_zero:
  assumes "CAN_Prescaler c = 0"
  shows "can_btr_value c = 0xFFFFFFFF"
  using assms by (simp add: can_btr_value_def)

section \<open>Lemmas on the acceptance filter\<close>

lemma half_pack_eq [simp]: "half_pack h l = pack16 h l"
proof -
  have m: "(0x0000FFFF :: u32) = mask 16" by (simp add: mask_eq_exp_minus_1)
  show ?thesis
    unfolding half_pack_def pack16_def m
    by (rule bit_eqI)
       (auto simp: bit_or_iff bit_and_iff bit_push_bit_iff bit_ucast_iff bit_mask_iff
             dest: bit_imp_le_length)
qed

lemma bit_FMR_FINIT [reg_simps]: "bit FMR_FINIT n \<longleftrightarrow> n = 0"
  unfolding FMR_FINIT_def by (rule bit_mask_pow2) simp_all

lemma bit_filter_pos [reg_simps]:
  "bit (filter_number_bit_pos f) m \<longleftrightarrow> m = unat (CAN_FilterNumber f) \<and> unat (CAN_FilterNumber f) < 32"
  by (simp add: filter_number_bit_pos_def reg_simps)

lemma FR_of_set [simp]:
  "sFilterRegister (set_FR1 n v s) m = (if m = n then (sFilterRegister s n)\<lparr>FR1 := v\<rparr> else sFilterRegister s m)"
  "sFilterRegister (set_FR2 n v s) m = (if m = n then (sFilterRegister s n)\<lparr>FR2 := v\<rparr> else sFilterRegister s m)"
  by (simp_all add: set_FR1_def set_FR2_def)

lemma set_FR_other [simp]:
  "FMR (set_FR1 n v s) = FMR s" "FA1R (set_FR1 n v s) = FA1R s" "FS1R (set_FR1 n v s) = FS1R s"
  "FM1R (set_FR1 n v s) = FM1R s" "FFA1R (set_FR1 n v s) = FFA1R s"
  "FMR (set_FR2 n v s) = FMR s" "FA1R (set_FR2 n v s) = FA1R s" "FS1R (set_FR2 n v s) = FS1R s"
  "FM1R (set_FR2 n v s) = FM1R s" "FFA1R (set_FR2 n v s) = FFA1R s"
  "MCR (set_FR1 n v s) = MCR s" "BTR (set_FR1 n v s) = BTR s"
  "MCR (set_FR2 n v s) = MCR s" "BTR (set_FR2 n v s) = BTR s"
  "MSR (set_FR1 n v s) = MSR s" "msr_reads (set_FR1 n v s) = msr_reads s"
  "MSR (set_FR2 n v s) = MSR s" "msr_reads (set_FR2 n v s) = msr_reads s"
  by (simp_all add: set_FR1_def set_FR2_def)

lemmas filter_init_simps = CAN_FilterInit_def CAN_FilterInit_head_def CAN_FilterInit_tail_def Let_def

lemma FilterInit_FMR [simp]: "FMR (CAN_FilterInit f s) = FMR s AND NOT FMR_FINIT"
  by (rule bit_eqI) (auto simp: filter_init_simps reg_simps)

lemma FilterInit_FA1R [simp]:
  "FA1R (CAN_FilterInit f s) = cfg_bit (CAN_FilterActivation f = ENABLE) (filter_number_bit_pos f) (FA1R s)"
  by (rule bit_eqI) (auto simp: filter_init_simps reg_simps)

lemma FilterInit_FM1R [simp]:
  "FM1R (CAN_FilterInit f s) =
     cfg_bit (CAN_FilterMode f \<noteq> CAN_FilterMode_IdMask) (filter_number_bit_pos f) (FM1R s)"
  by (rule bit_eqI) (auto simp: filter_init_simps reg_simps)

lemma FilterInit_FS1R [simp]:
  "FS1R (CAN_FilterInit f s) =
     (if CAN_FilterScale f = CAN_FilterScale_16bit then FS1R s AND NOT (filter_number_bit_pos f)
      else if CAN_FilterScale f = CAN_FilterScale_32bit then FS1R s OR (filter_number_bit_pos f)
      else FS1R s)"
  by (simp add: filter_init_simps)

lemma FilterInit_FFA1R [simp]:
  "FFA1R (CAN_FilterInit f s) =
     (if CAN_FilterFIFOAssignment f = CAN_Filter_FIFO0 then FFA1R s AND NOT (filter_number_bit_pos f)
      else if CAN_FilterFIFOAssignment f = CAN_Filter_FIFO1 then FFA1R s OR (filter_number_bit_pos f)
      else FFA1R s)"
  by (simp add: filter_init_simps)

lemma FilterInit_regs [simp]:
  "sFilterRegister (CAN_FilterInit f s) = filter_regs_after f s"
  by (rule ext) (simp add: filter_init_simps filter_regs_after_def)

lemma FilterInit_other [simp]:
  "MCR (CAN_FilterInit f s) = MCR s" "BTR (CAN_FilterInit f s) = BTR s"
  "MSR (CAN_FilterInit f s) = MSR s" "msr_reads (CAN_FilterInit f s) = msr_reads s"
  by (simp_all add: filter_init_simps)

subsection \<open>Properties of CAN_FilterInit\<close>

text \<open>
  C8: a 32-bit scale filter programs the bank's register pair with the identifier
  (\<open>IdHigh << 16 | IdLow\<close>) and the mask (\<open>MaskIdHigh << 16 | MaskIdLow\<close>) and sets
  the bank's bit in FS1R.
\<close>

theorem CAN_FilterInit_32bit:
  assumes "CAN_FilterScale f = CAN_FilterScale_32bit" and "CAN_FilterNumber f < 32"
  shows "FR1 (sFilterRegister (CAN_FilterInit f s) (unat (CAN_FilterNumber f)))
           = pack16 (CAN_FilterIdHigh f) (CAN_FilterIdLow f) \<and>
         FR2 (sFilterRegister (CAN_FilterInit f s) (unat (CAN_FilterNumber f)))
           = pack16 (CAN_FilterMaskIdHigh f) (CAN_FilterMaskIdLow f) \<and>
         bit (FS1R (CAN_FilterInit f s)) (unat (CAN_FilterNumber f))"
  using assms by (simp add: filter_regs_after_def Let_def reg_simps word_less_nat_alt)

text \<open>
  C9: a 16-bit scale filter packs the first identifier/mask pair
  (\<open>MaskIdLow << 16 | IdLow\<close>) into FR1 and the second (\<open>MaskIdHigh << 16 | IdHigh\<close>)
  into FR2, and clears the bank's bit in FS1R.
\<close>

theorem CAN_FilterInit_16bit:
  assumes "CAN_FilterScale f = CAN_FilterScale_16bit" and "CAN_FilterNumber f < 32"
  shows "FR1 (sFilterRegister (CAN_FilterInit f s) (unat (CAN_FilterNumber f)))
           = pack16 (CAN_FilterMaskIdLow f) (CAN_FilterIdLow f) \<and>
         FR2 (sFilterRegister (CAN_FilterInit f s) (unat (CAN_FilterNumber f)))
           = pack16 (CAN_FilterMaskIdHigh f) (CAN_FilterIdHigh f) \<and>
         \<not> bit (FS1R (CAN_FilterInit f s)) (unat (CAN_FilterNumber f))"
  using assms by (simp add: filter_regs_after_def Let_def reg_simps word_less_nat_alt)

text \<open>
  C10: reconfiguring a bank leaves no residue of its earlier configuration: with a
  valid scale and FIFO, the bank after configuring it twice is the bank after the
  second configuration alone (register pair, scale, mode, FIFO and activation bits).
\<close>

theorem CAN_FilterInit_last_wins:
  assumes "CAN_FilterNumber f1 = CAN_FilterNumber f2" and "CAN_FilterNumber f2 < 32"
    and "CAN_FilterScale f2 \<le> 1" and "CAN_FilterFIFOAssignment f2 \<le> 1"
  shows "filter_bank (CAN_FilterInit f2 (CAN_FilterInit f1 s)) (unat (CAN_FilterNumber f2)) =
         filter_bank (CAN_FilterInit f2 s) (unat (CAN_FilterNumber f2))"
proof -
  have sc: "CAN_FilterScale f2 = 0 \<or> CAN_FilterScale f2 = 1"
    using assms(3) by (rule word_le_1_cases)
  have fi: "CAN_FilterFIFOAssignment f2 = 0 \<or> CAN_FilterFIFOAssignment f2 = 1"
    using assms(4) by (rule word_le_1_cases)
  show ?thesis
    using sc fi assms(1,2)
    by (auto simp: filter_bank_def filter_regs_after_def Let_def reg_simps word_less_nat_alt)
qed

text \<open>
  C11: \<open>CAN_FilterInit\<close> touches one bank only: every other bank keeps its register pair
  and its scale, mode, FIFO and activation bits; MCR and BTR are unchanged; of FMR only
  FINIT (bit 0) may change.
\<close>

theorem CAN_FilterInit_frame:
  assumes "m \<noteq> unat (CAN_FilterNumber f)"
  shows "filter_bank (CAN_FilterInit f s) m = filter_bank s m \<and>
         MCR (CAN_FilterInit f s) = MCR s \<and> BTR (CAN_FilterInit f s) = BTR s \<and>
         (\<forall>k. k \<noteq> 0 \<longrightarrow> bit (FMR (CAN_FilterInit f s)) k = bit (FMR s) k)"
  using assms by (simp add: filter_bank_def filter_regs_after_def Let_def reg_simps)

text \<open>
  After \<open>CAN_FilterInit\<close> the bank is in identifier-list mode exactly when the mode
  is not identifier/mask, is assigned to FIFO 1 exactly when FIFO 1 was requested, is
  active exactly when activation was requested (a bank configured with activation
  disabled stays deactivated), and the filters have left initialisation mode.
\<close>

theorem CAN_FilterInit_bank_config:
  assumes "CAN_FilterNumber f < 32" and "CAN_FilterFIFOAssignment f \<le> 1"
  shows "(bit (FM1R (CAN_FilterInit f s)) (unat (CAN_FilterNumber f)) \<longleftrightarrow>
            CAN_FilterMode f \<noteq> CAN_FilterMode_IdMask) \<and>
         (bit (FFA1R (CAN_FilterInit f s)) (unat (CAN_FilterNumber f)) \<longleftrightarrow>
            CAN_FilterFIFOAssignment f = CAN_Filter_FIFO1) \<and>
         (bit (FA1R (CAN_FilterInit f s)) (unat (CAN_FilterNumber f)) \<longleftrightarrow>
            CAN_FilterActivation f = ENABLE) \<and>
         \<not> bit (FMR (CAN_FilterInit f s)) 0"
proof -
  have "CAN_FilterFIFOAssignment f = 0 \<or> CAN_FilterFIFOAssignment f = 1"
    using assms(2) by (rule word_le_1_cases)
  then show ?thesis
    using assms(1) by (auto simp: reg_simps word_less_nat_alt)
qed

text \<open>
  C13: the scale is tested by two separate \<open>if\<close>s, one per valid value, with no
  \<open>else\<close>: a scale other than 16-bit or 32-bit, which only \<open>assert_param\<close> rejects,
  writes neither the register pair nor the scale bit, while the bank is still
  deactivated and reconfigured otherwise.
\<close>

theorem CAN_FilterInit_bad_scale:
  assumes "1 < CAN_FilterScale f"
  shows "sFilterRegister (CAN_FilterInit f s) = sFilterRegister s \<and>
         FS1R (CAN_FilterInit f s) = FS1R s"
proof -
  from assms have "CAN_FilterScale f \<noteq> 0" and "CAN_FilterScale f \<noteq> 1" by auto
  then show ?thesis by (simp add: filter_regs_after_def Let_def)
qed

section \<open>Witnesses on concrete register images\<close>

text \<open>
  The register block after reset (MCR \<open>0x00010002\<close>: DBF and SLEEP; BTR
  \<open>0x01230000\<close>; FMR \<open>0x2A1C0E01\<close>), with a controller that acknowledges each
  initialisation request at the fourth read of MSR and releases it three reads after
  the request is withdrawn: MSR reads \<open>0x0C01\<close> (INAK set) at reads 3 to 7 and 13 to
  17. The configuration is the spec's end-to-end scenario: loopback mode, BS1 = 6 tq,
  BS2 = 3 tq, SJW = 1 tq, prescaler 10, automatic bus-off management only.
\<close>

abbreviation can_example_hw :: CAN_TypeDef where
  "can_example_hw \<equiv>
     \<lparr>MCR = 0x00010002,
      MSR = (\<lambda>k. if 3 \<le> k \<and> k < 8 \<or> 13 \<le> k \<and> k < 18 then 0x00000C01 else 0x00000C02),
      msr_reads = 0, BTR = 0x01230000, FMR = 0x2A1C0E01, FM1R = 0, FS1R = 0, FFA1R = 0,
      FA1R = 0, sFilterRegister = (\<lambda>_. \<lparr>FR1 = 0, FR2 = 0\<rparr>)\<rparr>"

abbreviation can_example_cfg :: CAN_InitTypeDef where
  "can_example_cfg \<equiv>
     \<lparr>CAN_Prescaler = 10, CAN_Mode = 1, CAN_SJW = 0, CAN_BS1 = 5, CAN_BS2 = 2,
      CAN_TTCM = DISABLE, CAN_ABOM = ENABLE, CAN_AWUM = DISABLE, CAN_NART = DISABLE,
      CAN_RFLM = DISABLE, CAN_TXFP = DISABLE\<rparr>"

abbreviation can_filter32_example :: CAN_FilterInitTypeDef where
  "can_filter32_example \<equiv>
     \<lparr>CAN_FilterIdHigh = 0x1234, CAN_FilterIdLow = 0x5678, CAN_FilterMaskIdHigh = 0xFFFF,
      CAN_FilterMaskIdLow = 0xFFF8, CAN_FilterFIFOAssignment = 1, CAN_FilterNumber = 0,
      CAN_FilterMode = 0, CAN_FilterScale = 1, CAN_FilterActivation = ENABLE\<rparr>"

abbreviation can_filter16_example :: CAN_FilterInitTypeDef where
  "can_filter16_example \<equiv>
     \<lparr>CAN_FilterIdHigh = 0x0240, CAN_FilterIdLow = 0x0120, CAN_FilterMaskIdHigh = 0xFFE0,
      CAN_FilterMaskIdLow = 0xFFE0, CAN_FilterFIFOAssignment = 0, CAN_FilterNumber = 0,
      CAN_FilterMode = 0, CAN_FilterScale = 0, CAN_FilterActivation = DISABLE\<rparr>"

lemma can_example_run:
  "CAN_Init can_example_cfg can_example_hw =
     (CAN_InitStatus_Success, can_example_hw\<lparr>MCR := 0x00010040, BTR := 0x40250009, msr_reads := 10\<rparr>)"
  by (simp add: CAN_Init_def wait_inak_unfold read_MSR_def inak_set_def can_init_config_def
      can_mcr_flags_def cfg_bit_def can_btr_value_def can_mask_defs INAK_TIMEOUT_def)

lemma can_example_rerun:
  "CAN_Init can_example_cfg (can_example_hw\<lparr>MCR := 0x00010040, BTR := 0x40250009, msr_reads := 10\<rparr>) =
     (CAN_InitStatus_Success, can_example_hw\<lparr>MCR := 0x00010040, BTR := 0x40250009, msr_reads := 20\<rparr>)"
  by (simp add: CAN_Init_def wait_inak_unfold read_MSR_def inak_set_def can_init_config_def
      can_mcr_flags_def cfg_bit_def can_btr_value_def can_mask_defs INAK_TIMEOUT_def)

theorem CAN_Init_success_witness:
  "CAN_Init can_example_cfg can_example_hw =
     (CAN_InitStatus_Success, can_example_hw\<lparr>MCR := 0x00010040, BTR := 0x40250009, msr_reads := 10\<rparr>)"
  using CAN_Init_success [of 3 can_example_hw 3 can_example_cfg]
  by (simp add: inak_set_def can_mcr_flags_def cfg_bit_def can_btr_value_def can_mask_defs)

theorem CAN_Init_flags_witness:
  "bit (0x00010040 :: u32) 6 \<and> \<not> bit (0x00010040 :: u32) 7 \<and> \<not> bit (0x00010040 :: u32) 5 \<and>
   (0x40250009 :: u32) = can_btr_value can_example_cfg"
  using CAN_Init_flags [OF can_example_run] by simp

theorem CAN_Init_idempotent_witness:
  "can_example_hw\<lparr>MCR := 0x00010040, BTR := 0x40250009, msr_reads := 20\<rparr> =
   (can_example_hw\<lparr>MCR := 0x00010040, BTR := 0x40250009, msr_reads := 10\<rparr>)\<lparr>msr_reads := 20\<rparr>"
  using CAN_Init_idempotent [OF can_example_run can_example_rerun] by simp

theorem CAN_Init_timeout_witness:
  "CAN_Init can_example_cfg (can_example_hw\<lparr>MSR := (\<lambda>_. 0x00000C02)\<rparr>) =
     (CAN_InitStatus_Failed,
      can_example_hw\<lparr>MSR := (\<lambda>_. 0x00000C02), MCR := 0x00010001, msr_reads := 65537\<rparr>)"
  using CAN_Init_timeout [of "can_example_hw\<lparr>MSR := (\<lambda>_. 0x00000C02)\<rparr>" can_example_cfg]
  by (simp add: inak_set_def can_mask_defs)

theorem can_btr_roundtrip_witness:
  "can_init_params_ok can_example_cfg \<and> btr_fields (can_btr_value can_example_cfg) = (1, 0, 5, 2, 9)"
  using can_btr_roundtrip [of can_example_cfg] by (simp add: can_init_params_ok_def)

theorem can_btr_prescaler_zero_witness:
  "can_btr_value (can_example_cfg\<lparr>CAN_Prescaler := 0\<rparr>) = 0xFFFFFFFF"
  using can_btr_prescaler_zero [of "can_example_cfg\<lparr>CAN_Prescaler := 0\<rparr>"] by simp

theorem CAN_Init_late_ack_witness:
  "CAN_Init can_example_cfg
     (can_example_hw\<lparr>MSR := (\<lambda>k. if 65536 \<le> k \<and> k < 65539 then 0x00000C01 else 0x00000C02)\<rparr>) =
   (CAN_InitStatus_Success,
    can_example_hw\<lparr>MSR := (\<lambda>k. if 65536 \<le> k \<and> k < 65539 then 0x00000C01 else 0x00000C02),
       MCR := 0x00010040, BTR := 0x40250009, msr_reads := 65541\<rparr>)"
  using CAN_Init_late_ack [of "can_example_hw\<lparr>MSR := (\<lambda>k. if 65536 \<le> k \<and> k < 65539
      then 0x00000C01 else 0x00000C02)\<rparr>" 2 can_example_cfg]
  by (simp add: inak_set_def can_mcr_flags_def cfg_bit_def can_btr_value_def can_mask_defs)

theorem CAN_FilterInit_32bit_witness:
  "FR1 (sFilterRegister (CAN_FilterInit can_filter32_example can_example_hw) 0) = 0x12345678 \<and>
   FR2 (sFilterRegister (CAN_FilterInit can_filter32_example can_example_hw) 0) = 0xFFFFFFF8 \<and>
   bit (FS1R (CAN_FilterInit can_filter32_example can_example_hw)) 0"
  using CAN_FilterInit_32bit [of can_filter32_example can_example_hw] by (simp add: pack16_def)

theorem CAN_FilterInit_16bit_witness:
  "FR1 (sFilterRegister (CAN_FilterInit can_filter16_example can_example_hw) 0) = 0xFFE00120 \<and>
   FR2 (sFilterRegister (CAN_FilterInit can_filter16_example can_example_hw) 0) = 0xFFE00240 \<and>
   \<not> bit (FS1R (CAN_FilterInit can_filter16_example can_example_hw)) 0"
  using CAN_FilterInit_16bit [of can_filter16_example can_example_hw] by (simp add: pack16_def)

theorem CAN_FilterInit_last_wins_witness:
  "filter_bank (CAN_FilterInit can_filter32_example (CAN_FilterInit can_filter16_example can_example_hw)) 0 =
   filter_bank (CAN_FilterInit can_filter32_example can_example_hw) 0"
  using CAN_FilterInit_last_wins [of can_filter16_example can_filter32_example can_example_hw] by simp

theorem CAN_FilterInit_frame_witness:
  "filter_bank (CAN_FilterInit can_filter32_example can_example_hw) 1 = filter_bank can_example_hw 1"
  using CAN_FilterInit_frame [of 1 can_filter32_example can_example_hw] by simp

theorem CAN_FilterInit_bank_config_witness:
  "\<not> bit (FM1R (CAN_FilterInit can_filter32_example can_example_hw)) 0 \<and>
   bit (FFA1R (CAN_FilterInit can_filter32_example can_example_hw)) 0 \<and>
   bit (FA1R (CAN_FilterInit can_filter32_example can_example_hw)) 0 \<and>
   \<not> bit (FMR (CAN_FilterInit can_filter32_example can_example_hw)) 0"
  using CAN_FilterInit_bank_config [of can_filter32_example can_example_hw] by simp

theorem CAN_FilterInit_bad_scale_witness:
  "sFilterRegister (CAN_FilterInit (can_filter32_example\<lparr>CAN_FilterScale := 2\<rparr>) can_example_hw) =
   sFilterRegister can_example_hw"
  using CAN_FilterInit_bad_scale [of "can_filter32_example\<lparr>CAN_FilterScale := 2\<rparr>" can_example_hw]
  by simp

end
