(* ===== verification/MiscLib.thy ===== *)
theory MiscLib
  imports Prelude
begin

text \<open>
  The string and memory helpers of \<^verbatim>\<open>src/Utilities/STM32_EVAL/STM3210B_EVAL/misc_lib.c\<close>.
  Memory is a byte store \<open>mem = nat \<Rightarrow> u8\<close> (addresses as numbers, \<open>NULL\<close> is 0), so
  that pointer results, NUL termination and overlapping buffers are explicit.
  \<open>DECToASCII\<close> and \<open>HexToASCII\<close> are proved equal to a reference conversion through
  base-\<open>b\<close> digits and inverted by a parser; the scanning loops that may not stop
  (\<open>StrLen\<close>, \<open>StrCat\<close>) are \<^theory_text>\<open>partial_function (option)\<close>, with the result
  \<open>None\<close> for a loop that runs forever.
\<close>

unbundle bit_operations_syntax

type_synonym mem = "nat \<Rightarrow> u8"

section \<open>Writing a run of bytes\<close>

text \<open>The effect of a sequence \<open>*p++ = b\<^sub>0; *p++ = b\<^sub>1; ...\<close>.\<close>

fun write_bytes :: "nat \<Rightarrow> u8 list \<Rightarrow> mem \<Rightarrow> mem" where
  "write_bytes p [] m = m"
| "write_bytes p (b # bs) m = write_bytes (Suc p) bs (m(p := b))"

section \<open>Reference: digits in base b\<close>

fun base_digits :: "nat \<Rightarrow> nat \<Rightarrow> nat list" where
  "base_digits b n = (if n = 0 \<or> b < 2 then [] else base_digits b (n div b) @ [n mod b])"

declare base_digits.simps [simp del]

definition digits_value :: "nat \<Rightarrow> nat list \<Rightarrow> nat" where
  "digits_value b ds = foldl (\<lambda>acc d. b * acc + d) 0 ds"

definition dchar :: "nat \<Rightarrow> u8" where
  "dchar d = 48 + of_nat d"

definition hchar :: "nat \<Rightarrow> u8" where
  "hchar d = (if d < 10 then 48 + of_nat d else 87 + of_nat d)"

definition dec_value :: "u8 list \<Rightarrow> nat" where
  "dec_value cs = digits_value 10 (map (\<lambda>c. unat c - 48) cs)"

definition hex_value :: "u8 list \<Rightarrow> nat" where
  "hex_value cs = digits_value 16 (map (\<lambda>c. if 97 \<le> c then unat c - 87 else unat c - 48) cs)"

text \<open>The strings \<open>printf\<close> would print for \<open>%u\<close> and \<open>%#x\<close>.\<close>

definition dec_ref :: "nat \<Rightarrow> u8 list" where
  "dec_ref n = map dchar (if n = 0 then [0] else base_digits 10 n)"

definition hex_ref :: "nat \<Rightarrow> u8 list" where
  "hex_ref n = [48, 120] @ map hchar (if n = 0 then [0] else base_digits 16 n)"

section \<open>DECToASCII and HexToASCII\<close>

text \<open>
  \<^verbatim>\<open>while (dat) { *stmp++ = dat % 10 + '0'; dat = dat / 10; }\<close>: the digits are pushed
  on the stack \<open>tmp\<close>, least significant first, above a 0 sentinel; the stack is a
  list with its top first. The character is computed in \<open>uint32_t\<close> and stored in a
  \<open>char\<close>.
\<close>

function dec_push :: "u32 \<Rightarrow> u8 list \<Rightarrow> u8 list" where
  "dec_push dat stk = (if dat = 0 then stk else dec_push (dat div 10) (ucast (dat mod 10 + 48) # stk))"
  by pat_completeness auto
termination
  by (relation "measure (\<lambda>(dat, stk). unat dat)")
     (auto simp: unat_div word_neq_0_conv unat_gt_0)

declare dec_push.simps [simp del]

text \<open>
  \<^verbatim>\<open>while (dat) { i = dat & 0x0f; *stmp++ = i < 10 ? '0' + i : 'a' + i - 0xa; dat >>= 4; }\<close>
\<close>

function hex_push :: "u32 \<Rightarrow> u8 list \<Rightarrow> u8 list" where
  "hex_push dat stk =
     (if dat = 0 then stk
      else (let i = dat AND 0x0f in
            hex_push (drop_bit 4 dat) ((if i < 10 then 48 + ucast i else 97 + ucast i - 10) # stk)))"
  by pat_completeness auto
termination
  by (relation "measure (\<lambda>(dat, stk). unat dat)")
     (auto simp: drop_bit_eq_div unat_div word_neq_0_conv unat_gt_0)

declare hex_push.simps [simp del]

text \<open>
  \<^verbatim>\<open>while (*(--stmp)) *str++ = *stmp;\<close> pops the stack down to the sentinel; then
  \<^verbatim>\<open>*str = 0; return str;\<close>. The result is the pointer to the terminator and the
  new store.
\<close>

definition DECToASCII :: "u32 \<Rightarrow> nat \<Rightarrow> mem \<Rightarrow> nat \<times> mem" where
  "DECToASCII dat str m =
     (let out = (if dat = 0 then [48] else []) @ takeWhile (\<lambda>c. c \<noteq> 0) (dec_push dat [])
      in (str + length out, write_bytes str (out @ [0]) m))"

definition HexToASCII :: "u32 \<Rightarrow> nat \<Rightarrow> mem \<Rightarrow> nat \<times> mem" where
  "HexToASCII dat str m =
     (let out = [48, 120] @ (if dat = 0 then [48] else []) @ takeWhile (\<lambda>c. c \<noteq> 0) (hex_push dat [])
      in (str + length out, write_bytes str (out @ [0]) m))"

section \<open>Memcpy and MemSet\<close>

text \<open>
  \<^verbatim>\<open>while ((c--) > 0) { *(dst++) = *(src++); }\<close> with an \<open>int32_t\<close> counter: the loop
  body runs while the counter before the decrement is positive. Bytes are copied one
  at a time from low to high addresses, each read after the previous writes.
\<close>

function Memcpy :: "nat \<Rightarrow> nat \<Rightarrow> i32 \<Rightarrow> mem \<Rightarrow> mem" where
  "Memcpy dst src c m = (if 0 < sint c then Memcpy (Suc dst) (Suc src) (c - 1) (m(dst := m src)) else m)"
  by pat_completeness auto
termination
  by (relation "measure (\<lambda>(dst, src, c, m). nat (sint c))") (auto simp: sint_dec)

declare Memcpy.simps [simp del]

text \<open>\<^verbatim>\<open>while ((num--) > 0) { *(p++) = c; }\<close>\<close>

function MemSet :: "nat \<Rightarrow> u8 \<Rightarrow> i32 \<Rightarrow> mem \<Rightarrow> mem" where
  "MemSet p c num m = (if 0 < sint num then MemSet (Suc p) c (num - 1) (m(p := c)) else m)"
  by pat_completeness auto
termination
  by (relation "measure (\<lambda>(p, c, num, m). nat (sint num))") (auto simp: sint_dec)

declare MemSet.simps [simp del]

section \<open>StrCat, StrLen, StrNLen\<close>

text \<open>
  \<^verbatim>\<open>while (*destion++ != NULL); destion--;\<close>: the scan stops on the terminator of the
  destination string, and does not stop when there is none.
\<close>

partial_function (option) scan_nul :: "mem \<Rightarrow> nat \<Rightarrow> nat option" where
  "scan_nul m d = (if m d \<noteq> 0 then scan_nul m (Suc d) else Some d)"

declare scan_nul.simps [code]

text \<open>\<^verbatim>\<open>while (*source != NULL) { *(destion++) = *(source++); }\<close>\<close>

partial_function (option) copy_str :: "mem \<Rightarrow> nat \<Rightarrow> nat \<Rightarrow> (nat \<times> mem) option" where
  "copy_str m d s = (if m s \<noteq> 0 then copy_str (m(d := m s)) (Suc d) (Suc s) else Some (d, m))"

declare copy_str.simps [code]

text \<open>
  \<open>StrCat\<close> returns \<open>NULL\<close> (address 0) for a \<open>NULL\<close> argument, and otherwise the
  pointer to the terminator it writes. \<open>None\<close> is a call that does not return.
\<close>

definition StrCat :: "mem \<Rightarrow> nat \<Rightarrow> nat \<Rightarrow> (nat \<times> mem) option" where
  "StrCat m destion source =
     (if destion = 0 \<or> source = 0 then Some (0, m)
      else (case scan_nul m destion of
              None \<Rightarrow> None
            | Some d \<Rightarrow> (case copy_str m d source of
                          None \<Rightarrow> None
                        | Some (d', m') \<Rightarrow> Some (d', m'(d' := 0)))))"

text \<open>\<^verbatim>\<open>while (*(string++)) i++; return i;\<close> with an \<open>int32_t\<close> counter.\<close>

partial_function (option) StrLen_loop :: "mem \<Rightarrow> nat \<Rightarrow> i32 \<Rightarrow> i32 option" where
  "StrLen_loop m s i = (if m s \<noteq> 0 then StrLen_loop m (Suc s) (i + 1) else Some i)"

declare StrLen_loop.simps [code]

definition StrLen :: "mem \<Rightarrow> nat \<Rightarrow> i32 option" where
  "StrLen m string = StrLen_loop m string 0"

text \<open>
  \<^verbatim>\<open>while (*(string++)) { if ((precision != -1) && (i >= precision)) break; i++; }\<close>:
  the character is read before the bound is tested; the comparison is signed.
\<close>

partial_function (option) StrNLen_loop :: "mem \<Rightarrow> nat \<Rightarrow> i32 \<Rightarrow> i32 \<Rightarrow> i32 option" where
  "StrNLen_loop m s precision i =
     (if m s \<noteq> 0 then
        (if precision \<noteq> -1 \<and> sint precision \<le> sint i then Some i
         else StrNLen_loop m (Suc s) precision (i + 1))
      else Some i)"

declare StrNLen_loop.simps [code]

definition StrNLen :: "mem \<Rightarrow> nat \<Rightarrow> i32 \<Rightarrow> i32 option" where
  "StrNLen m string precision = StrNLen_loop m string precision 0"

section \<open>MemCmp\<close>

text \<open>
  \<^verbatim>\<open>for (i = 0; i < len; i++) { if ((*s1 - *s2)) return (*s1 - *s2); s1++; s2++; }\<close>.
  \<open>char\<close> is unsigned on the ARM EABI, so the difference of two characters is taken
  between their values in 0..255.
\<close>

function MemCmp_loop :: "mem \<Rightarrow> nat \<Rightarrow> nat \<Rightarrow> int \<Rightarrow> int \<Rightarrow> int" where
  "MemCmp_loop m s1 s2 i len =
     (if i < len then
        (if uint (m s1) - uint (m s2) \<noteq> 0 then uint (m s1) - uint (m s2)
         else MemCmp_loop m (Suc s1) (Suc s2) (i + 1) len)
      else 0)"
  by pat_completeness auto
termination
  by (relation "measure (\<lambda>(m, s1, s2, i, len). nat (len - i))") auto

declare MemCmp_loop.simps [simp del]

definition MemCmp :: "mem \<Rightarrow> nat \<Rightarrow> nat \<Rightarrow> i32 \<Rightarrow> int" where
  "MemCmp m str1 str2 len = MemCmp_loop m str1 str2 0 (sint len)"


section \<open>Lemmas\<close>

subsection \<open>Byte store and digits\<close>
lemma write_bytes_apply [simp]:
  "write_bytes p bs m a = (if p \<le> a \<and> a < p + length bs then bs ! (a - p) else m a)"
  by (induction bs arbitrary: p m) (auto simp: nth_Cons' Suc_diff_Suc)

lemma base_digits_less: "2 \<le> b \<Longrightarrow> d \<in> set (base_digits b n) \<Longrightarrow> d < b"
  by (induction b n rule: base_digits.induct) (subst (asm) (2) base_digits.simps; auto split: if_splits)

lemma base_digits_0 [simp]: "base_digits b 0 = []"
  by (simp add: base_digits.simps)

lemma digits_value_Nil [simp]: "digits_value b [] = 0"
  by (simp add: digits_value_def)

lemma digits_value_zero [simp]: "digits_value b [0] = 0"
  by (simp add: digits_value_def)

lemma digits_value_snoc [simp]: "digits_value b (ds @ [d]) = b * digits_value b ds + d"
  by (simp add: digits_value_def)

lemma digits_value_base_digits [simp]: "2 \<le> b \<Longrightarrow> digits_value b (base_digits b n) = n"
  by (induction b n rule: base_digits.induct) (subst base_digits.simps; simp)

lemma base_digits_length: "n < b ^ k \<Longrightarrow> length (base_digits b n) \<le> k"
proof (induction k arbitrary: n)
  case 0 then show ?case by simp
next
  case (Suc k)
  then show ?case
    by (subst base_digits.simps) (auto simp: less_mult_imp_div_less mult.commute)
qed

lemma base_digits_nonempty: "0 < n \<Longrightarrow> 2 \<le> b \<Longrightarrow> base_digits b n \<noteq> []"
  by (subst base_digits.simps) simp

lemma ucast_u32_u8: "(ucast (w :: u32) :: u8) = of_nat (unat w)"
  by (simp add: of_nat_unat)

lemma dec_push_eq: "dec_push dat stk = map dchar (base_digits 10 (unat dat)) @ stk"
proof (induction dat stk rule: dec_push.induct)
  case (1 dat stk)
  show ?case
  proof (cases "dat = 0")
    case True then show ?thesis by (subst dec_push.simps) simp
  next
    case False
    then have "unat (dat mod 10 + 48) = unat dat mod 10 + 48"
      by (simp add: unat_word_ariths unat_mod)
    have d: "base_digits 10 (unat dat) = base_digits 10 (unat dat div 10) @ [unat dat mod 10]"
      using False by (subst base_digits.simps) (simp add: unat_gt_0)
    have p: "dec_push dat stk = dec_push (dat div 10) (ucast (dat mod 10 + 48) # stk)"
      using False by (subst dec_push.simps) simp
    from False 1 show ?thesis
      unfolding d p using \<open>unat (dat mod 10 + 48) = _\<close>
      by (simp add: unat_div ucast_u32_u8 dchar_def)
  qed
qed

lemma unat_and_0xf: "unat ((w :: u32) AND 0x0f) = unat w mod 16"
proof -
  have "w AND 0x0f = take_bit 4 w" by (simp add: take_bit_eq_mask mask_eq_exp_minus_1)
  then show ?thesis by (simp add: unsigned_take_bit_eq take_bit_eq_mod unat_mod)
qed

lemma hex_push_eq: "hex_push dat stk = map hchar (base_digits 16 (unat dat)) @ stk"
proof (induction dat stk rule: hex_push.induct)
  case (1 dat stk)
  show ?case
  proof (cases "dat = 0")
    case True then show ?thesis by (subst hex_push.simps) simp
  next
    case False
    let ?i = "dat AND 0x0f"
    have i: "unat ?i = unat dat mod 16" by (rule unat_and_0xf)
    have c: "(if ?i < 10 then 48 + ucast ?i else 97 + ucast ?i - 10) = hchar (unat dat mod 16)"
      using i by (simp add: hchar_def ucast_u32_u8 word_less_nat_alt)
    have d: "base_digits 16 (unat dat) = base_digits 16 (unat dat div 16) @ [unat dat mod 16]"
      using False by (subst base_digits.simps) (simp add: unat_gt_0)
    have p: "hex_push dat stk = hex_push (drop_bit 4 dat)
               ((if ?i < 10 then 48 + ucast ?i else 97 + ucast ?i - 10) # stk)"
      using False by (subst hex_push.simps) (simp add: Let_def)
    show ?thesis
      using 1 [OF False refl] unfolding d p c by (simp add: drop_bit_eq_div unat_div)
  qed
qed

lemma unat_dchar: "d < 10 \<Longrightarrow> unat (dchar d) = 48 + d"
proof -
  have "dchar d = of_nat (48 + d)" by (simp add: dchar_def)
  moreover assume "d < 10"
  ultimately show ?thesis by (simp only:, subst unat_of_nat) simp
qed

lemma unat_hchar: "d < 16 \<Longrightarrow> unat (hchar d) = (if d < 10 then 48 + d else 87 + d)"
proof -
  have "hchar d = of_nat (if d < 10 then 48 + d else 87 + d)" by (simp add: hchar_def)
  moreover assume "d < 16"
  ultimately show ?thesis by (simp add: unat_of_nat)
qed

lemma dchar_nonzero: "d < 10 \<Longrightarrow> dchar d \<noteq> 0"
  by (metis unat_dchar unsigned_0 add_is_0 zero_neq_numeral)

lemma hchar_nonzero: "d < 16 \<Longrightarrow> hchar d \<noteq> 0"
  by (metis unat_hchar unsigned_0 add_is_0 zero_neq_numeral)

lemma map_write_bytes:
  "k \<le> length bs \<Longrightarrow> map (write_bytes p bs m) [p..<p + k] = take k bs"
  by (rule nth_equalityI) auto

lemma map_write_bytes_from:
  "i \<le> k \<Longrightarrow> k \<le> length bs \<Longrightarrow> map (write_bytes p bs m) [p + i..<p + k] = take (k - i) (drop i bs)"
  by (rule nth_equalityI) auto

lemma DECToASCII_eq:
  "DECToASCII dat str m = (str + length (dec_ref (unat dat)), write_bytes str (dec_ref (unat dat) @ [0]) m)"
proof -
  have "takeWhile (\<lambda>c. c \<noteq> 0) (dec_push dat []) = map dchar (base_digits 10 (unat dat))"
    by (auto simp: dec_push_eq takeWhile_eq_all_conv dchar_nonzero base_digits_less)
  then show ?thesis by (simp add: DECToASCII_def dec_ref_def unat_eq_zero dchar_def)
qed

lemma HexToASCII_eq:
  "HexToASCII dat str m = (str + length (hex_ref (unat dat)), write_bytes str (hex_ref (unat dat) @ [0]) m)"
proof -
  have "takeWhile (\<lambda>c. c \<noteq> 0) (hex_push dat []) = map hchar (base_digits 16 (unat dat))"
    by (auto simp: hex_push_eq takeWhile_eq_all_conv hchar_nonzero base_digits_less)
  then show ?thesis by (simp add: HexToASCII_def hex_ref_def unat_eq_zero hchar_def)
qed

lemma dec_value_dec_ref: "dec_value (dec_ref n) = n"
proof -
  have "map (\<lambda>c. unat c - 48) (dec_ref n) = (if n = 0 then [0] else base_digits 10 n)"
    by (auto simp: dec_ref_def unat_dchar base_digits_less intro!: map_idI)
  then show ?thesis by (simp add: dec_value_def)
qed

lemma hex_value_hex_ref: "hex_value (drop 2 (hex_ref n)) = n"
proof -
  have "map (\<lambda>c. if 97 \<le> c then unat c - 87 else unat c - 48) (drop 2 (hex_ref n)) =
        (if n = 0 then [0] else base_digits 16 n)"
    by (auto simp: hex_ref_def unat_hchar base_digits_less word_le_nat_alt intro!: map_idI)
  then show ?thesis by (simp add: hex_value_def)
qed

lemma dec_ref_length: "1 \<le> length (dec_ref (unat (w :: u32))) \<and> length (dec_ref (unat w)) \<le> 10"
proof -
  have "unat w < 2 ^ LENGTH(32)" by (rule unsigned_less)
  then have "unat w < 10 ^ 10" by simp
  then show ?thesis
    using base_digits_length [of "unat w" 10 10] base_digits_nonempty [of "unat w" 10]
    by (auto simp: dec_ref_def Suc_le_eq)
qed

lemma hex_ref_length: "3 \<le> length (hex_ref (unat (w :: u32))) \<and> length (hex_ref (unat w)) \<le> 10"
proof -
  have "unat w < 2 ^ LENGTH(32)" by (rule unsigned_less)
  then have "unat w < 16 ^ 8" by simp
  then show ?thesis
    using base_digits_length [of "unat w" 16 8] base_digits_nonempty [of "unat w" 16]
    by (auto simp: hex_ref_def Suc_le_eq)
qed


subsection \<open>Scanning loops\<close>

lemma StrLen_loop_Some:
  "(\<forall>j<k. m (s + j) \<noteq> 0) \<Longrightarrow> m (s + k) = 0 \<Longrightarrow> StrLen_loop m s i = Some (i + of_nat k)"
proof (induction k arbitrary: s i)
  case 0 then show ?case by (subst StrLen_loop.simps) simp
next
  case (Suc k)
  have "StrLen_loop m (Suc s) (i + 1) = Some (i + 1 + of_nat k)"
    using Suc.prems by (intro Suc.IH) (auto simp: add.commute add.left_commute)
  moreover have "m s \<noteq> 0" using Suc.prems(1) by (metis add_0_right zero_less_Suc)
  ultimately show ?case by (subst StrLen_loop.simps) (simp add: ac_simps)
qed

lemma StrLen_loop_stops: "StrLen_loop m s i = Some r \<Longrightarrow> \<exists>j\<ge>s. m j = 0"
proof (erule StrLen_loop.raw_induct [where P = "\<lambda>m s i r. \<exists>j\<ge>s. m j = 0", rotated])
  fix f :: "mem \<Rightarrow> nat \<Rightarrow> i32 \<Rightarrow> i32 option" and m s i y
  assume IH: "\<And>m s i y. f m s i = Some y \<Longrightarrow> \<exists>j\<ge>s. m j = 0"
    and step: "(if m s \<noteq> 0 then f m (Suc s) (i + 1) else Some i) = Some y"
  show "\<exists>j\<ge>s. m j = 0"
  proof (cases "m s = 0")
    case False
    with step have "f m (Suc s) (i + 1) = Some y" by simp
    then obtain j where "Suc s \<le> j" "m j = 0" using IH by blast
    then show ?thesis by (blast dest: Suc_leD)
  qed blast
qed

lemma least_nul:
  fixes m :: mem and s :: nat
  assumes "\<exists>j\<ge>s. m j = 0"
  obtains k where "\<forall>j<k. m (s + j) \<noteq> 0" "m (s + k) = 0"
proof -
  from assms obtain j where "s \<le> j" "m j = 0" by blast
  then have "\<exists>k. m (s + k) = 0" by (intro exI [of _ "j - s"]) simp
  from exists_least_iff [THEN iffD1, OF this] show ?thesis using that by blast
qed

lemma StrNLen_loop_bounded:
  assumes p: "0 \<le> sint p" "n \<le> nat (sint p)"
    and str: "\<forall>j<n. m (s + j) \<noteq> 0" "m (s + n) = 0 \<or> n = nat (sint p)"
  shows "j \<le> n \<Longrightarrow> StrNLen_loop m (s + j) p (of_nat j) = Some (of_nat n)"
proof (induction "n - j" arbitrary: j)
  have small: "\<And>j. j \<le> n \<Longrightarrow> sint (of_nat j :: i32) = int j"
    using p sint_lt [of p] by (intro sint_of_nat_small) simp
  have pm1: "p \<noteq> -1" using p by auto
  {
    case 0
    then have "j = n" by simp
    show ?case
    proof (cases "m (s + n) = 0")
      case False
      with str have "n = nat (sint p)" by simp
      with small [of n] p have "sint (of_nat n :: i32) = sint p" by simp
      with False pm1 \<open>j = n\<close> show ?thesis by (subst StrNLen_loop.simps) simp
    qed (subst StrNLen_loop.simps, simp add: \<open>j = n\<close>)
  next
    case (Suc d)
    then have "j < n" "Suc d = n - Suc j + 1" by simp_all
    have "StrNLen_loop m (s + Suc j) p (of_nat (Suc j)) = Some (of_nat n)"
      using Suc.hyps \<open>j < n\<close> by (intro Suc.hyps(1)) simp_all
    with \<open>j < n\<close> str(1) small [of j] pm1 p show ?case
      by (subst StrNLen_loop.simps) (auto simp: add.commute)
  }
qed

lemma StrNLen_loop_unbounded:
  "(\<forall>j<k. m (s + j) \<noteq> 0) \<Longrightarrow> m (s + k) = 0 \<Longrightarrow> StrNLen_loop m s (-1) i = Some (i + of_nat k)"
proof (induction k arbitrary: s i)
  case 0 then show ?case by (subst StrNLen_loop.simps) simp
next
  case (Suc k)
  have "StrNLen_loop m (Suc s) (-1) (i + 1) = Some (i + 1 + of_nat k)"
    using Suc.prems by (intro Suc.IH) (auto simp: add.commute add.left_commute)
  moreover have "m s \<noteq> 0" using Suc.prems(1) by (metis add_0_right zero_less_Suc)
  ultimately show ?case by (subst StrNLen_loop.simps) (simp add: ac_simps)
qed

lemma StrNLen_loop_stops:
  "StrNLen_loop m s p i = Some r \<Longrightarrow> p \<noteq> -1 \<or> (\<exists>j\<ge>s. m j = 0)"
proof (erule StrNLen_loop.raw_induct [where P = "\<lambda>m s p i r. p \<noteq> -1 \<or> (\<exists>j\<ge>s. m j = 0)", rotated])
  fix f :: "mem \<Rightarrow> nat \<Rightarrow> i32 \<Rightarrow> i32 \<Rightarrow> i32 option" and m s p i y
  assume IH: "\<And>m s p i y. f m s p i = Some y \<Longrightarrow> p \<noteq> -1 \<or> (\<exists>j\<ge>s. m j = 0)"
    and step: "(if m s \<noteq> 0 then
                  (if p \<noteq> -1 \<and> sint p \<le> sint i then Some i else f m (Suc s) p (i + 1))
                else Some i) = Some y"
  show "p \<noteq> -1 \<or> (\<exists>j\<ge>s. m j = 0)"
  proof (cases "m s = 0 \<or> p \<noteq> -1")
    case False
    with step have "f m (Suc s) p (i + 1) = Some y" by simp
    then show ?thesis using IH by (blast dest: Suc_leD)
  qed blast
qed

lemma scan_nul_Some:
  "(\<forall>j<k. m (s + j) \<noteq> 0) \<Longrightarrow> m (s + k) = 0 \<Longrightarrow> scan_nul m s = Some (s + k)"
proof (induction k arbitrary: s)
  case 0 then show ?case by (subst scan_nul.simps) simp
next
  case (Suc k)
  have "scan_nul m (Suc s) = Some (Suc s + k)"
    using Suc.prems by (intro Suc.IH) (auto simp: add.commute add.left_commute)
  moreover have "m s \<noteq> 0" using Suc.prems(1) by (metis add_0_right zero_less_Suc)
  ultimately show ?case by (subst scan_nul.simps) simp
qed

lemma scan_nul_result:
  "scan_nul m s = Some d \<Longrightarrow> s \<le> d \<and> m d = 0 \<and> (\<forall>j. s \<le> j \<and> j < d \<longrightarrow> m j \<noteq> 0)"
proof (erule scan_nul.raw_induct [where P = "\<lambda>m s d. s \<le> d \<and> m d = 0 \<and> (\<forall>j. s \<le> j \<and> j < d \<longrightarrow> m j \<noteq> 0)", rotated])
  fix f :: "mem \<Rightarrow> nat \<Rightarrow> nat option" and m s d
  assume IH: "\<And>m s d. f m s = Some d \<Longrightarrow> s \<le> d \<and> m d = 0 \<and> (\<forall>j. s \<le> j \<and> j < d \<longrightarrow> m j \<noteq> 0)"
    and step: "(if m s \<noteq> 0 then f m (Suc s) else Some s) = Some d"
  show "s \<le> d \<and> m d = 0 \<and> (\<forall>j. s \<le> j \<and> j < d \<longrightarrow> m j \<noteq> 0)"
  proof (cases "m s = 0")
    case False
    with step have "f m (Suc s) = Some d" by simp
    with False show ?thesis using IH [of m "Suc s" d] by (metis Suc_leD le_antisym not_less_eq_eq)
  qed (use step in auto)
qed

lemma copy_str_Some:
  "(\<forall>j<k. m (s + j) \<noteq> 0) \<Longrightarrow> m (s + k) = 0 \<Longrightarrow> s + k < d \<or> d + k \<le> s \<Longrightarrow>
   copy_str m d s = Some (d + k, \<lambda>a. if d \<le> a \<and> a < d + k then m (s + (a - d)) else m a)"
proof (induction k arbitrary: d s m)
  case 0 then show ?case by (subst copy_str.simps) (auto simp: fun_eq_iff)
next
  case (Suc k)
  let ?m = "m(d := m s)"
  have ms: "m s \<noteq> 0" using Suc.prems(1) by (metis add_0_right zero_less_Suc)
  have "copy_str ?m (Suc d) (Suc s) =
          Some (Suc d + k, \<lambda>a. if Suc d \<le> a \<and> a < Suc d + k then ?m (Suc s + (a - Suc d)) else ?m a)"
    using Suc.prems by (intro Suc.IH) auto
  moreover have "(\<lambda>a. if Suc d \<le> a \<and> a < Suc d + k then ?m (Suc s + (a - Suc d)) else ?m a) =
                 (\<lambda>a. if d \<le> a \<and> a < d + Suc k then m (s + (a - d)) else m a)"
    using Suc.prems(3) by (auto simp: fun_eq_iff Suc_diff_Suc)
  ultimately show ?case using ms by (subst copy_str.simps) simp
qed

lemma copy_str_overlap:
  "copy_str m d s = Some r \<Longrightarrow> s < d \<Longrightarrow> \<forall>j. s \<le> j \<and> j < d \<longrightarrow> m j \<noteq> 0 \<Longrightarrow> False"
proof (erule copy_str.raw_induct [where P = "\<lambda>m d s r. s < d \<longrightarrow> (\<forall>j. s \<le> j \<and> j < d \<longrightarrow> m j \<noteq> 0) \<longrightarrow> False", rotated, THEN mp, THEN mp])
  fix f :: "mem \<Rightarrow> nat \<Rightarrow> nat \<Rightarrow> (nat \<times> mem) option" and m d s y
  assume IH: "\<And>m d s y. f m d s = Some y \<Longrightarrow> s < d \<longrightarrow> (\<forall>j. s \<le> j \<and> j < d \<longrightarrow> m j \<noteq> 0) \<longrightarrow> False"
    and step: "(if m s \<noteq> 0 then f (m(d := m s)) (Suc d) (Suc s) else Some (d, m)) = Some y"
  show "s < d \<longrightarrow> (\<forall>j. s \<le> j \<and> j < d \<longrightarrow> m j \<noteq> 0) \<longrightarrow> False"
  proof (intro impI)
    assume sd: "s < d" and inv: "\<forall>j. s \<le> j \<and> j < d \<longrightarrow> m j \<noteq> 0"
    then have "m s \<noteq> 0" by simp
    with step have "f (m(d := m s)) (Suc d) (Suc s) = Some y" by simp
    moreover have "\<forall>j. Suc s \<le> j \<and> j < Suc d \<longrightarrow> (m(d := m s)) j \<noteq> 0"
      using inv \<open>m s \<noteq> 0\<close> by (auto simp: less_Suc_eq)
    ultimately show False using IH sd by blast
  qed
qed

lemma MemCmp_loop_zero:
  "MemCmp_loop m s1 s2 i len = 0 \<longleftrightarrow> (\<forall>j. int j < len - i \<longrightarrow> m (s1 + j) = m (s2 + j))"
proof (induction m s1 s2 i len rule: MemCmp_loop.induct)
  case (1 m s1 s2 i len)
  show ?case
  proof (cases "i < len")
    case False then show ?thesis by (subst MemCmp_loop.simps) simp
  next
    case True
    have shift: "(\<forall>j. int j < len - i \<longrightarrow> m (s1 + j) = m (s2 + j)) \<longleftrightarrow>
                 m s1 = m s2 \<and> (\<forall>j. int j < len - (i + 1) \<longrightarrow> m (Suc s1 + j) = m (Suc s2 + j))"
      using True by (subst all_nat_split) (simp add: algebra_simps)
    have d: "uint (m s1) - uint (m s2) \<noteq> 0 \<longleftrightarrow> m s1 \<noteq> m s2"
      by (simp add: word_uint_eq_iff)
    show ?thesis
    proof (cases "m s1 = m s2")
      case False
      with True d show ?thesis by (subst MemCmp_loop.simps) (simp add: shift)
    next
      case eq: True
      with True have "MemCmp_loop m s1 s2 i len = MemCmp_loop m (Suc s1) (Suc s2) (i + 1) len"
        by (subst MemCmp_loop.simps) simp
      with 1 [OF True] eq shift show ?thesis by (simp add: d)
    qed
  qed
qed


subsection \<open>Canonical decimal strings\<close>

lemma base_digits_hd: "2 \<le> b \<Longrightarrow> 0 < n \<Longrightarrow> hd (base_digits b n) \<noteq> 0"
proof (induction b n rule: base_digits.induct)
  case (1 b n)
  show ?case
  proof (cases "n div b = 0")
    case True
    then have "n < b" using "1.prems"(1) by (simp add: div_eq_0_iff)
    then show ?thesis using True "1.prems" by (subst base_digits.simps) simp
  next
    case False
    then have "base_digits b (n div b) \<noteq> []" "hd (base_digits b (n div b)) \<noteq> 0"
      using "1.IH" "1.prems" base_digits_nonempty by auto
    then show ?thesis using "1.prems" by (subst base_digits.simps) simp
  qed
qed

lemma dec_ref_digit: "c \<in> set (dec_ref n) \<Longrightarrow> 48 \<le> c \<and> c \<le> 57"
proof -
  assume "c \<in> set (dec_ref n)"
  then obtain d where dm: "d \<in> set (if n = 0 then [0] else base_digits 10 n)" and c: "c = dchar d"
    by (auto simp: dec_ref_def)
  have "d < 10" using dm base_digits_less [of 10 d n] by (auto split: if_splits)
  note d = this c
  then have "unat c = 48 + d" by (simp add: unat_dchar)
  with d(1) show ?thesis by (simp add: word_le_nat_alt)
qed

lemma dec_ref_leading: "hd (dec_ref n) = 48 \<Longrightarrow> dec_ref n = [48]"
proof (cases "n = 0")
  case False
  let ?ds = "base_digits 10 n"
  have ne: "?ds \<noteq> []" using False base_digits_nonempty by simp
  have "hd ?ds \<noteq> 0" using False base_digits_hd by simp
  moreover have "hd ?ds < 10" using ne base_digits_less [of 10 "hd ?ds" n] by simp
  ultimately have "unat (dchar (hd ?ds)) \<noteq> 48" by (simp add: unat_dchar)
  moreover assume "hd (dec_ref n) = 48"
  ultimately show ?thesis using ne False by (simp add: dec_ref_def hd_map)
qed (simp add: dec_ref_def dchar_def)

section \<open>Properties\<close>

text \<open>
  C14. \<open>DECToASCII\<close> writes the canonical decimal form of its argument: a non-empty
  string of the digits \<open>'0'\<close> to \<open>'9'\<close>, with no leading zero unless it is \<open>"0"\<close>
  itself, that parses back to the argument; it is NUL-terminated, the returned
  pointer is that terminator, and nothing outside it is written.
\<close>

theorem DECToASCII_roundtrip:
  assumes "DECToASCII dat str m = (p, m')"
  shows "str < p \<and> (\<forall>a\<in>{str..<p}. 48 \<le> m' a \<and> m' a \<le> 57) \<and> (m' str = 48 \<longrightarrow> p = str + 1) \<and>
         dec_value (map m' [str..<p]) = unat dat \<and> m' p = 0 \<and> (\<forall>a. a < str \<or> p < a \<longrightarrow> m' a = m a)"
proof -
  let ?r = "dec_ref (unat dat)"
  have p: "p = str + length ?r" and m': "m' = write_bytes str (?r @ [0]) m"
    using assms by (simp_all add: DECToASCII_eq)
  have len: "0 < length ?r" using dec_ref_length [of dat] by (cases ?r) auto
  have map: "map m' [str..<p] = ?r"
    using map_write_bytes [of "length ?r" "?r @ [0]" str m] p m' by simp
  have dig: "48 \<le> m' a \<and> m' a \<le> 57" if "a \<in> {str..<p}" for a
  proof -
    have i: "a - str < length ?r" using that p by auto
    then have "m' a = ?r ! (a - str)" using that p m' by (simp add: nth_append)
    with i show ?thesis using dec_ref_digit nth_mem by metis
  qed
  have lead: "p = str + 1" if "m' str = 48"
  proof -
    have "hd ?r = 48" using that len m' by (simp add: hd_conv_nth nth_append)
    then have "?r = [48]" by (rule dec_ref_leading)
    then show ?thesis using p by simp
  qed
  show ?thesis
    using len map dig lead p m' by (auto simp: dec_value_dec_ref nth_append)
qed


text \<open>
  C15. The decimal string has 1 to 10 characters, so with its terminator it fits the
  12-byte digit stack \<open>tmp\<close> of \<open>DECToASCII\<close> and the 16-byte buffers of \<open>stm_printf\<close>.
\<close>

theorem DECToASCII_length:
  "str < fst (DECToASCII dat str m) \<and> fst (DECToASCII dat str m) \<le> str + 10"
proof -
  have "0 < length (dec_ref (unat dat))" "length (dec_ref (unat dat)) \<le> 10"
    using dec_ref_length [of dat] by linarith+
  then show ?thesis by (simp add: DECToASCII_eq)
qed


text \<open>
  C17. \<open>StrLen\<close> returns, and returns the number of bytes before the first NUL, when
  the string is terminated.
\<close>

theorem StrLen_terminates:
  "(\<forall>j<k. m (s + j) \<noteq> 0) \<Longrightarrow> m (s + k) = 0 \<Longrightarrow> StrLen m s = Some (of_nat k)"
  by (simp add: StrLen_def StrLen_loop_Some)

text \<open>
  C18. On bytes with no NUL at or after the start, \<open>StrLen\<close> does not return.
\<close>

theorem StrLen_diverges:
  "(\<forall>j\<ge>s. m j \<noteq> 0) \<Longrightarrow> StrLen m s = None"
  by (cases "StrLen m s") (auto simp: StrLen_def dest: StrLen_loop_stops)

text \<open>
  C19. With a precision \<open>n \<ge> 0\<close>, \<open>StrNLen\<close> always returns, with the length of the
  string when it is shorter than \<open>n\<close> and with \<open>n\<close> otherwise, also on bytes with no
  terminator.
\<close>

theorem StrNLen_bounded:
  "0 \<le> sint n \<Longrightarrow> k \<le> nat (sint n) \<Longrightarrow> (\<forall>j<k. m (s + j) \<noteq> 0) \<Longrightarrow>
   m (s + k) = 0 \<or> k = nat (sint n) \<Longrightarrow> StrNLen m s n = Some (of_nat k)"
  using StrNLen_loop_bounded [of n k m s 0] by (simp add: StrNLen_def)

text \<open>
  C20. With the precision -1, \<open>StrNLen\<close> is \<open>StrLen\<close>: the same result on every
  store, including not returning on an unterminated string.
\<close>

theorem StrNLen_unbounded:
  "StrNLen m s (-1) = StrLen m s"
proof (cases "\<exists>j\<ge>s. m j = 0")
  case True
  then obtain k where "\<forall>j<k. m (s + j) \<noteq> 0" "m (s + k) = 0" by (rule least_nul)
  then show ?thesis by (simp add: StrNLen_def StrLen_def StrLen_loop_Some StrNLen_loop_unbounded)
next
  case False
  have "StrNLen_loop m s (-1) 0 = None"
    using False by (cases "StrNLen_loop m s (-1) 0") (auto dest: StrNLen_loop_stops)
  moreover have "StrLen_loop m s 0 = None"
    using False by (cases "StrLen_loop m s 0") (auto dest: StrLen_loop_stops)
  ultimately show ?thesis by (simp add: StrNLen_def StrLen_def)
qed

text \<open>
  C21. \<open>StrCat\<close> on two terminated strings whose copy does not overwrite the source
  appends the source after the destination string, writes the new terminator and
  returns a pointer to it.
\<close>

theorem StrCat_appends:
  assumes "destion \<noteq> 0" "source \<noteq> 0"
    and "\<forall>j<ld. m (destion + j) \<noteq> 0" "m (destion + ld) = 0"
    and "\<forall>j<ls. m (source + j) \<noteq> 0" "m (source + ls) = 0"
    and "source + ls < destion + ld \<or> destion + ld + ls \<le> source"
  shows "StrCat m destion source =
           Some (destion + ld + ls,
                 \<lambda>a. if destion + ld \<le> a \<and> a < destion + ld + ls then m (source + (a - (destion + ld)))
                     else if a = destion + ld + ls then 0 else m a)"
proof -
  have "scan_nul m destion = Some (destion + ld)" using assms(3,4) by (rule scan_nul_Some)
  moreover have "copy_str m (destion + ld) source =
    Some (destion + ld + ls, \<lambda>a. if destion + ld \<le> a \<and> a < destion + ld + ls
                                 then m (source + (a - (destion + ld))) else m a)"
    using assms(5-7) by (rule copy_str_Some)
  ultimately show ?thesis using assms(1,2) by (simp add: StrCat_def fun_eq_iff)
qed

text \<open>
  C22. \<open>StrCat(s, s)\<close> on a non-empty string does not return: the copy overwrites
  the terminator it is heading for, so the source never ends.
\<close>

theorem StrCat_self_diverges:
  "p \<noteq> 0 \<Longrightarrow> m p \<noteq> 0 \<Longrightarrow> StrCat m p p = None"
proof (cases "scan_nul m p")
  case (Some d)
  assume "p \<noteq> 0" "m p \<noteq> 0"
  with scan_nul_result [OF Some] have "p < d" "\<forall>j. p \<le> j \<and> j < d \<longrightarrow> m j \<noteq> 0"
    by (auto simp: le_less)
  then have "copy_str m d p = None"
    by (cases "copy_str m d p") (auto dest: copy_str_overlap)
  with Some \<open>p \<noteq> 0\<close> show ?thesis by (simp add: StrCat_def)
qed (simp add: StrCat_def)

text \<open>
  C23. \<open>Memcpy\<close> between buffers that do not overlap copies \<open>c\<close> bytes (none when
  \<open>c \<le> 0\<close>) and changes nothing else.
\<close>

theorem Memcpy_disjoint:
  "src + nat (sint c) \<le> dst \<or> dst + nat (sint c) \<le> src \<Longrightarrow>
   Memcpy dst src c m a = (if dst \<le> a \<and> a < dst + nat (sint c) then m (src + (a - dst)) else m a)"
proof (induction dst src c m rule: Memcpy.induct)
  case (1 dst src c m)
  show ?case
  proof (cases "0 < sint c")
    case False then show ?thesis by (subst Memcpy.simps) auto
  next
    case True
    then have n: "nat (sint (c - 1)) = nat (sint c) - 1" by (simp add: sint_dec)
    have "Memcpy (Suc dst) (Suc src) (c - 1) (m(dst := m src)) a =
          (if Suc dst \<le> a \<and> a < Suc dst + nat (sint (c - 1))
           then (m(dst := m src)) (Suc src + (a - Suc dst)) else (m(dst := m src)) a)"
      using 1(2) True n by (intro 1(1)) auto
    with True n 1(2) show ?thesis
      by (subst Memcpy.simps) (auto simp: Suc_diff_Suc)
  qed
qed


text \<open>
  \<open>Memcpy\<close> is not \<open>memmove\<close>: with the destination one byte above the source
  it replicates the first source byte over the whole destination.
\<close>

theorem Memcpy_overlap_smear:
  "dst = Suc src \<Longrightarrow>
   Memcpy dst src c m a = (if dst \<le> a \<and> a < dst + nat (sint c) then m src else m a)"
proof (induction dst src c m rule: Memcpy.induct)
  case (1 dst src c m)
  show ?case
  proof (cases "0 < sint c")
    case False then show ?thesis by (subst Memcpy.simps) auto
  next
    case True
    then have n: "nat (sint (c - 1)) = nat (sint c) - 1" by (simp add: sint_dec)
    have "Memcpy (Suc dst) (Suc src) (c - 1) (m(dst := m src)) a =
          (if Suc dst \<le> a \<and> a < Suc dst + nat (sint (c - 1))
           then (m(dst := m src)) (Suc src) else (m(dst := m src)) a)"
      using 1(2) True by (intro 1(1)) auto
    with True n 1(2) show ?thesis
      by (subst Memcpy.simps) auto
  qed
qed

text \<open>
  \<open>MemSet\<close> writes its byte to the \<open>num\<close> addresses from \<open>des\<close> (none when
  \<open>num \<le> 0\<close>) and changes nothing else.
\<close>

theorem MemSet_apply:
  "MemSet p c num m a = (if p \<le> a \<and> a < p + nat (sint num) then c else m a)"
proof (induction p c num m rule: MemSet.induct)
  case (1 p c num m)
  show ?case
  proof (cases "0 < sint num")
    case False then show ?thesis by (subst MemSet.simps) auto
  next
    case True
    then have n: "nat (sint (num - 1)) = nat (sint num) - 1" by (simp add: sint_dec)
    have "MemSet (Suc p) c (num - 1) (m(p := c)) a =
          (if Suc p \<le> a \<and> a < Suc p + nat (sint (num - 1)) then c else (m(p := c)) a)"
      using True by (rule 1)
    with True n show ?thesis
      by (subst MemSet.simps) auto
  qed
qed


text \<open>
  \<open>MemCmp\<close> returns 0 exactly when the first \<open>len\<close> bytes of the two buffers are
  equal.
\<close>

theorem MemCmp_zero_iff:
  "MemCmp m str1 str2 len = 0 \<longleftrightarrow> (\<forall>j<nat (sint len). m (str1 + j) = m (str2 + j))"
  by (auto simp: MemCmp_def MemCmp_loop_zero)


section \<open>Witnesses\<close>

text \<open>
  Concrete stores: \<open>abc_mem\<close> holds the string \<open>"AB"\<close> at 1 and \<open>"C"\<close> at 10,
  \<open>unterminated_mem\<close> holds no NUL at all.
\<close>

abbreviation (input) abc_mem :: mem where
  "abc_mem \<equiv> (\<lambda>_. 0)(1 := 65, 2 := 66, 10 := 67)"

abbreviation (input) unterminated_mem :: mem where
  "unterminated_mem \<equiv> \<lambda>_. 0xAA"

lemma all_less_2: "(\<forall>j<2::nat. P j) \<longleftrightarrow> P 0 \<and> P 1"
  by (auto simp: less_2_cases_iff)

lemma DECToASCII_example:
  "DECToASCII 305 100 unterminated_mem = (103, write_bytes 100 [51, 48, 53, 0] unterminated_mem)"
  by (simp add: DECToASCII_def dec_push.simps)

lemma HexToASCII_example:
  "HexToASCII 0x2F 100 unterminated_mem = (104, write_bytes 100 [48, 120, 50, 102, 0] unterminated_mem)"
  by (simp add: HexToASCII_def hex_push.simps)

theorem DECToASCII_roundtrip_witness:
  "dec_value (map (write_bytes 100 [51, 48, 53, 0] unterminated_mem) [100..<103]) = 305 \<and>
   write_bytes 100 [51, 48, 53, 0] unterminated_mem 103 = 0"
  using DECToASCII_roundtrip [OF DECToASCII_example] by simp


theorem StrLen_terminates_witness: "StrLen abc_mem 1 = Some 2"
  using StrLen_terminates [of 2 abc_mem 1] by (simp add: all_less_2)

theorem StrLen_diverges_witness: "StrLen unterminated_mem 5 = None"
  using StrLen_diverges [of 5 unterminated_mem] by simp

theorem StrNLen_bounded_witness: "StrNLen abc_mem 1 1 = Some 1 \<and> StrNLen abc_mem 1 5 = Some 2"
  using StrNLen_bounded [of 1 1 abc_mem 1] StrNLen_bounded [of 5 2 abc_mem 1]
  by (simp add: all_less_2)

theorem StrCat_appends_witness:
  "\<exists>m'. StrCat abc_mem 1 10 = Some (4, m') \<and> map m' [0..<6] = [0, 65, 66, 67, 0, 0]"
  using StrCat_appends [of 1 10 2 abc_mem 1] by (simp add: all_less_2 upt_rec)

theorem StrCat_self_diverges_witness: "StrCat abc_mem 1 1 = None"
  using StrCat_self_diverges [of 1 abc_mem] by simp

theorem Memcpy_disjoint_witness: "Memcpy 20 1 2 abc_mem 21 = 66 \<and> Memcpy 20 1 2 abc_mem 22 = 0"
  using Memcpy_disjoint [of 1 2 20 abc_mem] by simp

theorem Memcpy_overlap_smear_witness: "Memcpy 2 1 2 abc_mem 3 = 65"
  using Memcpy_overlap_smear [of 2 1 2 abc_mem 3] by simp

theorem MemCmp_zero_iff_witness:
  "MemCmp ((\<lambda>_. 0)(1 := 65, 11 := 65)) 1 11 1 = 0 \<and> MemCmp abc_mem 1 10 1 \<noteq> 0"
  using MemCmp_zero_iff [of "(\<lambda>_. 0)(1 := 65, 11 := 65)" 1 11 1] MemCmp_zero_iff [of abc_mem 1 10 1]
  by simp

end
