(* ===== verification/SysTimer.thy ===== *)
theory SysTimer
  imports Prelude
begin

text \<open>
  The SysTick time base of \<^verbatim>\<open>src/Utilities/STM32_EVAL/STM3210B_EVAL/sys_timer.c\<close>:
  the interrupt handler counting ticks, and the busy-wait delays that spin on the
  tick counter while the interrupt preempts them. A delay is a thread whose steps
  interleave with interrupts: the inductive relation \<open>delay_step\<close> lets an
  interrupt fire between any two steps of the thread. The section between
  \<open>__disable_irq\<close> and \<open>__enable_irq\<close> is one atomic step. A ghost counter
  \<open>elapsed\<close> counts the interrupts since the deadline was computed.
\<close>

section \<open>Initialisation\<close>

text \<open>\<^verbatim>\<open>#define SYS_TIMER_FREQ 10000\<close> of \<^verbatim>\<open>sys_timer.h\<close>: ticks per second.\<close>

definition SYS_TIMER_FREQ :: u32 where
  "SYS_TIMER_FREQ = 10000"

text \<open>
  The SysTick registers of the Cortex-M3 core and \<open>SysTick_Config\<close> of CMSIS
  \<^verbatim>\<open>core_cm3.h\<close> (V1.30, shipped with the STM32F10x library; not in the
  repository): a reload value above 24 bits is refused with 1; otherwise \<open>LOAD\<close>
  gets \<open>(ticks & 0xFFFFFF) - 1\<close>, of which the 24-bit register keeps the low 24 bits,
  the counter is cleared and \<open>CTRL\<close> enables the counter and its interrupt on the core
  clock. The interrupt priority write to the NVIC is not modelled.
\<close>

record SysTick_Type =
  CTRL :: u32
  LOAD :: u32
  VAL :: u32

definition SysTick_LOAD_RELOAD_Msk :: u32 where
  "SysTick_LOAD_RELOAD_Msk = 0xFFFFFF"

definition SysTick_Config :: "u32 \<Rightarrow> SysTick_Type \<Rightarrow> u32 \<times> SysTick_Type" where
  "SysTick_Config ticks st =
     (if SysTick_LOAD_RELOAD_Msk < ticks then (1, st)
      else (0, st\<lparr>LOAD := ((ticks AND SysTick_LOAD_RELOAD_Msk) - 1) AND 0xFFFFFF, VAL := 0, CTRL := 7\<rparr>))"

text \<open>
  \<open>init_sys_timer\<close>: \<open>RCC_GetClocksFreq\<close> supplies \<open>SYSCLK_Frequency\<close>, and the
  \<open>uint32_t\<close> result of \<open>SysTick_Config\<close> is returned as \<open>uint8_t\<close>.
\<close>

definition init_sys_timer :: "u32 \<Rightarrow> SysTick_Type \<Rightarrow> u8 \<times> SysTick_Type" where
  "init_sys_timer sysclk st =
     (let (ret, st') = SysTick_Config (sysclk div SYS_TIMER_FREQ) st in (ucast ret, st'))"

section \<open>SysTick_Handler\<close>

text \<open>The two \<open>volatile uint32_t\<close> globals of \<open>sys_timer.c\<close>.\<close>

record systick_state =
  sys_int_times :: u32
  tick_count :: u32

text \<open>\<^verbatim>\<open>sys_int_times++; if (++tick_count >= 200) tick_count = 0;\<close>\<close>

definition SysTick_Handler :: "systick_state \<Rightarrow> systick_state" where
  "SysTick_Handler s =
     (let s1 = s\<lparr>sys_int_times := sys_int_times s + 1\<rparr>;
          t = tick_count s1 + 1
      in if 200 \<le> t then s1\<lparr>tick_count := 0\<rparr> else s1\<lparr>tick_count := t\<rparr>)"

text \<open>\<^verbatim>\<open>uint32_t get_sys_tick(void) { return sys_int_times; }\<close>\<close>

definition get_sys_tick :: "systick_state \<Rightarrow> u32" where
  "get_sys_tick s = sys_int_times s"

section \<open>Busy-wait delays\<close>

text \<open>
  The control points of \<open>busy_delay_ms\<close> and \<open>busy_delay_100us\<close>: before the
  deadline is computed, in the first loop (taken when the deadline wrapped around),
  in the second loop, and returned.
\<close>

datatype delay_pc = Entry | Wrap_Wait | Wait | Return

record delay_cfg =
  pc :: delay_pc
  expect_value :: u32
  timer :: systick_state
  elapsed :: nat

text \<open>
  \<^verbatim>\<open>__disable_irq(); expect_value = d + sys_int_times; if (expect_value < sys_int_times)
  { __enable_irq(); while (1) ... } else { __enable_irq(); }\<close>, with \<open>d\<close> the number of
  ticks to wait: \<open>time_ms * 10\<close> or \<open>time_us\<close>.
\<close>

definition delay_entry :: "u32 \<Rightarrow> delay_cfg \<Rightarrow> delay_cfg" where
  "delay_entry d c =
     (let t = sys_int_times (timer c); e = d + t
      in c\<lparr>pc := (if e < t then Wrap_Wait else Wait), expect_value := e, elapsed := 0\<rparr>)"

text \<open>
  One step of the delay thread: the entry section, one test of
  \<^verbatim>\<open>if (sys_int_times <= expect_value) break;\<close> in the first loop, or one test of
  \<^verbatim>\<open>while (sys_int_times <= expect_value)\<close> in the second.
\<close>

definition delay_thread :: "u32 \<Rightarrow> delay_cfg \<Rightarrow> delay_cfg" where
  "delay_thread d c =
     (case pc c of
        Entry \<Rightarrow> delay_entry d c
      | Wrap_Wait \<Rightarrow> if sys_int_times (timer c) \<le> expect_value c then c\<lparr>pc := Wait\<rparr> else c
      | Wait \<Rightarrow> if sys_int_times (timer c) \<le> expect_value c then c else c\<lparr>pc := Return\<rparr>
      | Return \<Rightarrow> c)"

definition delay_irq :: "delay_cfg \<Rightarrow> delay_cfg" where
  "delay_irq c = c\<lparr>timer := SysTick_Handler (timer c), elapsed := elapsed c + 1\<rparr>"

inductive delay_step :: "u32 \<Rightarrow> delay_cfg \<Rightarrow> delay_cfg \<Rightarrow> bool" for d where
  thread: "pc c \<noteq> Return \<Longrightarrow> delay_step d c (delay_thread d c)"
| irq: "pc c \<noteq> Return \<Longrightarrow> delay_step d c (delay_irq c)"

code_pred delay_step .

inductive_cases delay_stepE: "delay_step d c c'"

definition delay_start :: "systick_state \<Rightarrow> delay_cfg" where
  "delay_start s = \<lparr>pc = Entry, expect_value = 0, timer = s, elapsed = 0\<rparr>"

text \<open>\<^verbatim>\<open>expect_value = time_ms * 10 + sys_int_times;\<close>: ten 100 us ticks a millisecond.\<close>

definition busy_delay_ms :: "u32 \<Rightarrow> delay_cfg \<Rightarrow> delay_cfg \<Rightarrow> bool" where
  "busy_delay_ms time_ms = delay_step (time_ms * 10)"

text \<open>\<^verbatim>\<open>expect_value = time_us + sys_int_times;\<close>\<close>

definition busy_delay_100us :: "u32 \<Rightarrow> delay_cfg \<Rightarrow> delay_cfg \<Rightarrow> bool" where
  "busy_delay_100us time_us = delay_step time_us"

text \<open>
  The invariant of a delay after its entry step: the tick counter is the start value
  \<open>expect_value - d\<close> plus the ghost count; in the first loop the deadline has
  wrapped; outside it, either it has not wrapped or the counter has wrapped too; and a
  returned delay has seen more than \<open>d\<close> interrupts.
\<close>

definition delay_inv :: "u32 \<Rightarrow> delay_cfg \<Rightarrow> bool" where
  "delay_inv d c \<longleftrightarrow>
     (pc c \<noteq> Entry \<longrightarrow>
        sys_int_times (timer c) = expect_value c - d + of_nat (elapsed c) \<and>
        (pc c = Wrap_Wait \<longrightarrow> expect_value c < expect_value c - d) \<and>
        (pc c \<noteq> Wrap_Wait \<longrightarrow>
           expect_value c - d \<le> expect_value c \<or> 2 ^ 32 - unat (expect_value c - d) \<le> elapsed c) \<and>
        (pc c = Return \<longrightarrow> unat d < elapsed c))"


section \<open>Lemmas\<close>

lemma sys_int_times_SysTick_Handler [simp]:
  "sys_int_times (SysTick_Handler s) = sys_int_times s + 1"
  by (simp add: SysTick_Handler_def Let_def)

lemma tick_count_SysTick_Handler:
  "tick_count (SysTick_Handler s) = (if 200 \<le> tick_count s + 1 then 0 else tick_count s + 1)"
  by (simp add: SysTick_Handler_def Let_def)

lemma sys_int_times_funpow [simp]:
  "sys_int_times ((SysTick_Handler ^^ n) s) = sys_int_times s + of_nat n"
  by (induction n) simp_all

lemma pc_delay_irq [simp]: "pc (delay_irq c) = pc c"
  and expect_value_delay_irq [simp]: "expect_value (delay_irq c) = expect_value c"
  and elapsed_delay_irq [simp]: "elapsed (delay_irq c) = elapsed c + 1"
  and sys_int_times_delay_irq [simp]: "sys_int_times (timer (delay_irq c)) = sys_int_times (timer c) + 1"
  by (simp_all add: delay_irq_def)

lemma delay_irq_funpow:
  "pc ((delay_irq ^^ n) c) = pc c \<and> expect_value ((delay_irq ^^ n) c) = expect_value c \<and>
   elapsed ((delay_irq ^^ n) c) = elapsed c + n \<and>
   sys_int_times (timer ((delay_irq ^^ n) c)) = sys_int_times (timer c) + of_nat n"
  by (induction n) simp_all

lemma delay_irq_steps:
  "pc c \<noteq> Return \<Longrightarrow> (delay_step d)\<^sup>*\<^sup>* c ((delay_irq ^^ n) c)"
proof (induction n)
  case (Suc n)
  then have "delay_step d ((delay_irq ^^ n) c) ((delay_irq ^^ Suc n) c)"
    using delay_irq_funpow [of n c] by (simp add: delay_step.irq)
  with Suc show ?case by (simp add: rtranclp.rtrancl_into_rtrancl)
qed simp

lemma delay_inv_step:
  "delay_step d c c' \<Longrightarrow> delay_inv d c \<Longrightarrow> delay_inv d c'"
proof (induction rule: delay_step.induct)
  case (thread c)
  show ?case
  proof (cases "pc c")
    case Entry
    then show ?thesis
      by (auto simp: delay_inv_def delay_thread_def delay_entry_def Let_def not_less)
  next
    case Wrap_Wait
    then show ?thesis using thread.prems
      by (auto simp: delay_inv_def delay_thread_def intro: deadline_wrapped [where 'a = 32, simplified])
  next
    case Wait
    have "expect_value c - d + d = expect_value c" by simp
    note passed = deadline_passed [where 'a = 32, of "expect_value c - d" d, unfolded this, simplified]
    show ?thesis using Wait thread.prems
      by (auto simp: delay_inv_def delay_thread_def not_le intro: passed)
  qed (use thread.hyps in simp)
next
  case (irq c)
  then show ?case by (auto simp: delay_inv_def)
qed

lemma delay_inv_reachable:
  "(delay_step d)\<^sup>*\<^sup>* (delay_start s) c \<Longrightarrow> delay_inv d c"
proof (induction rule: rtranclp_induct)
  case base then show ?case by (simp add: delay_inv_def delay_start_def)
next
  case (step c c') then show ?case using delay_inv_step by blast
qed

lemma delay_wait_to_return:
  assumes "pc c = Wait" "sys_int_times (timer c) = x" "expect_value c \<noteq> -1"
    and "x + of_nat n = expect_value c + 1"
  shows "(delay_step d)\<^sup>*\<^sup>* c (delay_thread d ((delay_irq ^^ n) c)) \<and>
         pc (delay_thread d ((delay_irq ^^ n) c)) = Return \<and>
         elapsed (delay_thread d ((delay_irq ^^ n) c)) = elapsed c + n"
proof -
  let ?c = "(delay_irq ^^ n) c"
  have c: "pc ?c = Wait" "expect_value ?c = expect_value c" "elapsed ?c = elapsed c + n"
          "sys_int_times (timer ?c) = expect_value c + 1"
    using delay_irq_funpow [of n c] assms by simp_all
  have "\<not> expect_value c + 1 \<le> expect_value c"
    using assms(3) by (simp add: not_le word_less_plus_one)
  then have "pc (delay_thread d ?c) = Return" "elapsed (delay_thread d ?c) = elapsed c + n"
    using c by (simp_all add: delay_thread_def)
  moreover have "(delay_step d)\<^sup>*\<^sup>* c (delay_thread d ?c)"
    using delay_irq_steps [of c d n] delay_step.thread [of ?c d] assms(1) c(1)
    by (simp add: rtranclp.rtrancl_into_rtrancl)
  ultimately show ?thesis by simp
qed



lemma tick_wrap_u32: "r < 200 \<Longrightarrow> (200 \<le> (of_nat r + 1 :: u32)) \<longleftrightarrow> r = 199"
proof -
  assume "r < 200"
  then have "unat (of_nat r + 1 :: u32) = r + 1" by (simp add: unat_word_ariths unat_of_nat)
  then show ?thesis using \<open>r < 200\<close> by (auto simp: word_le_nat_alt)
qed

lemma SysTick_Handler_eq:
  "SysTick_Handler s =
     s\<lparr>sys_int_times := sys_int_times s + 1,
       tick_count := (if 200 \<le> tick_count s + 1 then 0 else tick_count s + 1)\<rparr>"
  by (simp add: SysTick_Handler_def Let_def)

text \<open>
  \<open>SysTick_Config\<close> accepts every reload \<open>init_sys_timer\<close> computes, since
  \<open>SYSCLK / 10000\<close> fits in 24 bits: the call always returns 0, and the tick period is
  \<open>SYSCLK / 10000\<close> core cycles, wrapping to the 24-bit maximum for a clock below 10 kHz.
\<close>

lemma init_sys_timer_load:
  "init_sys_timer sysclk st =
     (0, st\<lparr>LOAD := (sysclk div 10000 - 1) AND 0xFFFFFF, VAL := 0, CTRL := 7\<rparr>)"
proof -
  have lt: "unat sysclk < 2 ^ 32" using unsigned_less [of sysclk] by simp
  then have "unat (sysclk div 10000) < 2 ^ 24" by (simp add: unat_div)
  then have m: "sysclk div 10000 AND 0xFFFFFF = sysclk div 10000"
    using and_mask_small [of "sysclk div 10000" 24] by (simp add: mask_eq_exp_minus_1)
  have "\<not> (0xFFFFFF :: u32) < sysclk div 10000"
    using lt by (simp add: word_less_nat_alt unat_div)
  then show ?thesis using m
    by (simp add: init_sys_timer_def SysTick_Config_def SYS_TIMER_FREQ_def SysTick_LOAD_RELOAD_Msk_def)
qed

section \<open>Properties\<close>

text \<open>
  Starting from a tick count below 200, \<open>n\<close> interrupts advance
  \<open>sys_int_times\<close> by \<open>n\<close> modulo \<open>2^32\<close> and leave \<open>tick_count\<close> at the
  count of interrupts modulo 200.
\<close>

theorem SysTick_Handler_iterate:
  "tick_count s < 200 \<Longrightarrow>
   (SysTick_Handler ^^ n) s =
     s\<lparr>sys_int_times := sys_int_times s + of_nat n,
       tick_count := of_nat ((unat (tick_count s) + n) mod 200)\<rparr>"
proof (induction n)
  case 0
  then have "unat (tick_count s) < 200" by (simp add: word_less_nat_alt)
  then show ?case by simp
next
  case (Suc n)
  define r where "r = (unat (tick_count s) + n) mod 200"
  have r: "r < 200" by (simp add: r_def)
  have m: "(unat (tick_count s) + Suc n) mod 200 = (if r = 199 then 0 else r + 1)"
    by (simp add: r_def mod_Suc)
  have "(SysTick_Handler ^^ Suc n) s =
          SysTick_Handler (s\<lparr>sys_int_times := sys_int_times s + of_nat n, tick_count := of_nat r\<rparr>)"
    using Suc by (simp add: r_def)
  also have "\<dots> = s\<lparr>sys_int_times := sys_int_times s + of_nat (Suc n),
                     tick_count := of_nat (if r = 199 then 0 else r + 1)\<rparr>"
    using tick_wrap_u32 [OF r] by (simp add: SysTick_Handler_eq add.commute add.left_commute)
  finally show ?case by (simp only: m)
qed

text \<open>
  C28. \<open>busy_delay_ms\<close> returns only after more than \<open>time_ms * 10\<close> interrupts, the
  product taken in \<open>uint32_t\<close>, whatever the start value of the counter and however
  the interrupts interleave with the loops, wrap-around of the deadline included.
\<close>

theorem busy_delay_ms_min_duration:
  "(busy_delay_ms time_ms)\<^sup>*\<^sup>* (delay_start s) c \<Longrightarrow> pc c = Return \<Longrightarrow> unat (time_ms * 10) < elapsed c"
  using delay_inv_reachable [of "time_ms * 10" s c] by (simp add: busy_delay_ms_def delay_inv_def)

text \<open>
  C29. Unless its deadline is \<open>0xFFFFFFFF\<close>, \<open>busy_delay_ms\<close> can return: there is an
  interleaving in which it returns after exactly \<open>time_ms * 10 + 1\<close> interrupts (the
  product taken in \<open>uint32_t\<close>), so the bound of C28 is reached.
\<close>

theorem busy_delay_ms_returns:
  assumes "time_ms * 10 + sys_int_times s \<noteq> -1"
  shows "\<exists>c. (busy_delay_ms time_ms)\<^sup>*\<^sup>* (delay_start s) c \<and> pc c = Return \<and>
             elapsed c = unat (time_ms * 10) + 1"
proof -
  define d where "d = time_ms * 10"
  define t where "t = sys_int_times s"
  define e where "e = d + t"
  define c1 where "c1 = delay_thread d (delay_start s)"
  have step1: "(delay_step d)\<^sup>*\<^sup>* (delay_start s) c1"
    using delay_step.thread [of "delay_start s" d] by (simp add: c1_def delay_start_def)
  have c1: "expect_value c1 = e" "elapsed c1 = 0" "sys_int_times (timer c1) = t"
           "pc c1 = (if e < t then Wrap_Wait else Wait)"
    by (simp_all add: c1_def delay_thread_def delay_start_def delay_entry_def Let_def e_def t_def)
  have e1: "e \<noteq> -1" using assms by (simp add: e_def d_def t_def)
  show ?thesis
  proof (cases "e < t")
    case False
    have "t + of_nat (unat d + 1) = expect_value c1 + 1" using c1(1) by (simp add: e_def add.commute)
    from delay_wait_to_return [of c1 t, OF _ c1(3) _ this] False c1 e1
    obtain c where "(delay_step d)\<^sup>*\<^sup>* c1 c" "pc c = Return" "elapsed c = unat d + 1" by auto
    with step1 show ?thesis by (auto simp: busy_delay_ms_def d_def intro: rtranclp_trans)
  next
    case True
    define n1 where "n1 = 2 ^ 32 - unat t"
    define c2 where "c2 = delay_thread d ((delay_irq ^^ n1) c1)"
    have "unat t < 2 ^ 32" using unsigned_less [of t] by simp
    then have "t + of_nat n1 = 0" by (simp add: n1_def of_nat_diff)
    then have c2: "pc c2 = Wait" "expect_value c2 = e" "elapsed c2 = n1" "sys_int_times (timer c2) = 0"
      using delay_irq_funpow [of n1 c1] c1 True by (simp_all add: c2_def delay_thread_def)
    have step2: "(delay_step d)\<^sup>*\<^sup>* c1 c2"
      using delay_irq_steps [of c1 d n1] delay_step.thread [of "(delay_irq ^^ n1) c1" d] c1 True
            delay_irq_funpow [of n1 c1]
      by (simp add: c2_def rtranclp.rtrancl_into_rtrancl)
    have "0 + of_nat (unat e + 1) = expect_value c2 + 1" using c2(2) by simp
    from delay_wait_to_return [of c2 0, OF c2(1) c2(4) _ this] c2 e1
    obtain c where c: "(delay_step d)\<^sup>*\<^sup>* c2 c" "pc c = Return" "elapsed c = n1 + (unat e + 1)"
      by auto
    have "unat e = unat d + unat t - 2 ^ 32"
      using True by (simp add: e_def unat_plus_if' word_less_nat_alt split: if_splits)
    moreover have "2 ^ 32 \<le> unat d + unat t"
      using True by (simp add: e_def unat_plus_if' word_less_nat_alt split: if_splits)
    ultimately have "elapsed c = unat d + 1" using c(3) \<open>unat t < 2 ^ 32\<close> by (simp add: n1_def)
    with step1 step2 c show ?thesis by (auto simp: busy_delay_ms_def d_def intro: rtranclp_trans)
  qed
qed

text \<open>
  C30. Once a delay waits in its second loop for the deadline \<open>0xFFFFFFFF\<close> it never
  returns, whatever number of interrupts arrives: \<open>sys_int_times <= 0xFFFFFFFF\<close>
  always holds.
\<close>

theorem busy_delay_100us_hang:
  "(busy_delay_100us time_us)\<^sup>*\<^sup>* c c' \<Longrightarrow> pc c = Wait \<Longrightarrow> expect_value c = -1 \<Longrightarrow>
   pc c' = Wait \<and> expect_value c' = -1"
  unfolding busy_delay_100us_def
proof (induction rule: rtranclp_induct)
  case (step c' c'')
  then show ?case
    by (auto elim!: delay_stepE simp: delay_thread_def)
qed simp

section \<open>Witnesses\<close>

abbreviation (input) systick_zero :: systick_state where
  "systick_zero \<equiv> \<lparr>sys_int_times = 0, tick_count = 0\<rparr>"

theorem SysTick_Handler_iterate_witness:
  "(SysTick_Handler ^^ 250) \<lparr>sys_int_times = 0xFFFFFFF0, tick_count = 150\<rparr> =
     \<lparr>sys_int_times = 0xEA, tick_count = 0\<rparr>"
  using SysTick_Handler_iterate [of "\<lparr>sys_int_times = 0xFFFFFFF0, tick_count = 150\<rparr>" 250] by simp

lemma delay_example_run:
  "(busy_delay_ms 1)\<^sup>*\<^sup>* (delay_start systick_zero)
     (delay_thread 10 ((delay_irq ^^ 11) (delay_thread 10 (delay_start systick_zero)))) \<and>
   pc (delay_thread 10 ((delay_irq ^^ 11) (delay_thread 10 (delay_start systick_zero)))) = Return"
proof -
  let ?c1 = "delay_thread 10 (delay_start systick_zero)"
  have c1: "pc ?c1 = Wait" "expect_value ?c1 = 10" "elapsed ?c1 = 0" "sys_int_times (timer ?c1) = 0"
    by (simp_all add: delay_thread_def delay_entry_def delay_start_def)
  have "delay_step 10 (delay_start systick_zero) ?c1" by (rule delay_step.thread) (simp add: delay_start_def)
  moreover have "(delay_step 10)\<^sup>*\<^sup>* ?c1 ((delay_irq ^^ 11) ?c1)" using c1 by (intro delay_irq_steps) simp
  moreover have "delay_step 10 ((delay_irq ^^ 11) ?c1) (delay_thread 10 ((delay_irq ^^ 11) ?c1))"
    using delay_irq_funpow [of 11 ?c1] c1 by (intro delay_step.thread) simp
  ultimately have "(delay_step 10)\<^sup>*\<^sup>* (delay_start systick_zero) (delay_thread 10 ((delay_irq ^^ 11) ?c1))"
    by (meson converse_rtranclp_into_rtranclp rtranclp.rtrancl_into_rtrancl)
  moreover have "pc (delay_thread 10 ((delay_irq ^^ 11) ?c1)) = Return"
    using delay_irq_funpow [of 11 ?c1] c1 by (simp add: delay_thread_def)
  ultimately show ?thesis by (simp add: busy_delay_ms_def)
qed

theorem busy_delay_ms_min_duration_witness:
  "unat (1 * 10 :: u32) < elapsed (delay_thread 10 ((delay_irq ^^ 11) (delay_thread 10 (delay_start systick_zero))))"
  using busy_delay_ms_min_duration [OF delay_example_run [THEN conjunct1] delay_example_run [THEN conjunct2]]
  by simp

theorem busy_delay_ms_returns_witness:
  "\<exists>c. (busy_delay_ms 429496730)\<^sup>*\<^sup>* (delay_start systick_zero) c \<and> pc c = Return \<and> elapsed c = 5"
  using busy_delay_ms_returns [of 429496730 systick_zero] by simp

theorem busy_delay_100us_hang_witness:
  "pc (delay_irq (delay_thread 0 (delay_start \<lparr>sys_int_times = -1, tick_count = 0\<rparr>))) = Wait"
proof -
  let ?c = "delay_thread 0 (delay_start \<lparr>sys_int_times = -1, tick_count = 0\<rparr>)"
  have c: "pc ?c = Wait" "expect_value ?c = -1"
    by (simp_all add: delay_thread_def delay_entry_def delay_start_def)
  have "(busy_delay_100us 0)\<^sup>*\<^sup>* ?c (delay_irq ?c)"
    using c by (simp add: busy_delay_100us_def delay_step.irq r_into_rtranclp)
  from busy_delay_100us_hang [OF this c] show ?thesis by simp
qed

end
