(* ===== verification/Tim.thy ===== *)
theory Tim
  imports Prelude
begin

text \<open>
  The general-purpose and advanced timer driver
  \<^verbatim>\<open>src/Libraries/STM32F30x_StdPeriph_Driver/src/stm32f30x_tim.c\<close>: time base
  configuration, the control-register setters, the six output compare channels and the
  group selection of channel 5. A timer is its register block (\<open>TIM_TypeDef\<close>) together
  with its identity (\<open>tim_id\<close>), since the driver compares \<open>TIMx\<close> against the
  peripheral addresses to decide which registers exist. The bit masks of the device
  header \<^verbatim>\<open>stm32f30x.h\<close>, which is not part of the repository, are written as
  families indexed by the channel, following the register layout of the header.
\<close>

unbundle bit_operations_syntax

section \<open>Peripherals and register blocks\<close>

datatype tim_id = TIM1 | TIM2 | TIM3 | TIM4 | TIM6 | TIM7 | TIM8 | TIM15 | TIM16 | TIM17

text \<open>The registers of \<open>TIM_TypeDef\<close> the driver functions below access, at their width.\<close>

record TIM_TypeDef =
  CR1 :: u16
  CR2 :: u32
  EGR :: u16
  CCMR1 :: u32
  CCMR2 :: u32
  CCER :: u32
  CNT :: u32
  PSC :: u16
  ARR :: u32
  RCR :: u16
  CCR1 :: u32
  CCR2 :: u32
  CCR3 :: u32
  CCR4 :: u32
  CCMR3 :: u32
  CCR5 :: u32
  CCR6 :: u32

record TIM_TimeBaseInitTypeDef =
  TIM_Prescaler :: u16
  TIM_CounterMode :: u16
  TIM_Period :: u32
  TIM_ClockDivision :: u16
  TIM_RepetitionCounter :: u16

record TIM_OCInitTypeDef =
  TIM_OCMode :: u32
  TIM_OutputState :: u16
  TIM_OutputNState :: u16
  TIM_Pulse :: u32
  TIM_OCPolarity :: u16
  TIM_OCNPolarity :: u16
  TIM_OCIdleState :: u16
  TIM_OCNIdleState :: u16

section \<open>Header constants\<close>

text \<open>Control register 1 bits (\<open>TIM_CR1_*\<close>) and parameter values of \<^verbatim>\<open>stm32f30x_tim.h\<close>.\<close>

abbreviation (input) TIM_CR1_CEN :: u16 where "TIM_CR1_CEN \<equiv> 0x0001"
abbreviation (input) TIM_CR1_UDIS :: u16 where "TIM_CR1_UDIS \<equiv> 0x0002"
abbreviation (input) TIM_CR1_URS :: u16 where "TIM_CR1_URS \<equiv> 0x0004"
abbreviation (input) TIM_CR1_OPM :: u16 where "TIM_CR1_OPM \<equiv> 0x0008"
abbreviation (input) TIM_CR1_DIR :: u16 where "TIM_CR1_DIR \<equiv> 0x0010"
abbreviation (input) TIM_CR1_CMS :: u16 where "TIM_CR1_CMS \<equiv> 0x0060"
abbreviation (input) TIM_CR1_ARPE :: u16 where "TIM_CR1_ARPE \<equiv> 0x0080"
abbreviation (input) TIM_CR1_CKD :: u16 where "TIM_CR1_CKD \<equiv> 0x0300"
abbreviation (input) TIM_CR1_UIFREMAP :: u16 where "TIM_CR1_UIFREMAP \<equiv> 0x0800"

abbreviation (input) TIM_PSCReloadMode_Immediate :: u16 where "TIM_PSCReloadMode_Immediate \<equiv> 0x0001"
abbreviation (input) TIM_UpdateSource_Global :: u16 where "TIM_UpdateSource_Global \<equiv> 0x0000"
abbreviation (input) TIM_CounterMode_Up :: u16 where "TIM_CounterMode_Up \<equiv> 0x0000"
abbreviation (input) TIM_CKD_DIV1 :: u16 where "TIM_CKD_DIV1 \<equiv> 0x0000"
abbreviation (input) TIM_OCIdleState_Set :: u16 where "TIM_OCIdleState_Set \<equiv> 0x0100"
abbreviation (input) TIM_OCIdleState_Reset :: u16 where "TIM_OCIdleState_Reset \<equiv> 0x0000"

text \<open>
  Channel masks: in \<open>CCER\<close> channel \<open>k\<close> owns bits \<open>4(k-1)\<close> (enable \<open>CCkE\<close>),
  \<open>4(k-1)+1\<close> (polarity \<open>CCkP\<close>), \<open>4(k-1)+2\<close> (\<open>CCkNE\<close>) and \<open>4(k-1)+3\<close>
  (\<open>CCkNP\<close>); in \<open>CR2\<close> the idle states \<open>OISk\<close> and \<open>OISkN\<close> are bits \<open>8+2(k-1)\<close>
  and \<open>9+2(k-1)\<close>; in \<open>CCMR1\<close>, \<open>CCMR2\<close>, \<open>CCMR3\<close> an odd channel owns the mode field
  \<open>0x00010070\<close> and the selection \<open>0x0003\<close>, an even channel the same fields shifted
  by 8.
\<close>

definition TIM_CCER_CCxE :: "nat \<Rightarrow> u32" where "TIM_CCER_CCxE k = push_bit (4 * (k - 1)) 1"
definition TIM_CCER_CCxP :: "nat \<Rightarrow> u32" where "TIM_CCER_CCxP k = push_bit (4 * (k - 1) + 1) 1"
definition TIM_CCER_CCxNE :: "nat \<Rightarrow> u32" where "TIM_CCER_CCxNE k = push_bit (4 * (k - 1) + 2) 1"
definition TIM_CCER_CCxNP :: "nat \<Rightarrow> u32" where "TIM_CCER_CCxNP k = push_bit (4 * (k - 1) + 3) 1"
definition TIM_CR2_OISx :: "nat \<Rightarrow> u32" where "TIM_CR2_OISx k = push_bit (8 + 2 * (k - 1)) 1"
definition TIM_CR2_OISxN :: "nat \<Rightarrow> u32" where "TIM_CR2_OISxN k = push_bit (9 + 2 * (k - 1)) 1"
definition TIM_CCMR_OCxM :: "nat \<Rightarrow> u32" where
  "TIM_CCMR_OCxM k = (if odd k then 0x00010070 else 0x01007000)"
definition TIM_CCMR_CCxS :: "nat \<Rightarrow> u32" where
  "TIM_CCMR_CCxS k = (if odd k then 0x0003 else 0x0300)"
definition TIM_CCR5_GC5Cx :: "nat \<Rightarrow> u32" where "TIM_CCR5_GC5Cx k = push_bit (28 + k) 1"

section \<open>Reset\<close>

text \<open>
  \<open>TIM_DeInit\<close> only pulses the reset line of the timer in the RCC; the model is the
  sequence of RCC calls it makes.
\<close>

definition TIM_DeInit :: "tim_id \<Rightarrow> rcc_call list" where
  "TIM_DeInit x =
     (if x = TIM1 then [RCC_APB2PeriphResetCmd ''TIM1'' ENABLE, RCC_APB2PeriphResetCmd ''TIM1'' DISABLE]
      else if x = TIM2 then [RCC_APB1PeriphResetCmd ''TIM2'' ENABLE, RCC_APB1PeriphResetCmd ''TIM2'' DISABLE]
      else if x = TIM3 then [RCC_APB1PeriphResetCmd ''TIM3'' ENABLE, RCC_APB1PeriphResetCmd ''TIM3'' DISABLE]
      else if x = TIM4 then [RCC_APB1PeriphResetCmd ''TIM4'' ENABLE, RCC_APB1PeriphResetCmd ''TIM4'' DISABLE]
      else if x = TIM6 then [RCC_APB1PeriphResetCmd ''TIM6'' ENABLE, RCC_APB1PeriphResetCmd ''TIM6'' DISABLE]
      else if x = TIM7 then [RCC_APB1PeriphResetCmd ''TIM7'' ENABLE, RCC_APB1PeriphResetCmd ''TIM7'' DISABLE]
      else if x = TIM8 then [RCC_APB2PeriphResetCmd ''TIM8'' ENABLE, RCC_APB2PeriphResetCmd ''TIM8'' DISABLE]
      else if x = TIM15 then [RCC_APB2PeriphResetCmd ''TIM15'' ENABLE, RCC_APB2PeriphResetCmd ''TIM15'' DISABLE]
      else if x = TIM16 then [RCC_APB2PeriphResetCmd ''TIM16'' ENABLE, RCC_APB2PeriphResetCmd ''TIM16'' DISABLE]
      else if x = TIM17 then [RCC_APB2PeriphResetCmd ''TIM17'' ENABLE, RCC_APB2PeriphResetCmd ''TIM17'' DISABLE]
      else [])"

section \<open>Time base\<close>

text \<open>
  \<open>TIM_TimeBaseInit\<close>: the counter mode exists on TIM1, TIM8, TIM2, TIM3 and TIM4, the
  clock division everywhere but on the basic timers TIM6 and TIM7, the repetition
  counter on TIM1, TIM8, TIM15, TIM16 and TIM17; an update event is generated last.
\<close>

definition TIM_TimeBaseInit :: "tim_id \<Rightarrow> TIM_TimeBaseInitTypeDef \<Rightarrow> TIM_TypeDef \<Rightarrow> TIM_TypeDef" where
  "TIM_TimeBaseInit x b t =
     (let tmpcr1 = CR1 t;
          tmpcr1 = (if x = TIM1 \<or> x = TIM8 \<or> x = TIM2 \<or> x = TIM3 \<or> x = TIM4
                    then (tmpcr1 AND NOT (TIM_CR1_DIR OR TIM_CR1_CMS)) OR TIM_CounterMode b
                    else tmpcr1);
          tmpcr1 = (if x \<noteq> TIM6 \<and> x \<noteq> TIM7
                    then (tmpcr1 AND NOT TIM_CR1_CKD) OR TIM_ClockDivision b
                    else tmpcr1);
          t1 = t\<lparr>CR1 := tmpcr1, ARR := TIM_Period b, PSC := TIM_Prescaler b\<rparr>;
          t2 = (if x = TIM1 \<or> x = TIM8 \<or> x = TIM15 \<or> x = TIM16 \<or> x = TIM17
                then t1\<lparr>RCR := TIM_RepetitionCounter b\<rparr> else t1)
      in t2\<lparr>EGR := TIM_PSCReloadMode_Immediate\<rparr>)"

text \<open>\<open>TIM_TimeBaseStructInit\<close> overwrites every field with the default configuration.\<close>

definition TIM_TimeBaseStructInit :: TIM_TimeBaseInitTypeDef where
  "TIM_TimeBaseStructInit =
     \<lparr>TIM_Prescaler = 0x0000, TIM_CounterMode = TIM_CounterMode_Up, TIM_Period = 0xFFFFFFFF,
      TIM_ClockDivision = TIM_CKD_DIV1, TIM_RepetitionCounter = 0x0000\<rparr>"

definition TIM_PrescalerConfig :: "u16 \<Rightarrow> u16 \<Rightarrow> TIM_TypeDef \<Rightarrow> TIM_TypeDef" where
  "TIM_PrescalerConfig Prescaler TIM_PSCReloadMode t = t\<lparr>PSC := Prescaler, EGR := TIM_PSCReloadMode\<rparr>"

definition TIM_CounterModeConfig :: "u16 \<Rightarrow> TIM_TypeDef \<Rightarrow> TIM_TypeDef" where
  "TIM_CounterModeConfig mode t = t\<lparr>CR1 := (CR1 t AND NOT (TIM_CR1_DIR OR TIM_CR1_CMS)) OR mode\<rparr>"

definition TIM_SetCounter :: "u32 \<Rightarrow> TIM_TypeDef \<Rightarrow> TIM_TypeDef" where
  "TIM_SetCounter Counter t = t\<lparr>CNT := Counter\<rparr>"

definition TIM_SetAutoreload :: "u32 \<Rightarrow> TIM_TypeDef \<Rightarrow> TIM_TypeDef" where
  "TIM_SetAutoreload Autoreload t = t\<lparr>ARR := Autoreload\<rparr>"

definition TIM_GetCounter :: "TIM_TypeDef \<Rightarrow> u32" where
  "TIM_GetCounter t = CNT t"

definition TIM_GetPrescaler :: "TIM_TypeDef \<Rightarrow> u16" where
  "TIM_GetPrescaler t = PSC t"

section \<open>Control register 1 setters\<close>

text \<open>
  \<^verbatim>\<open>if (NewState != DISABLE) TIMx->CR1 |= BIT; else TIMx->CR1 &= (uint16_t)~BIT;\<close> is
  \<open>cfg_bit\<close> of the prelude.
\<close>

definition TIM_UpdateDisableConfig :: "functional_state \<Rightarrow> TIM_TypeDef \<Rightarrow> TIM_TypeDef" where
  "TIM_UpdateDisableConfig NewState t = t\<lparr>CR1 := cfg_bit (NewState \<noteq> DISABLE) TIM_CR1_UDIS (CR1 t)\<rparr>"

definition TIM_UpdateRequestConfig :: "u16 \<Rightarrow> TIM_TypeDef \<Rightarrow> TIM_TypeDef" where
  "TIM_UpdateRequestConfig src t =
     t\<lparr>CR1 := cfg_bit (src \<noteq> TIM_UpdateSource_Global) TIM_CR1_URS (CR1 t)\<rparr>"

definition TIM_UIFRemap :: "functional_state \<Rightarrow> TIM_TypeDef \<Rightarrow> TIM_TypeDef" where
  "TIM_UIFRemap NewState t = t\<lparr>CR1 := cfg_bit (NewState \<noteq> DISABLE) TIM_CR1_UIFREMAP (CR1 t)\<rparr>"

definition TIM_ARRPreloadConfig :: "functional_state \<Rightarrow> TIM_TypeDef \<Rightarrow> TIM_TypeDef" where
  "TIM_ARRPreloadConfig NewState t = t\<lparr>CR1 := cfg_bit (NewState \<noteq> DISABLE) TIM_CR1_ARPE (CR1 t)\<rparr>"

definition TIM_SelectOnePulseMode :: "u16 \<Rightarrow> TIM_TypeDef \<Rightarrow> TIM_TypeDef" where
  "TIM_SelectOnePulseMode TIM_OPMode t =
     (let t1 = t\<lparr>CR1 := CR1 t AND NOT TIM_CR1_OPM\<rparr> in t1\<lparr>CR1 := CR1 t1 OR TIM_OPMode\<rparr>)"

definition TIM_SetClockDivision :: "u16 \<Rightarrow> TIM_TypeDef \<Rightarrow> TIM_TypeDef" where
  "TIM_SetClockDivision TIM_CKD t =
     (let t1 = t\<lparr>CR1 := CR1 t AND NOT TIM_CR1_CKD\<rparr> in t1\<lparr>CR1 := CR1 t1 OR TIM_CKD\<rparr>)"

definition TIM_Cmd :: "functional_state \<Rightarrow> TIM_TypeDef \<Rightarrow> TIM_TypeDef" where
  "TIM_Cmd NewState t = t\<lparr>CR1 := cfg_bit (NewState \<noteq> DISABLE) TIM_CR1_CEN (CR1 t)\<rparr>"

section \<open>Output compare channels\<close>

text \<open>
  Each \<open>TIM_OCxInit\<close> disables the channel in \<open>CCER\<close> first (a register write),
  then computes the new \<open>CCMRy\<close>, \<open>CCER\<close> and \<open>CR2\<close> values from copies
  (\<open>tmpccmrx\<close>, \<open>tmpccer\<close>, \<open>tmpcr2\<close>), the complementary output and idle states only
  on the timers that have them, and writes \<open>CR2\<close>, \<open>CCMRy\<close>, \<open>CCRx\<close> and \<open>CCER\<close>.
  A 16-bit field of the init structure is widened with \<open>ucast\<close>; the shifts are done
  in \<open>uint32_t\<close>, except the idle state of channel 6, which the code casts to
  \<open>uint16_t\<close> after shifting.
\<close>

definition TIM_OC1Init :: "tim_id \<Rightarrow> TIM_OCInitTypeDef \<Rightarrow> TIM_TypeDef \<Rightarrow> TIM_TypeDef" where
  "TIM_OC1Init x oc t0 =
     (let t = t0\<lparr>CCER := CCER t0 AND NOT (TIM_CCER_CCxE 1)\<rparr>;
          tmpccer = CCER t; tmpcr2 = CR2 t; tmpccmrx = CCMR1 t;
          tmpccmrx = tmpccmrx AND NOT (TIM_CCMR_OCxM 1);
          tmpccmrx = tmpccmrx AND NOT (TIM_CCMR_CCxS 1);
          tmpccmrx = tmpccmrx OR TIM_OCMode oc;
          tmpccer = tmpccer AND NOT (TIM_CCER_CCxP 1);
          tmpccer = tmpccer OR ucast (TIM_OCPolarity oc);
          tmpccer = tmpccer OR ucast (TIM_OutputState oc);
          (tmpccer, tmpcr2) =
            (if x = TIM1 \<or> x = TIM8 \<or> x = TIM15 \<or> x = TIM16 \<or> x = TIM17 then
               (((tmpccer AND NOT (TIM_CCER_CCxNP 1)) OR ucast (TIM_OCNPolarity oc))
                  AND NOT (TIM_CCER_CCxNE 1) OR ucast (TIM_OutputNState oc),
                tmpcr2 AND NOT (TIM_CR2_OISx 1) AND NOT (TIM_CR2_OISxN 1)
                  OR ucast (TIM_OCIdleState oc) OR ucast (TIM_OCNIdleState oc))
             else (tmpccer, tmpcr2))
      in t\<lparr>CR2 := tmpcr2, CCMR1 := tmpccmrx, CCR1 := TIM_Pulse oc, CCER := tmpccer\<rparr>)"

definition TIM_OC2Init :: "tim_id \<Rightarrow> TIM_OCInitTypeDef \<Rightarrow> TIM_TypeDef \<Rightarrow> TIM_TypeDef" where
  "TIM_OC2Init x oc t0 =
     (let t = t0\<lparr>CCER := CCER t0 AND NOT (TIM_CCER_CCxE 2)\<rparr>;
          tmpccer = CCER t; tmpcr2 = CR2 t; tmpccmrx = CCMR1 t;
          tmpccmrx = tmpccmrx AND NOT (TIM_CCMR_OCxM 2);
          tmpccmrx = tmpccmrx AND NOT (TIM_CCMR_CCxS 2);
          tmpccmrx = tmpccmrx OR push_bit 8 (TIM_OCMode oc);
          tmpccer = tmpccer AND NOT (TIM_CCER_CCxP 2);
          tmpccer = tmpccer OR push_bit 4 (ucast (TIM_OCPolarity oc));
          tmpccer = tmpccer OR push_bit 4 (ucast (TIM_OutputState oc));
          (tmpccer, tmpcr2) =
            (if x = TIM1 \<or> x = TIM8 then
               (((tmpccer AND NOT (TIM_CCER_CCxNP 2)) OR push_bit 4 (ucast (TIM_OCNPolarity oc)))
                  AND NOT (TIM_CCER_CCxNE 2) OR push_bit 4 (ucast (TIM_OutputNState oc)),
                tmpcr2 AND NOT (TIM_CR2_OISx 2) AND NOT (TIM_CR2_OISxN 2)
                  OR push_bit 2 (ucast (TIM_OCIdleState oc)) OR push_bit 2 (ucast (TIM_OCNIdleState oc)))
             else (tmpccer, tmpcr2))
      in t\<lparr>CR2 := tmpcr2, CCMR1 := tmpccmrx, CCR2 := TIM_Pulse oc, CCER := tmpccer\<rparr>)"

definition TIM_OC3Init :: "tim_id \<Rightarrow> TIM_OCInitTypeDef \<Rightarrow> TIM_TypeDef \<Rightarrow> TIM_TypeDef" where
  "TIM_OC3Init x oc t0 =
     (let t = t0\<lparr>CCER := CCER t0 AND NOT (TIM_CCER_CCxE 3)\<rparr>;
          tmpccer = CCER t; tmpcr2 = CR2 t; tmpccmrx = CCMR2 t;
          tmpccmrx = tmpccmrx AND NOT (TIM_CCMR_OCxM 3);
          tmpccmrx = tmpccmrx AND NOT (TIM_CCMR_CCxS 3);
          tmpccmrx = tmpccmrx OR TIM_OCMode oc;
          tmpccer = tmpccer AND NOT (TIM_CCER_CCxP 3);
          tmpccer = tmpccer OR push_bit 8 (ucast (TIM_OCPolarity oc));
          tmpccer = tmpccer OR push_bit 8 (ucast (TIM_OutputState oc));
          (tmpccer, tmpcr2) =
            (if x = TIM1 \<or> x = TIM8 then
               (((tmpccer AND NOT (TIM_CCER_CCxNP 3)) OR push_bit 8 (ucast (TIM_OCNPolarity oc)))
                  AND NOT (TIM_CCER_CCxNE 3) OR push_bit 8 (ucast (TIM_OutputNState oc)),
                tmpcr2 AND NOT (TIM_CR2_OISx 3) AND NOT (TIM_CR2_OISxN 3)
                  OR push_bit 4 (ucast (TIM_OCIdleState oc)) OR push_bit 4 (ucast (TIM_OCNIdleState oc)))
             else (tmpccer, tmpcr2))
      in t\<lparr>CR2 := tmpcr2, CCMR2 := tmpccmrx, CCR3 := TIM_Pulse oc, CCER := tmpccer\<rparr>)"

definition TIM_OC4Init :: "tim_id \<Rightarrow> TIM_OCInitTypeDef \<Rightarrow> TIM_TypeDef \<Rightarrow> TIM_TypeDef" where
  "TIM_OC4Init x oc t0 =
     (let t = t0\<lparr>CCER := CCER t0 AND NOT (TIM_CCER_CCxE 4)\<rparr>;
          tmpccer = CCER t; tmpcr2 = CR2 t; tmpccmrx = CCMR2 t;
          tmpccmrx = tmpccmrx AND NOT (TIM_CCMR_OCxM 4);
          tmpccmrx = tmpccmrx AND NOT (TIM_CCMR_CCxS 4);
          tmpccmrx = tmpccmrx OR push_bit 8 (TIM_OCMode oc);
          tmpccer = tmpccer AND NOT (TIM_CCER_CCxP 4);
          tmpccer = tmpccer OR push_bit 12 (ucast (TIM_OCPolarity oc));
          tmpccer = tmpccer OR push_bit 12 (ucast (TIM_OutputState oc));
          tmpcr2 = (if x = TIM1 \<or> x = TIM8
                    then tmpcr2 AND NOT (TIM_CR2_OISx 4) OR push_bit 6 (ucast (TIM_OCIdleState oc))
                    else tmpcr2)
      in t\<lparr>CR2 := tmpcr2, CCMR2 := tmpccmrx, CCR4 := TIM_Pulse oc, CCER := tmpccer\<rparr>)"

text \<open>
  Channel 5: \<^verbatim>\<open>tmpcr2 |= (uint32_t)((uint32_t)TIM_OCInitStruct->TIM_OCIdleState << 16);\<close>
\<close>

definition TIM_OC5Init :: "tim_id \<Rightarrow> TIM_OCInitTypeDef \<Rightarrow> TIM_TypeDef \<Rightarrow> TIM_TypeDef" where
  "TIM_OC5Init x oc t0 =
     (let t = t0\<lparr>CCER := CCER t0 AND NOT (TIM_CCER_CCxE 5)\<rparr>;
          tmpccer = CCER t; tmpcr2 = CR2 t; tmpccmrx = CCMR3 t;
          tmpccmrx = tmpccmrx AND NOT (TIM_CCMR_OCxM 5);
          tmpccmrx = tmpccmrx OR TIM_OCMode oc;
          tmpccer = tmpccer AND NOT (TIM_CCER_CCxP 5);
          tmpccer = tmpccer OR push_bit 16 (ucast (TIM_OCPolarity oc));
          tmpccer = tmpccer OR push_bit 16 (ucast (TIM_OutputState oc));
          tmpcr2 = (if x = TIM1 \<or> x = TIM8
                    then tmpcr2 AND NOT (TIM_CR2_OISx 5) OR push_bit 16 (ucast (TIM_OCIdleState oc))
                    else tmpcr2)
      in t\<lparr>CR2 := tmpcr2, CCMR3 := tmpccmrx, CCR5 := TIM_Pulse oc, CCER := tmpccer\<rparr>)"

text \<open>
  Channel 6: \<^verbatim>\<open>tmpcr2 |= (uint16_t)(TIM_OCInitStruct->TIM_OCIdleState << 18);\<close>: the
  shift is done in \<open>int\<close> and the result cut to its low 16 bits before the
  \<open>OR\<close>.
\<close>

definition TIM_OC6Init :: "tim_id \<Rightarrow> TIM_OCInitTypeDef \<Rightarrow> TIM_TypeDef \<Rightarrow> TIM_TypeDef" where
  "TIM_OC6Init x oc t0 =
     (let t = t0\<lparr>CCER := CCER t0 AND NOT (TIM_CCER_CCxE 6)\<rparr>;
          tmpccer = CCER t; tmpcr2 = CR2 t; tmpccmrx = CCMR3 t;
          tmpccmrx = tmpccmrx AND NOT (TIM_CCMR_OCxM 6);
          tmpccmrx = tmpccmrx OR push_bit 8 (TIM_OCMode oc);
          tmpccer = tmpccer AND NOT (TIM_CCER_CCxP 6);
          tmpccer = tmpccer OR push_bit 20 (ucast (TIM_OCPolarity oc));
          tmpccer = tmpccer OR push_bit 20 (ucast (TIM_OutputState oc));
          tmpcr2 = (if x = TIM1 \<or> x = TIM8
                    then tmpcr2 AND NOT (TIM_CR2_OISx 6)
                           OR ucast (ucast (push_bit 18 (ucast (TIM_OCIdleState oc) :: u32)) :: u16)
                    else tmpcr2)
      in t\<lparr>CR2 := tmpcr2, CCMR3 := tmpccmrx, CCR6 := TIM_Pulse oc, CCER := tmpccer\<rparr>)"

definition TIM_SelectGC5C1 :: "functional_state \<Rightarrow> TIM_TypeDef \<Rightarrow> TIM_TypeDef" where
  "TIM_SelectGC5C1 NewState t = t\<lparr>CCR5 := cfg_bit (NewState \<noteq> DISABLE) (TIM_CCR5_GC5Cx 1) (CCR5 t)\<rparr>"

definition TIM_SelectGC5C2 :: "functional_state \<Rightarrow> TIM_TypeDef \<Rightarrow> TIM_TypeDef" where
  "TIM_SelectGC5C2 NewState t = t\<lparr>CCR5 := cfg_bit (NewState \<noteq> DISABLE) (TIM_CCR5_GC5Cx 2) (CCR5 t)\<rparr>"

section \<open>Lemmas\<close>

lemma bit_TIM_CCER [reg_simps]:
  "bit (TIM_CCER_CCxE k) n \<longleftrightarrow> n = 4 * (k - 1) \<and> 4 * (k - 1) < 32"
  "bit (TIM_CCER_CCxP k) n \<longleftrightarrow> n = 4 * (k - 1) + 1 \<and> 4 * (k - 1) + 1 < 32"
  "bit (TIM_CCER_CCxNE k) n \<longleftrightarrow> n = 4 * (k - 1) + 2 \<and> 4 * (k - 1) + 2 < 32"
  "bit (TIM_CCER_CCxNP k) n \<longleftrightarrow> n = 4 * (k - 1) + 3 \<and> 4 * (k - 1) + 3 < 32"
  by (simp only: TIM_CCER_CCxE_def TIM_CCER_CCxP_def TIM_CCER_CCxNE_def TIM_CCER_CCxNP_def
                 bit_push_bit_one , simp)+

lemma bit_TIM_CR2 [reg_simps]:
  "bit (TIM_CR2_OISx k) n \<longleftrightarrow> n = 8 + 2 * (k - 1) \<and> 8 + 2 * (k - 1) < 32"
  "bit (TIM_CR2_OISxN k) n \<longleftrightarrow> n = 9 + 2 * (k - 1) \<and> 9 + 2 * (k - 1) < 32"
  by (simp only: TIM_CR2_OISx_def TIM_CR2_OISxN_def bit_push_bit_one, simp)+

lemma TIM_CCMR_masks_pow2:
  "(0x00010070 :: u32) = 2 ^ 4 OR 2 ^ 5 OR 2 ^ 6 OR 2 ^ 16"
  "(0x01007000 :: u32) = 2 ^ 12 OR 2 ^ 13 OR 2 ^ 14 OR 2 ^ 24"
  "(0x0003 :: u32) = 2 ^ 0 OR 2 ^ 1"
  "(0x0300 :: u32) = 2 ^ 8 OR 2 ^ 9"
  by simp_all

lemma bit_TIM_CCMR [reg_simps]:
  "bit (TIM_CCMR_OCxM k) n \<longleftrightarrow> (if odd k then n = 4 \<or> n = 5 \<or> n = 6 \<or> n = 16
                                  else n = 12 \<or> n = 13 \<or> n = 14 \<or> n = 24)"
  "bit (TIM_CCMR_CCxS k) n \<longleftrightarrow> (if odd k then n = 0 \<or> n = 1 else n = 8 \<or> n = 9)"
  by (simp only: TIM_CCMR_OCxM_def TIM_CCMR_CCxS_def TIM_CCMR_masks_pow2 bit_or_iff bit_pow2_word
                 if_distrib [of "\<lambda>m. bit m n"], simp)+

lemma bit_small_u16 [reg_simps]:
  "bit (1 :: u16) n \<longleftrightarrow> n = 0"
  "bit (2 :: u16) n \<longleftrightarrow> n = 1"
  "bit (4 :: u16) n \<longleftrightarrow> n = 2"
  "bit (8 :: u16) n \<longleftrightarrow> n = 3"
  "bit (0x100 :: u16) n \<longleftrightarrow> n = 8"
  "bit (0x200 :: u16) n \<longleftrightarrow> n = 9"
  by (rule bit_mask_pow2; simp)+

lemmas tim_bit_simps = bit_and_iff bit_or_iff bit_not_iff bit_push_bit_iff bit_ucast_iff

lemma ucast_push_bit_18_u16: "(ucast (push_bit 18 (ucast (v :: u16) :: u32)) :: u16) = 0"
  by (rule bit_eqI) (auto simp: tim_bit_simps)

lemma TIM_OC2Init_regs:
  "CCMR1 (TIM_OC2Init x oc t) = ((CCMR1 t AND NOT (TIM_CCMR_OCxM 2)) AND NOT (TIM_CCMR_CCxS 2)) OR push_bit 8 (TIM_OCMode oc)"
  "CCR1 (TIM_OC2Init x oc t) = CCR1 t"
  "CCER (TIM_OC2Init x oc t) =
     (let c = (((CCER t AND NOT (TIM_CCER_CCxE 2)) AND NOT (TIM_CCER_CCxP 2))
              OR push_bit 4 (ucast (TIM_OCPolarity oc))) OR push_bit 4 (ucast (TIM_OutputState oc))
      in if x = TIM1 \<or> x = TIM8
         then (c AND NOT (TIM_CCER_CCxNP 2) OR push_bit 4 (ucast (TIM_OCNPolarity oc)))
                AND NOT (TIM_CCER_CCxNE 2) OR push_bit 4 (ucast (TIM_OutputNState oc))
         else c)"
  "CR2 (TIM_OC2Init x oc t) =
     (if x = TIM1 \<or> x = TIM8
      then CR2 t AND NOT (TIM_CR2_OISx 2) AND NOT (TIM_CR2_OISxN 2)
             OR push_bit 2 (ucast (TIM_OCIdleState oc)) OR push_bit 2 (ucast (TIM_OCNIdleState oc))
      else CR2 t)"
  by (simp_all add: TIM_OC2Init_def Let_def)

section \<open>Properties\<close>

text \<open>
  C31. On a general-purpose timer (TIM2, TIM3, TIM4) \<open>TIM_OC1Init\<close> with a mode in the
  channel-1 mode field and valid polarity and output state enables channel 1 exactly
  when the output state is Enable, makes it active low exactly for the Low polarity,
  keeps every other \<open>CCER\<close> bit, puts the mode into the channel-1 fields of \<open>CCMR1\<close>
  (output compare selection 0) without touching channel 2, loads \<open>CCR1\<close> with the
  pulse and leaves \<open>CR2\<close> alone.
\<close>

theorem TIM_OC1Init_channel1:
  assumes "x = TIM2 \<or> x = TIM3 \<or> x = TIM4"
    and mode: "TIM_OCMode oc AND NOT (TIM_CCMR_OCxM 1) = 0"
    and "TIM_OCPolarity oc = 0 \<or> TIM_OCPolarity oc = 2"
    and "TIM_OutputState oc = 0 \<or> TIM_OutputState oc = 1"
  shows "(\<forall>n. bit (CCER (TIM_OC1Init x oc t)) n =
            (if n = 0 then TIM_OutputState oc = 1 else if n = 1 then TIM_OCPolarity oc = 2
             else bit (CCER t) n)) \<and>
         (\<forall>n. bit (CCMR1 (TIM_OC1Init x oc t)) n =
            (if bit (TIM_CCMR_OCxM 1 OR TIM_CCMR_CCxS 1) n then bit (TIM_OCMode oc) n
             else bit (CCMR1 t) n)) \<and>
         CCR1 (TIM_OC1Init x oc t) = TIM_Pulse oc \<and> CR2 (TIM_OC1Init x oc t) = CR2 t"
proof (intro conjI allI)
  fix n
  show "bit (CCER (TIM_OC1Init x oc t)) n =
          (if n = 0 then TIM_OutputState oc = 1 else if n = 1 then TIM_OCPolarity oc = 2
           else bit (CCER t) n)"
    using assms(1,3,4) by (auto simp: TIM_OC1Init_def Let_def tim_bit_simps reg_simps dest: bit_imp_le_length simp del: bit_numeral_word_iff)
  show "bit (CCMR1 (TIM_OC1Init x oc t)) n =
          (if bit (TIM_CCMR_OCxM 1 OR TIM_CCMR_CCxS 1) n then bit (TIM_OCMode oc) n
           else bit (CCMR1 t) n)"
    using assms(1) bit_within_field [OF mode, of n]
    by (auto simp: TIM_OC1Init_def Let_def tim_bit_simps reg_simps dest: bit_imp_le_length simp del: bit_numeral_word_iff)
qed (use assms(1) in \<open>auto simp: TIM_OC1Init_def Let_def\<close>)

text \<open>
  C32. \<open>TIM_OC2Init\<close> leaves the configuration of channel 1 alone: its four \<open>CCER\<close>
  bits, its \<open>CCMR1\<close> fields, its idle state bits in \<open>CR2\<close> and \<open>CCR1\<close>, on every
  timer and for valid mode and idle states, so channels configured one after the other
  keep their settings.
\<close>

theorem TIM_OC2Init_keeps_channel1:
  assumes mode: "TIM_OCMode oc AND NOT (TIM_CCMR_OCxM 1) = 0"
    and idle: "TIM_OCIdleState oc = 0 \<or> TIM_OCIdleState oc = 0x100"
    and nidle: "TIM_OCNIdleState oc = 0 \<or> TIM_OCNIdleState oc = 0x200"
  shows "(\<forall>n<4. bit (CCER (TIM_OC2Init x oc t)) n = bit (CCER t) n) \<and>
         (\<forall>n. bit (TIM_CCMR_OCxM 1 OR TIM_CCMR_CCxS 1) n \<longrightarrow>
              bit (CCMR1 (TIM_OC2Init x oc t)) n = bit (CCMR1 t) n) \<and>
         (\<forall>n. bit (TIM_CR2_OISx 1 OR TIM_CR2_OISxN 1) n \<longrightarrow>
              bit (CR2 (TIM_OC2Init x oc t)) n = bit (CR2 t) n) \<and>
         CCR1 (TIM_OC2Init x oc t) = CCR1 t"
proof (intro conjI allI impI)
  fix n :: nat
  assume "n < 4"
  then show "bit (CCER (TIM_OC2Init x oc t)) n = bit (CCER t) n"
    by (simp add: TIM_OC2Init_regs Let_def tim_bit_simps reg_simps)
next
  fix n :: nat
  assume "bit (TIM_CCMR_OCxM 1 OR TIM_CCMR_CCxS 1) n"
  moreover have "\<not> bit (TIM_OCMode oc) 8" using bit_within_field [OF mode, of 8] by (auto simp: reg_simps)
  ultimately show "bit (CCMR1 (TIM_OC2Init x oc t)) n = bit (CCMR1 t) n"
    by (auto simp: TIM_OC2Init_regs tim_bit_simps reg_simps)
next
  fix n :: nat
  assume "bit (TIM_CR2_OISx 1 OR TIM_CR2_OISxN 1) n"
  then have "n = 8 \<or> n = 9" by (simp add: bit_or_iff reg_simps)
  with idle nidle show "bit (CR2 (TIM_OC2Init x oc t)) n = bit (CR2 t) n"
    by (elim disjE) (simp_all add: TIM_OC2Init_regs tim_bit_simps reg_simps)
qed (simp add: TIM_OC2Init_regs)

text \<open>
  C33. On TIM1 and TIM8, \<open>TIM_OC5Init\<close> with the idle state Set does not set the
  channel-5 idle bit \<open>OIS5\<close> (bit 16 of \<open>CR2\<close>), which it clears, but bit 24: the
  value \<open>0x0100\<close> is shifted by 16 instead of 8.
\<close>

theorem TIM_OC5Init_idle_state:
  "x = TIM1 \<or> x = TIM8 \<Longrightarrow> TIM_OCIdleState oc = TIM_OCIdleState_Set \<Longrightarrow>
   \<not> bit (CR2 (TIM_OC5Init x oc t)) 16 \<and> bit (CR2 (TIM_OC5Init x oc t)) 24"
  by (auto simp: TIM_OC5Init_def Let_def tim_bit_simps reg_simps)

text \<open>
  C34. On TIM1 and TIM8, \<open>TIM_OC6Init\<close> only clears \<open>OIS6\<close>: the requested idle
  state shifted by 18 and cut to 16 bits is always 0, so the idle state of channel 6
  can never be set.
\<close>

theorem TIM_OC6Init_idle_state:
  "x = TIM1 \<or> x = TIM8 \<Longrightarrow> CR2 (TIM_OC6Init x oc t) = CR2 t AND NOT (TIM_CR2_OISx 6)"
  by (auto simp: TIM_OC6Init_def Let_def ucast_push_bit_18_u16)

section \<open>Witnesses\<close>

abbreviation (input) tim_regs0 :: TIM_TypeDef where
  "tim_regs0 \<equiv> \<lparr>CR1 = 0, CR2 = 0x40000, EGR = 0, CCMR1 = 0x6800, CCMR2 = 0, CCER = 0x10, CNT = 0,
     PSC = 0, ARR = 0, RCR = 0, CCR1 = 7, CCR2 = 0, CCR3 = 0, CCR4 = 0, CCMR3 = 0, CCR5 = 0, CCR6 = 0\<rparr>"

abbreviation (input) tim_pwm1 :: TIM_OCInitTypeDef where
  "tim_pwm1 \<equiv> \<lparr>TIM_OCMode = 0x60, TIM_OutputState = 1, TIM_OutputNState = 4, TIM_Pulse = 1000,
     TIM_OCPolarity = 2, TIM_OCNPolarity = 8, TIM_OCIdleState = 0x100, TIM_OCNIdleState = 0x200\<rparr>"

theorem TIM_OC1Init_channel1_witness:
  "bit (CCER (TIM_OC1Init TIM2 tim_pwm1 tim_regs0)) 0 \<and> bit (CCER (TIM_OC1Init TIM2 tim_pwm1 tim_regs0)) 4 \<and>
   CCR1 (TIM_OC1Init TIM2 tim_pwm1 tim_regs0) = 1000"
  using TIM_OC1Init_channel1 [of TIM2 tim_pwm1 tim_regs0] by (simp add: TIM_CCMR_OCxM_def)

theorem TIM_OC2Init_keeps_channel1_witness:
  "CCR1 (TIM_OC2Init TIM1 tim_pwm1 tim_regs0) = 7"
  using TIM_OC2Init_keeps_channel1 [of tim_pwm1 TIM1 tim_regs0] by (simp add: TIM_CCMR_OCxM_def)

theorem TIM_OC5Init_idle_state_witness:
  "\<not> bit (CR2 (TIM_OC5Init TIM1 tim_pwm1 tim_regs0)) 16 \<and> bit (CR2 (TIM_OC5Init TIM1 tim_pwm1 tim_regs0)) 24"
  using TIM_OC5Init_idle_state [of TIM1 tim_pwm1 tim_regs0] by simp

theorem TIM_OC6Init_idle_state_witness: "CR2 (TIM_OC6Init TIM1 tim_pwm1 tim_regs0) = 0"
  using TIM_OC6Init_idle_state [of TIM1 tim_pwm1 tim_regs0] by (simp add: TIM_CR2_OISx_def)

end
