(* ===== verification/TimCR1.thy ===== *)
theory TimCR1
  imports Tim
begin

text \<open>
  An abstract specification of the timer control register \<open>CR1\<close> and the refinement
  of it by the \<open>CR1\<close> setters of \<^verbatim>\<open>stm32f30x_tim.c\<close> (theory \<open>Tim\<close>). The abstract
  state names the fields of \<open>CR1\<close>, with the multi-bit fields in the encoding the
  header's constants use (\<open>TIM_CounterMode_x\<close>, \<open>TIM_CKD_DIVx\<close>); \<open>abs_cr1\<close> reads
  them from the register and \<open>conc_cr1\<close> writes them back. Each setter, called with
  an argument its \<open>assert_param\<close> accepts, changes its own field to the requested
  value and nothing else.
\<close>

unbundle bit_operations_syntax

section \<open>Abstract control register\<close>

record tim_cr1_cfg =
  cnt_enable :: bool
  upd_disable :: bool
  upd_regular_only :: bool
  one_pulse :: bool
  counter_mode :: u16
  arr_preload :: bool
  clock_division :: u16
  uif_remap :: bool
  cr1_reserved :: u16

definition abs_cr1 :: "u16 \<Rightarrow> tim_cr1_cfg" where
  "abs_cr1 r =
     \<lparr>cnt_enable = bit r 0, upd_disable = bit r 1, upd_regular_only = bit r 2, one_pulse = bit r 3,
      counter_mode = r AND 0x0070, arr_preload = bit r 7, clock_division = r AND 0x0300,
      uif_remap = bit r 11, cr1_reserved = r AND 0xF400\<rparr>"

definition conc_cr1 :: "tim_cr1_cfg \<Rightarrow> u16" where
  "conc_cr1 c =
     (if cnt_enable c then 0x0001 else 0) OR (if upd_disable c then 0x0002 else 0) OR
     (if upd_regular_only c then 0x0004 else 0) OR (if one_pulse c then 0x0008 else 0) OR
     (counter_mode c AND 0x0070) OR (if arr_preload c then 0x0080 else 0) OR
     (clock_division c AND 0x0300) OR (if uif_remap c then 0x0800 else 0) OR
     (cr1_reserved c AND 0xF400)"

text \<open>The \<open>CR1\<close> requests of the driver, each with its \<open>assert_param\<close> range.\<close>

datatype cr1_op =
    Cmd functional_state
  | UpdateDisable functional_state
  | UpdateRequest u16
  | UIFRemap functional_state
  | ARRPreload functional_state
  | OnePulse u16
  | ClockDivision u16
  | CounterMode u16

fun cr1_op_ok :: "cr1_op \<Rightarrow> bool" where
  "cr1_op_ok (UpdateRequest src) = (src \<in> {0x0000, 0x0001})"
| "cr1_op_ok (OnePulse m) = (m \<in> {0x0000, 0x0008})"
| "cr1_op_ok (ClockDivision d) = (d \<in> {0x0000, 0x0100, 0x0200})"
| "cr1_op_ok (CounterMode m) = (m \<in> {0x0000, 0x0010, 0x0020, 0x0040, 0x0060})"
| "cr1_op_ok _ = True"

fun cr1_impl :: "cr1_op \<Rightarrow> TIM_TypeDef \<Rightarrow> TIM_TypeDef" where
  "cr1_impl (Cmd st) = TIM_Cmd st"
| "cr1_impl (UpdateDisable st) = TIM_UpdateDisableConfig st"
| "cr1_impl (UpdateRequest src) = TIM_UpdateRequestConfig src"
| "cr1_impl (UIFRemap st) = TIM_UIFRemap st"
| "cr1_impl (ARRPreload st) = TIM_ARRPreloadConfig st"
| "cr1_impl (OnePulse m) = TIM_SelectOnePulseMode m"
| "cr1_impl (ClockDivision d) = TIM_SetClockDivision d"
| "cr1_impl (CounterMode m) = TIM_CounterModeConfig m"

fun cr1_spec :: "cr1_op \<Rightarrow> tim_cr1_cfg \<Rightarrow> tim_cr1_cfg" where
  "cr1_spec (Cmd st) c = c\<lparr>cnt_enable := st = ENABLE\<rparr>"
| "cr1_spec (UpdateDisable st) c = c\<lparr>upd_disable := st = ENABLE\<rparr>"
| "cr1_spec (UpdateRequest src) c = c\<lparr>upd_regular_only := src = 0x0001\<rparr>"
| "cr1_spec (UIFRemap st) c = c\<lparr>uif_remap := st = ENABLE\<rparr>"
| "cr1_spec (ARRPreload st) c = c\<lparr>arr_preload := st = ENABLE\<rparr>"
| "cr1_spec (OnePulse m) c = c\<lparr>one_pulse := m = 0x0008\<rparr>"
| "cr1_spec (ClockDivision d) c = c\<lparr>clock_division := d\<rparr>"
| "cr1_spec (CounterMode m) c = c\<lparr>counter_mode := m\<rparr>"

section \<open>Refinement\<close>

text \<open>
  \<open>abs_cr1\<close> loses nothing: \<open>conc_cr1\<close> rebuilds the register from it. Each setter
  changes \<open>CR1\<close> only, and moves the abstract state as its specification says.
\<close>

lemma upt_16: "[0..<16] = ([0, 1, 2, 3, 4, 5, 6, 7, 8, 9, 10, 11, 12, 13, 14, 15] :: nat list)"
  by (simp add: upt_rec)

lemma u16_eq_bitsI:
  assumes "list_all (\<lambda>n. bit a n = bit b n) [0, 1, 2, 3, 4, 5, 6, 7, 8, 9, 10, 11, 12, 13, 14, 15]"
  shows "a = (b :: u16)"
proof (rule bit_eqI)
  fix n assume "possible_bit TYPE(u16) n"
  then have "n \<in> set [0..<16]" by (simp add: possible_bit_def)
  then show "bit a n = bit b n" using assms by (simp only: upt_16 list_all_iff)
qed

lemma conc_abs_cr1: "conc_cr1 (abs_cr1 r) = r"
  by (rule u16_eq_bitsI) (simp add: conc_cr1_def abs_cr1_def bit_or_iff bit_and_iff split: if_split)

lemmas cr1_impl_defs = TIM_Cmd_def TIM_UpdateDisableConfig_def TIM_UpdateRequestConfig_def
    TIM_UIFRemap_def TIM_ARRPreloadConfig_def TIM_SelectOnePulseMode_def TIM_SetClockDivision_def
    TIM_CounterModeConfig_def

lemma cr1_impl_frame: "(cr1_impl op t)\<lparr>CR1 := CR1 t\<rparr> = t"
  by (cases op) (simp_all add: cr1_impl_defs)

lemma cr1_refines:
  assumes "cr1_op_ok op"
  shows "abs_cr1 (CR1 (cr1_impl op t)) = cr1_spec op (abs_cr1 (CR1 t))"
  using assms
  by (cases op) (auto simp: cr1_impl_defs abs_cr1_def bit_cfg_bit bit_or_iff bit_and_iff
      cfg_bit_and_disjoint and_keep and_clear set_field_keep set_field_clear)

text \<open>
  C3: every sequence of \<open>CR1\<close> requests the driver accepts (\<open>TIM_Cmd\<close>,
  \<open>TIM_UpdateDisableConfig\<close>, \<open>TIM_UpdateRequestConfig\<close>, \<open>TIM_UIFRemap\<close>,
  \<open>TIM_ARRPreloadConfig\<close>, \<open>TIM_SelectOnePulseMode\<close>, \<open>TIM_SetClockDivision\<close>,
  \<open>TIM_CounterModeConfig\<close>, arguments within their \<open>assert_param\<close> ranges) refines the
  abstract specification: the fields read from \<open>CR1\<close> are those the abstract requests
  produce, the register is the encoding of the abstract state, and no other register of
  the timer changes.
\<close>

theorem TIM_CR1_refinement:
  "list_all cr1_op_ok ops \<Longrightarrow>
   abs_cr1 (CR1 (fold cr1_impl ops t)) = fold cr1_spec ops (abs_cr1 (CR1 t)) \<and>
   CR1 (fold cr1_impl ops t) = conc_cr1 (fold cr1_spec ops (abs_cr1 (CR1 t))) \<and>
   (fold cr1_impl ops t)\<lparr>CR1 := CR1 t\<rparr> = t"
proof (induction ops arbitrary: t)
  case Nil then show ?case by (simp add: conc_abs_cr1)
next
  case (Cons op ops)
  let ?s = "cr1_impl op t"
  have ok: "cr1_op_ok op" "list_all cr1_op_ok ops" using Cons.prems by simp_all
  have IH: "abs_cr1 (CR1 (fold cr1_impl ops ?s)) = fold cr1_spec ops (abs_cr1 (CR1 ?s))"
      "(fold cr1_impl ops ?s)\<lparr>CR1 := CR1 ?s\<rparr> = ?s"
    using Cons.IH [OF ok(2), of ?s] by (blast, blast)
  have abs: "abs_cr1 (CR1 (fold cr1_impl (op # ops) t)) = fold cr1_spec (op # ops) (abs_cr1 (CR1 t))"
    using IH(1) cr1_refines [OF ok(1)] by simp
  moreover have "CR1 (fold cr1_impl (op # ops) t) = conc_cr1 (fold cr1_spec (op # ops) (abs_cr1 (CR1 t)))"
    using arg_cong [OF abs, of conc_cr1] by (simp only: conc_abs_cr1)
  moreover have "(fold cr1_impl (op # ops) t)\<lparr>CR1 := CR1 t\<rparr> = t"
  proof -
    have "(fold cr1_impl ops ?s)\<lparr>CR1 := CR1 t\<rparr> =
          ((fold cr1_impl ops ?s)\<lparr>CR1 := CR1 ?s\<rparr>)\<lparr>CR1 := CR1 t\<rparr>" by simp
    also have "\<dots> = ?s\<lparr>CR1 := CR1 t\<rparr>" by (simp only: IH(2))
    also have "\<dots> = t" by (rule cr1_impl_frame)
    finally show ?thesis by simp
  qed
  ultimately show ?case by blast
qed

section \<open>Witnesses\<close>

theorem TIM_CR1_refinement_witness:
  "CR1 (fold cr1_impl [CounterMode 0x20, ClockDivision 0x100, OnePulse 8, Cmd ENABLE] tim_regs0) = 0x129"
  using TIM_CR1_refinement [of "[CounterMode 0x20, ClockDivision 0x100, OnePulse 8, Cmd ENABLE]" tim_regs0]
  by (simp add: conc_cr1_def abs_cr1_def)

end
