(* ===== verification/Debug.thy ===== *)
theory Debug
  imports MiscLib
begin

text \<open>
  The USART debug console of \<^verbatim>\<open>src/Utilities/STM32_EVAL/STM3210B_EVAL/debug.c\<close>. The
  bytes written to \<open>USART1->DR\<close> form the console output, a list of bytes; each
  write is followed by a wait for \<open>TXE\<close>, which the transmitter sets when it has taken
  the byte, and is modelled as completed. Strings and the format string live in the
  byte store of \<open>MiscLib\<close>; \<open>va_arg\<close> reads the successive 32-bit argument slots
  \<open>args 0, args 1, ...\<close>. \<open>stm_printf\<close> formats numbers with \<open>DECToASCII\<close> and
  \<open>HexToASCII\<close> of \<open>MiscLib\<close> into a zeroed local buffer \<open>res[16]\<close>, a store of its own.
\<close>

unbundle bit_operations_syntax

section \<open>USART registers\<close>

record USART_TypeDef =
  SR :: u16
  DR :: u16
  BRR :: u16
  CR1 :: u16
  CR2 :: u16

abbreviation (input) USART_SR_RXNE :: u16 where "USART_SR_RXNE \<equiv> 0x0020"
abbreviation (input) USART_CR1_RE :: u16 where "USART_CR1_RE \<equiv> 0x0004"
abbreviation (input) USART_CR1_TE :: u16 where "USART_CR1_TE \<equiv> 0x0008"
abbreviation (input) USART_CR1_RXNEIE :: u16 where "USART_CR1_RXNEIE \<equiv> 0x0020"
abbreviation (input) USART_CR1_M :: u16 where "USART_CR1_M \<equiv> 0x1000"
abbreviation (input) USART_CR1_UE :: u16 where "USART_CR1_UE \<equiv> 0x2000"
abbreviation (input) USART_CR2_STOP :: u16 where "USART_CR2_STOP \<equiv> 0x3000"

abbreviation (input) BAUDRATE :: u32 where "BAUDRATE \<equiv> 115200"

section \<open>Initialisation and interrupt\<close>

text \<open>
  The USART1 part of \<open>init_debug_fun\<close>, for the \<open>PCLK2\<close> frequency
  \<open>RCC_GetClocksFreq\<close> reports; the NVIC, GPIO and RCC calls configure other
  peripherals through the vendor library. \<open>br_interger\<close> and
  \<open>br_fractionaldivider\<close> are \<open>uint16_t\<close>; the divisions are unsigned 32-bit.
\<close>

definition init_debug_fun :: "u32 \<Rightarrow> USART_TypeDef \<Rightarrow> USART_TypeDef" where
  "init_debug_fun pclk2 u0 =
     (let u1 = u0\<lparr>CR1 := CR1 u0 AND NOT (USART_CR1_RE OR USART_CR1_TE)\<rparr>;
          u2 = u1\<lparr>CR1 := CR1 u1 OR USART_CR1_UE\<rparr>;
          u3 = u2\<lparr>CR1 := CR1 u2 AND NOT USART_CR1_M\<rparr>;
          u4 = u3\<lparr>CR2 := CR1 u3 AND NOT USART_CR2_STOP\<rparr>;
          br_interger = (ucast (pclk2 div (16 * BAUDRATE)) :: u16);
          br_fractionaldivider = (ucast (pclk2 div BAUDRATE - ucast br_interger * 16) :: u16);
          u5 = u4\<lparr>BRR := ucast (push_bit 4 (ucast br_interger :: u32) OR ucast br_fractionaldivider)\<rparr>;
          u6 = u5\<lparr>CR1 := CR1 u5 OR (USART_CR1_RE OR USART_CR1_TE)\<rparr>
      in u6\<lparr>CR1 := CR1 u6 OR USART_CR1_RXNEIE\<rparr>)"

text \<open>
  The library calls before the USART1 writes of \<open>init_debug_fun\<close> (lines 13-30): the
  USART1 interrupt in the NVIC, the clocks of \<open>GPIOA\<close>, \<open>AFIO\<close> and \<open>USART1\<close>, and
  the two pins, \<open>PA9\<close> (TX) and \<open>PA10\<close> (RX). The structures and enumerations follow
  \<^verbatim>\<open>misc.h\<close>, \<^verbatim>\<open>stm32f10x_gpio.h\<close> and \<^verbatim>\<open>stm32f10x.h\<close> (\<open>USART1_IRQn = 37\<close>),
  which are not in the repository. \<open>GPIO_InitStructure\<close> is reused for \<open>PA10\<close>:
  its speed keeps the value set for \<open>PA9\<close>.
\<close>

datatype gpio_speed = GPIO_Speed_10MHz | GPIO_Speed_2MHz | GPIO_Speed_50MHz

datatype gpio_mode =
    GPIO_Mode_AIN | GPIO_Mode_IN_FLOATING | GPIO_Mode_IPD | GPIO_Mode_IPU
  | GPIO_Mode_Out_OD | GPIO_Mode_Out_PP | GPIO_Mode_AF_OD | GPIO_Mode_AF_PP

record GPIO_InitTypeDef =
  GPIO_Pin :: u16
  GPIO_Speed :: gpio_speed
  GPIO_Mode :: gpio_mode

record NVIC_InitTypeDef =
  NVIC_IRQChannel :: u8
  NVIC_IRQChannelPreemptionPriority :: u8
  NVIC_IRQChannelSubPriority :: u8
  NVIC_IRQChannelCmd :: functional_state

datatype lib_call =
    NVIC_Init NVIC_InitTypeDef
  | RCC_APB2PeriphClockCmd string functional_state
  | GPIO_Init string GPIO_InitTypeDef

definition init_debug_calls :: "lib_call list" where
  "init_debug_calls =
     (let nvic = \<lparr>NVIC_IRQChannel = 37, NVIC_IRQChannelPreemptionPriority = 0,
                  NVIC_IRQChannelSubPriority = 0, NVIC_IRQChannelCmd = ENABLE\<rparr>;
          pa9 = \<lparr>GPIO_Pin = 0x0200, GPIO_Speed = GPIO_Speed_50MHz, GPIO_Mode = GPIO_Mode_AF_PP\<rparr>;
          pa10 = pa9\<lparr>GPIO_Pin := 0x0400, GPIO_Mode := GPIO_Mode_IN_FLOATING\<rparr>
      in [NVIC_Init nvic, RCC_APB2PeriphClockCmd ''GPIOA'' ENABLE, RCC_APB2PeriphClockCmd ''AFIO'' ENABLE,
          GPIO_Init ''GPIOA'' pa9, GPIO_Init ''GPIOA'' pa10, RCC_APB2PeriphClockCmd ''USART1'' ENABLE])"

text \<open>
  \<open>USART1_IRQHandler\<close> reads \<open>SR\<close> into a \<open>uint8_t\<close> and, when \<open>RXNE\<close> is set, reads
  \<open>DR\<close>; reading \<open>DR\<close> is what clears \<open>RXNE\<close> in the hardware. The received byte is
  discarded.
\<close>

definition USART1_IRQHandler :: "USART_TypeDef \<Rightarrow> USART_TypeDef" where
  "USART1_IRQHandler u =
     (let uart_status_reg = (ucast (SR u) :: u8)
      in if uart_status_reg AND ucast USART_SR_RXNE \<noteq> 0 then u\<lparr>SR := SR u AND NOT USART_SR_RXNE\<rparr> else u)"

section \<open>Output\<close>

text \<open>\<open>stm_putc\<close>: \<^verbatim>\<open>USART1->DR = str;\<close> then the wait for \<open>TXE\<close>.\<close>

definition stm_putc :: "u8 \<Rightarrow> u8 list \<Rightarrow> u8 list" where
  "stm_putc c out = out @ [c]"

text \<open>\<open>serial_put_binary\<close>: \<^verbatim>\<open>while (len--) { USART1->DR = *dat_bin++; ... }\<close>\<close>

fun serial_put_binary :: "mem \<Rightarrow> nat \<Rightarrow> nat \<Rightarrow> u8 list \<Rightarrow> u8 list" where
  "serial_put_binary m p 0 out = out"
| "serial_put_binary m p (Suc n) out = serial_put_binary m (Suc p) n (stm_putc (m p) out)"

text \<open>\<open>stm_puts\<close>: \<^verbatim>\<open>while (*p) stm_putc(*p++);\<close>, which does not stop on a string without terminator.\<close>

partial_function (option) stm_puts :: "mem \<Rightarrow> nat \<Rightarrow> u8 list \<Rightarrow> u8 list option" where
  "stm_puts m p out = (if m p \<noteq> 0 then stm_puts m (Suc p) (stm_putc (m p) out) else Some out)"

declare stm_puts.simps [code]

text \<open>
  \<open>stm_printf\<close> (the \<open>DEBUG\<close> build): an ordinary character is sent, a newline preceded
  by a carriage return; after \<open>'%'\<close> the next character selects \<open>d\<close>, \<open>x\<close>, \<open>c\<close> or
  \<open>s\<close>, any other character (the terminator included) prints nothing, and the pointer
  moves past it. \<open>k\<close> is the index of the next argument slot. The conversions \<open>%d\<close>
  and \<open>%x\<close> pass the \<open>int\<close> argument to a \<open>uint32_t\<close> parameter.
\<close>

definition printf_number :: "(u32 \<Rightarrow> nat \<Rightarrow> mem \<Rightarrow> nat \<times> mem) \<Rightarrow> u32 \<Rightarrow> u8 list \<Rightarrow> u8 list option" where
  "printf_number conv val out = stm_puts (snd (conv val 0 (\<lambda>_. 0))) 0 out"

partial_function (option) printf_loop :: "mem \<Rightarrow> (nat \<Rightarrow> u32) \<Rightarrow> nat \<Rightarrow> nat \<Rightarrow> u8 list \<Rightarrow> u8 list option" where
  "printf_loop m args k str out =
     (if m str = 0 then Some out
      else if m str \<noteq> 37 then
        printf_loop m args k (Suc str) (stm_putc (m str) (if m str = 10 then stm_putc 13 out else out))
      else
        (let c = m (Suc str) in
         if c = 100 then
           (case printf_number DECToASCII (args k) out of
              None \<Rightarrow> None | Some out' \<Rightarrow> printf_loop m args (Suc k) (str + 2) out')
         else if c = 120 then
           (case printf_number HexToASCII (args k) out of
              None \<Rightarrow> None | Some out' \<Rightarrow> printf_loop m args (Suc k) (str + 2) out')
         else if c = 99 then printf_loop m args (Suc k) (str + 2) (stm_putc (ucast (args k)) out)
         else if c = 115 then
           (case stm_puts m (unat (args k)) out of
              None \<Rightarrow> None | Some out' \<Rightarrow> printf_loop m args (Suc k) (str + 2) out')
         else printf_loop m args k (str + 2) out))"

declare printf_loop.simps [code]

definition stm_printf :: "mem \<Rightarrow> nat \<Rightarrow> (nat \<Rightarrow> u32) \<Rightarrow> u8 list option" where
  "stm_printf m fmt args = printf_loop m args 0 fmt []"

text \<open>
  \<open>system_dump\<close>: \<^verbatim>\<open>while (1) { stm_printf(str); busy_delay_ms(1000); }\<close>, the string
  used as format with whatever the argument slots hold. The console output of each
  round is appended; the delay writes nothing, and the loop has no exit.
\<close>

partial_function (option) system_dump :: "mem \<Rightarrow> nat \<Rightarrow> (nat \<Rightarrow> u32) \<Rightarrow> u8 list \<Rightarrow> u8 list option" where
  "system_dump m str args out =
     (case stm_printf m str args of None \<Rightarrow> None | Some s \<Rightarrow> system_dump m str args (out @ s))"

declare system_dump.simps [code]

text \<open>\<open>stm_printf\<close> of a build without \<open>DEBUG\<close>: it prints nothing and returns 0.\<close>

definition stm_printf_nodebug :: "mem \<Rightarrow> nat \<Rightarrow> (nat \<Rightarrow> u32) \<Rightarrow> u8 list option" where
  "stm_printf_nodebug m fmt args = Some []"

text \<open>
  \<open>crlf\<close> is the line translation \<open>stm_printf\<close> applies to ordinary characters:
  every newline goes out as carriage return and newline.
\<close>

definition crlf :: "u8 list \<Rightarrow> u8 list" where
  "crlf cs = concat (map (\<lambda>c. if c = 10 then [13, 10] else [c]) cs)"

section \<open>Properties\<close>

text \<open>
  Reading \<open>SR\<close> into a \<open>uint8_t\<close> keeps \<open>RXNE\<close> (bit 5): the handler clears
  exactly \<open>RXNE\<close> when it is set and changes nothing else.
\<close>

lemma bit_32_word: "bit (32 :: 'a::len word) n \<longleftrightarrow> n = 5 \<and> 5 < LENGTH('a)"
proof -
  have "(32 :: 'a word) = push_bit 5 1" by simp
  then show ?thesis by (simp only: bit_push_bit_iff bit_1_iff) auto
qed
lemma USART1_IRQHandler_eq:
  "USART1_IRQHandler u = u\<lparr>SR := SR u AND NOT 0x20\<rparr>"
proof (cases "bit (SR u) 5")
  case True
  then have "bit ((ucast (SR u) :: u8) AND 0x20) 5"
    by (simp add: bit_and_iff bit_ucast_iff bit_32_word del: bit_numeral_word_iff)
  then have "(ucast (SR u) :: u8) AND 0x20 \<noteq> 0" by auto
  then show ?thesis by (simp add: USART1_IRQHandler_def)
next
  case False
  then have "SR u AND NOT 0x20 = SR u"
    by (intro bit_eqI) (simp only: bit_and_iff bit_not_iff bit_32_word, auto)
  moreover have "(ucast (SR u) :: u8) AND 0x20 = 0"
    using False by (intro bit_eqI) (auto simp: bit_and_iff bit_ucast_iff bit_32_word simp del: bit_numeral_word_iff)
  ultimately show ?thesis by (simp add: USART1_IRQHandler_def)
qed
lemma serial_put_binary_eq: "serial_put_binary m p n out = out @ map m [p..<p + n]"
  by (induction n arbitrary: p out) (simp_all add: stm_putc_def upt_rec)

text \<open>\<open>system_dump\<close> never returns, whatever its string prints.\<close>

lemma system_dump_Some_False: "system_dump m str args out = Some r \<Longrightarrow> False"
proof (erule system_dump.raw_induct [where P = "\<lambda>m str args out r. False", rotated])
  fix f :: "mem \<Rightarrow> nat \<Rightarrow> (nat \<Rightarrow> u32) \<Rightarrow> u8 list \<Rightarrow> u8 list option" and m str args out y
  assume IH: "\<And>m str args out y. f m str args out = Some y \<Longrightarrow> False"
    and step: "(case stm_printf m str args of None \<Rightarrow> None | Some s \<Rightarrow> f m str args (out @ s)) = Some y"
  show False using step IH by (auto split: option.splits)
qed

lemma system_dump_never_returns: "system_dump m str args out = None"
  using system_dump_Some_False by (cases "system_dump m str args out") auto
lemma crlf_Cons [simp]: "crlf (c # cs) = (if c = 10 then [13, 10] else [c]) @ crlf cs"
  and crlf_Nil [simp]: "crlf [] = []"
  by (simp_all add: crlf_def)

lemma stm_puts_Some:
  "(\<forall>j<k. m (p + j) \<noteq> 0) \<Longrightarrow> m (p + k) = 0 \<Longrightarrow> stm_puts m p out = Some (out @ map m [p..<p + k])"
proof (induction k arbitrary: p out)
  case 0 then show ?case by (subst stm_puts.simps) simp
next
  case (Suc k)
  have "m p \<noteq> 0" using Suc.prems(1) by (metis add_0_right zero_less_Suc)
  moreover have "stm_puts m (Suc p) (stm_putc (m p) out) = Some (stm_putc (m p) out @ map m [Suc p..<Suc p + k])"
    using Suc.prems by (intro Suc.IH) (auto simp: add.commute add.left_commute)
  ultimately show ?case by (subst stm_puts.simps) (simp add: stm_putc_def upt_rec)
qed

lemma printf_plain:
  "(\<forall>j<k. m (s + j) \<noteq> 0 \<and> m (s + j) \<noteq> 37) \<Longrightarrow> m (s + k) = 0 \<Longrightarrow>
   printf_loop m args i s out = Some (out @ crlf (map m [s..<s + k]))"
proof (induction k arbitrary: s out)
  case 0 then show ?case by (subst printf_loop.simps) simp
next
  case (Suc k)
  have ms: "m s \<noteq> 0" "m s \<noteq> 37" using Suc.prems(1) by (metis add_0_right zero_less_Suc)+
  have "printf_loop m args i (Suc s) (stm_putc (m s) (if m s = 10 then stm_putc 13 out else out)) =
        Some (stm_putc (m s) (if m s = 10 then stm_putc 13 out else out) @ crlf (map m [Suc s..<Suc s + k]))"
    using Suc.prems by (intro Suc.IH) (auto simp: add.commute add.left_commute)
  with ms show ?case by (subst printf_loop.simps) (simp add: stm_putc_def upt_rec)
qed

lemma dec_ref_nonzero: "c \<in> set (dec_ref n) \<Longrightarrow> c \<noteq> 0"
proof -
  assume "c \<in> set (dec_ref n)"
  then obtain d where d: "d \<in> set (if n = 0 then [0] else base_digits 10 n)" "c = dchar d"
    by (auto simp: dec_ref_def)
  then have "d < 10" using base_digits_less [of 10 d n] by (auto split: if_splits)
  with d show ?thesis by (simp add: dchar_nonzero)
qed

lemma printf_number_dec: "printf_number DECToASCII v out = Some (out @ dec_ref (unat v))"
proof -
  let ?r = "dec_ref (unat v)"
  let ?b = "write_bytes 0 (?r @ [0]) (\<lambda>_. 0)"
  have "\<forall>j<length ?r. ?b (0 + j) \<noteq> 0" by (auto simp: nth_append dest: nth_mem dec_ref_nonzero)
  moreover have "?b (0 + length ?r) = 0" by simp
  ultimately have "stm_puts ?b 0 out = Some (out @ map ?b [0..<0 + length ?r])" by (rule stm_puts_Some)
  moreover have "map ?b [0..<0 + length ?r] = ?r" using map_write_bytes [of "length ?r" "?r @ [0]" 0] by simp
  ultimately show ?thesis by (simp add: printf_number_def DECToASCII_eq)
qed

lemma init_debug_fun_CR2: "CR2 (init_debug_fun pclk2 u) = CR1 u AND NOT 0x300C"
  by (simp add: init_debug_fun_def Let_def word_ao_dist word_bw_assocs)

lemma init_debug_fun_BRR:
  assumes lim: "unat pclk2 < 115200 * 65536"
  shows "unat (BRR (init_debug_fun pclk2 u)) = unat pclk2 div 115200"
proof -
  define q where "q = unat pclk2 div 115200"
  have q_lt: "q < 65536" using lim by (simp add: q_def less_mult_imp_div_less)
  have hi: "unat (pclk2 div (16 * 115200)) = q div 16"
    by (simp add: unat_div q_def div_mult2_eq [of _ 115200 16, simplified])
  define bi where "bi = (ucast (pclk2 div (16 * 115200)) :: u16)"
  have bi: "unat bi = q div 16"
    unfolding bi_def using q_lt hi by (subst unat_ucast_small) simp_all
  have bi32: "unat (ucast bi * 16 :: u32) = 16 * (q div 16)"
    using bi q_lt by (simp add: unat_mult_lem [THEN iffD1] unat_ucast_small)
  have le: "(ucast bi * 16 :: u32) \<le> pclk2 div 115200"
    using bi32 by (simp add: word_le_nat_alt unat_div q_def [symmetric])
  define bf where "bf = (ucast (pclk2 div 115200 - ucast bi * 16) :: u16)"
  have bf: "unat bf = q mod 16"
    unfolding bf_def using le bi32 q_lt
    by (subst unat_ucast_small) (simp_all add: unat_sub unat_div q_def [symmetric] minus_mod_eq_mult_div [symmetric])
  have "unat (push_bit 4 (ucast bi :: u32) OR ucast bf) = q"
  proof -
    have "unat (ucast bf :: u32) < 2 ^ 4" using bf by (simp add: unat_ucast_small)
    then have "push_bit 4 (ucast bi :: u32) OR ucast bf = push_bit 4 (ucast bi) + ucast bf"
      by (rule push_bit_or_low)
    moreover have "unat (push_bit 4 (ucast bi :: u32)) = 16 * (q div 16)"
      using bi32 by (simp add: push_bit_eq_mult mult.commute)
    ultimately show ?thesis using bf q_lt
      by (simp add: unat_add_lem [THEN iffD1] unat_ucast_small)
  qed
  then show ?thesis
    using q_lt by (simp add: init_debug_fun_def Let_def bi_def bf_def q_def unat_ucast_small)
qed

text \<open>
  C38: for every \<open>PCLK2\<close> below \<open>115200 * 65536\<close> Hz, \<open>init_debug_fun\<close> loads
  \<open>BRR\<close> with \<open>PCLK2 / 115200\<close>, mantissa and fraction of the divisor for 115200 baud
  at 16 times oversampling. \<open>CR2\<close> however is loaded from \<open>CR1\<close> with the
  \<open>STOP\<close> field (and the \<open>RE\<close>, \<open>TE\<close> bits just cleared) masked off, not from \<open>CR2\<close>:
  the \<open>CR1\<close> bits at \<open>UE\<close>, \<open>PCE\<close>, \<open>RXNEIE\<close> and the others land in \<open>CR2\<close>.
\<close>

theorem init_debug_fun_regs:
  "unat pclk2 < 115200 * 65536 \<Longrightarrow>
   unat (BRR (init_debug_fun pclk2 u)) = unat pclk2 div 115200 \<and>
   CR2 (init_debug_fun pclk2 u) = CR1 u AND NOT 0x300C"
  by (simp add: init_debug_fun_BRR init_debug_fun_CR2)

text \<open>
  C35: on a format string with no \<open>'%'\<close>, \<open>stm_printf\<close> returns and sends the
  string up to its terminator, each newline preceded by a carriage return.
\<close>

theorem stm_printf_plain:
  "(\<forall>j<k. m (fmt + j) \<noteq> 0 \<and> m (fmt + j) \<noteq> 37) \<Longrightarrow> m (fmt + k) = 0 \<Longrightarrow>
   stm_printf m fmt args = Some (crlf (map m [fmt..<fmt + k]))"
  by (simp add: stm_printf_def printf_plain)

text \<open>
  C36: the format \<open>"%d"\<close> sends the decimal digits of the argument read as an unsigned
  32-bit value: a negative \<open>int\<close> is printed as its two's-complement magnitude
  (\<open>-1\<close> as \<open>4294967295\<close>), since \<open>DECToASCII\<close> takes a \<open>uint32_t\<close>.
\<close>

theorem stm_printf_decimal:
  "m fmt = 37 \<Longrightarrow> m (Suc fmt) = 100 \<Longrightarrow> m (fmt + 2) = 0 \<Longrightarrow>
   stm_printf m fmt args = Some (dec_ref (unat (args 0)))"
  unfolding stm_printf_def
  by (subst printf_loop.simps) (simp add: printf_number_dec printf_loop.simps [of m args "Suc 0" "Suc (Suc fmt)"])

text \<open>
  C37: a \<open>'%'\<close> followed by the terminator does not end the output: the pointer steps
  over the terminator, and \<open>stm_printf\<close> goes on sending the bytes that follow it
  in memory up to the next terminator.
\<close>

theorem stm_printf_trailing_percent:
  "m p = 37 \<Longrightarrow> m (Suc p) = 0 \<Longrightarrow>
   (\<forall>j<k. m (p + 2 + j) \<noteq> 0 \<and> m (p + 2 + j) \<noteq> 37) \<Longrightarrow> m (p + 2 + k) = 0 \<Longrightarrow>
   printf_loop m args i p out = Some (out @ crlf (map m [p + 2..<p + 2 + k]))"
  by (subst printf_loop.simps) (simp add: printf_plain)

section \<open>Witnesses\<close>

abbreviation (input) usart0 :: USART_TypeDef where
  "usart0 \<equiv> \<lparr>SR = 0, DR = 0, BRR = 0, CR1 = 0x2020, CR2 = 0\<rparr>"

theorem stm_printf_plain_witness:
  "stm_printf ((\<lambda>_. 0)(1 := 104, 2 := 10)) 1 (\<lambda>_. 0) = Some [104, 13, 10]"
  using stm_printf_plain [of 2 "(\<lambda>_. 0)(1 := 104, 2 := 10)" 1 "\<lambda>_. 0"]
  by (simp add: all_less_2 upt_rec)

lemma unat_minus_one_u32: "unat (- 1 :: u32) = 4294967295"
  by (simp add: unsigned_minus_1_eq_mask mask_eq_exp_minus_1)

lemma dec_ref_4294967295: "dec_ref 4294967295 = [52, 50, 57, 52, 57, 54, 55, 50, 57, 53]"
  by (simp add: dec_ref_def base_digits.simps dchar_def)

theorem stm_printf_decimal_witness:
  "stm_printf ((\<lambda>_. 0)(0 := 37, 1 := 100)) 0 (\<lambda>_. -1) = Some [52, 50, 57, 52, 57, 54, 55, 50, 57, 53]"
  using stm_printf_decimal [of "(\<lambda>_. 0)(0 := 37, 1 := 100)" 0 "\<lambda>_. -1"]
  by (simp only: unat_minus_one_u32 dec_ref_4294967295) simp

theorem stm_printf_trailing_percent_witness:
  "printf_loop ((\<lambda>_. 0)(0 := 37, 2 := 98)) (\<lambda>_. 0) 0 0 [] = Some [98]"
  using stm_printf_trailing_percent [of "(\<lambda>_. 0)(0 := 37, 2 := 98)" 0 1 "\<lambda>_. 0" 0 "[]"]
  by simp

theorem init_debug_fun_regs_witness:
  "unat (BRR (init_debug_fun 72000000 usart0)) = 625 \<and>
   CR2 (init_debug_fun 72000000 usart0) = 0x20"
  using init_debug_fun_regs [of 72000000 usart0] by simp

end
