(* ===== verification/Adc.thy ===== *)
theory Adc
  imports Prelude
begin

text \<open>
  The ADC driver \<^verbatim>\<open>src/Libraries/STM32F37x_StdPeriph_Driver/src/stm32f37x_adc.c\<close>.
  The register block \<open>ADC_TypeDef\<close> and the bit masks follow the device header
  \<^verbatim>\<open>stm32f37x.h\<close>, which is not in the repository; the file-local
  \<open>ADC_CR2_CLEAR_MASK\<close> is taken from the source. Every function of the file is a
  function on the register block; \<open>ADC_TempSensorVrefintCmd\<close> acts on \<open>ADC1\<close>, the
  only instance, and \<open>ADC_DeInit\<close> is its sequence of RCC calls (\<open>rcc_call\<close> of \<open>Prelude\<close>). The
  source file ends inside the comment of \<open>ADC_RegularChannelConfig\<close> (line 509).
\<close>

unbundle bit_operations_syntax

section \<open>Registers and initialisation structure\<close>

record ADC_TypeDef =
  SR :: u32
  CR1 :: u32
  CR2 :: u32
  SMPR1 :: u32
  SMPR2 :: u32
  JOFR1 :: u32
  JOFR2 :: u32
  JOFR3 :: u32
  JOFR4 :: u32
  HTR :: u32
  LTR :: u32
  SQR1 :: u32
  SQR2 :: u32
  SQR3 :: u32
  JSQR :: u32
  JDR1 :: u32
  JDR2 :: u32
  JDR3 :: u32
  JDR4 :: u32
  DR :: u32

record ADC_InitTypeDef =
  ADC_ScanConvMode :: functional_state
  ADC_ContinuousConvMode :: functional_state
  ADC_ExternalTrigConv :: u32
  ADC_DataAlign :: u32
  ADC_NbrOfChannel :: u8

abbreviation (input) ADC_CR1_AWDCH :: u32 where "ADC_CR1_AWDCH \<equiv> 0x0000001F"
abbreviation (input) ADC_CR1_SCAN :: u32 where "ADC_CR1_SCAN \<equiv> 0x00000100"
abbreviation (input) ADC_CR1_AWDSGL :: u32 where "ADC_CR1_AWDSGL \<equiv> 0x00000200"
abbreviation (input) ADC_CR1_JAWDEN :: u32 where "ADC_CR1_JAWDEN \<equiv> 0x00400000"
abbreviation (input) ADC_CR1_AWDEN :: u32 where "ADC_CR1_AWDEN \<equiv> 0x00800000"
abbreviation (input) ADC_CR2_ADON :: u32 where "ADC_CR2_ADON \<equiv> 0x00000001"
abbreviation (input) ADC_CR2_CAL :: u32 where "ADC_CR2_CAL \<equiv> 0x00000004"
abbreviation (input) ADC_CR2_RSTCAL :: u32 where "ADC_CR2_RSTCAL \<equiv> 0x00000008"
abbreviation (input) ADC_CR2_TSVREFE :: u32 where "ADC_CR2_TSVREFE \<equiv> 0x00800000"
abbreviation (input) ADC_SQR1_L :: u32 where "ADC_SQR1_L \<equiv> 0x00F00000"
abbreviation (input) ADC_CR2_CLEAR_MASK :: u32 where "ADC_CR2_CLEAR_MASK \<equiv> 0xFFF1F7FD"

abbreviation (input) ADC_ExternalTrigConv_T19_TRGO :: u32 where "ADC_ExternalTrigConv_T19_TRGO \<equiv> 0"
abbreviation (input) ADC_DataAlign_Right :: u32 where "ADC_DataAlign_Right \<equiv> 0"

section \<open>Operations\<close>

definition ADC_DeInit :: "rcc_call list" where
  "ADC_DeInit = [RCC_APB2PeriphResetCmd ''ADC1'' ENABLE, RCC_APB2PeriphResetCmd ''ADC1'' DISABLE]"

text \<open>
  \<open>ADC_Init\<close>: three read-modify-write sequences through \<open>tmpreg1\<close>. The sequence
  length is computed in \<open>uint8_t\<close>, \<open>tmpreg2 |= (uint8_t)(NbrOfChannel - 1)\<close>, and
  shifted into \<open>SQR1\<close> after widening to \<open>uint32_t\<close>.
\<close>

definition ADC_Init :: "ADC_TypeDef \<Rightarrow> ADC_InitTypeDef \<Rightarrow> ADC_TypeDef" where
  "ADC_Init a s =
     (let tmpreg1 = CR1 a AND NOT ADC_CR1_SCAN;
          tmpreg1 = tmpreg1 OR push_bit 8 (fs_val (ADC_ScanConvMode s));
          a = a\<lparr>CR1 := tmpreg1\<rparr>;
          tmpreg1 = CR2 a AND ADC_CR2_CLEAR_MASK;
          tmpreg1 = tmpreg1 OR (ADC_DataAlign s OR ADC_ExternalTrigConv s OR
                                push_bit 1 (fs_val (ADC_ContinuousConvMode s)));
          a = a\<lparr>CR2 := tmpreg1\<rparr>;
          tmpreg1 = SQR1 a AND NOT ADC_SQR1_L;
          tmpreg2 = (0 :: u8) OR (ADC_NbrOfChannel s - 1);
          tmpreg1 = tmpreg1 OR push_bit 20 (ucast tmpreg2)
      in a\<lparr>SQR1 := tmpreg1\<rparr>)"

definition ADC_StructInit :: "ADC_InitTypeDef \<Rightarrow> ADC_InitTypeDef" where
  "ADC_StructInit s =
     s\<lparr>ADC_ScanConvMode := DISABLE, ADC_ContinuousConvMode := DISABLE,
       ADC_ExternalTrigConv := ADC_ExternalTrigConv_T19_TRGO,
       ADC_DataAlign := ADC_DataAlign_Right, ADC_NbrOfChannel := 1\<rparr>"

definition ADC_Cmd :: "ADC_TypeDef \<Rightarrow> functional_state \<Rightarrow> ADC_TypeDef" where
  "ADC_Cmd a st = a\<lparr>CR2 := cfg_bit (st \<noteq> DISABLE) ADC_CR2_ADON (CR2 a)\<rparr>"

definition ADC_StartCalibration :: "ADC_TypeDef \<Rightarrow> ADC_TypeDef" where
  "ADC_StartCalibration a = a\<lparr>CR2 := CR2 a OR ADC_CR2_CAL\<rparr>"

definition ADC_ResetCalibration :: "ADC_TypeDef \<Rightarrow> ADC_TypeDef" where
  "ADC_ResetCalibration a = a\<lparr>CR2 := CR2 a OR ADC_CR2_RSTCAL\<rparr>"

definition ADC_AnalogWatchdogCmd :: "ADC_TypeDef \<Rightarrow> u32 \<Rightarrow> ADC_TypeDef" where
  "ADC_AnalogWatchdogCmd a w =
     (let tmpreg = CR1 a AND NOT (ADC_CR1_JAWDEN OR ADC_CR1_AWDEN OR ADC_CR1_AWDSGL)
      in a\<lparr>CR1 := tmpreg OR w\<rparr>)"

definition ADC_AnalogWatchdogThresholdsConfig :: "ADC_TypeDef \<Rightarrow> u16 \<Rightarrow> u16 \<Rightarrow> ADC_TypeDef" where
  "ADC_AnalogWatchdogThresholdsConfig a high low = a\<lparr>HTR := ucast high, LTR := ucast low\<rparr>"

definition ADC_AnalogWatchdogSingleChannelConfig :: "ADC_TypeDef \<Rightarrow> u8 \<Rightarrow> ADC_TypeDef" where
  "ADC_AnalogWatchdogSingleChannelConfig a ch =
     (let tmpreg = CR1 a AND NOT ADC_CR1_AWDCH in a\<lparr>CR1 := tmpreg OR ucast ch\<rparr>)"

definition ADC_TempSensorVrefintCmd :: "functional_state \<Rightarrow> ADC_TypeDef \<Rightarrow> ADC_TypeDef" where
  "ADC_TempSensorVrefintCmd st adc1 = adc1\<lparr>CR2 := cfg_bit (st \<noteq> DISABLE) ADC_CR2_TSVREFE (CR2 adc1)\<rparr>"

section \<open>Register invariant\<close>

text \<open>
  The reserved bits of \<open>CR1\<close>, \<open>CR2\<close> and \<open>SQR1\<close> (reference manual RM0313) and the
  bits above the 12-bit watchdog thresholds are clear at reset and must stay clear.
  The driver's requests as a datatype with its step function, and the
  \<open>assert_param\<close> conditions of each request as \<open>adc_op_ok\<close>.
\<close>

definition adc_wf :: "ADC_TypeDef \<Rightarrow> bool" where
  "adc_wf a \<longleftrightarrow> CR1 a AND 0xFF3F0000 = 0 \<and> CR2 a AND 0xFF0106F0 = 0 \<and> SQR1 a AND 0xFF000000 = 0 \<and>
     HTR a AND 0xFFFFF000 = 0 \<and> LTR a AND 0xFFFFF000 = 0"

datatype adc_op =
    AInit ADC_InitTypeDef
  | ACmd functional_state
  | AStartCalibration
  | AResetCalibration
  | AWatchdogCmd u32
  | AWatchdogThresholds u16 u16
  | AWatchdogChannel u8
  | ATempSensorVrefint functional_state

fun adc_op_ok :: "adc_op \<Rightarrow> bool" where
  "adc_op_ok (AInit s) \<longleftrightarrow>
     ADC_ExternalTrigConv s \<in> {0, 0x20000, 0x40000, 0x60000, 0x80000, 0xA0000, 0xC0000, 0xE0000} \<and>
     ADC_DataAlign s \<in> {0, 0x800} \<and> 1 \<le> ADC_NbrOfChannel s \<and> ADC_NbrOfChannel s \<le> 16"
| "adc_op_ok (AWatchdogCmd w) \<longleftrightarrow> w \<in> {0x800200, 0x400200, 0xC00200, 0x800000, 0x400000, 0xC00000, 0}"
| "adc_op_ok (AWatchdogThresholds h l) \<longleftrightarrow> h \<le> 0xFFF \<and> l \<le> 0xFFF"
| "adc_op_ok (AWatchdogChannel ch) \<longleftrightarrow> ch \<le> 17"
| "adc_op_ok _ \<longleftrightarrow> True"

fun adc_step :: "adc_op \<Rightarrow> ADC_TypeDef \<Rightarrow> ADC_TypeDef" where
  "adc_step (AInit s) a = ADC_Init a s"
| "adc_step (ACmd st) a = ADC_Cmd a st"
| "adc_step AStartCalibration a = ADC_StartCalibration a"
| "adc_step AResetCalibration a = ADC_ResetCalibration a"
| "adc_step (AWatchdogCmd w) a = ADC_AnalogWatchdogCmd a w"
| "adc_step (AWatchdogThresholds h l) a = ADC_AnalogWatchdogThresholdsConfig a h l"
| "adc_step (AWatchdogChannel ch) a = ADC_AnalogWatchdogSingleChannelConfig a ch"
| "adc_step (ATempSensorVrefint st) a = ADC_TempSensorVrefintCmd st a"

section \<open>Properties\<close>

lemma ADC_SQR1_L_field: "(0xF00000 :: u32) = push_bit 20 (mask 4)"
  by (simp add: push_bit_eq_mult mask_eq_exp_minus_1)

lemma adc_masks:
  "(0x100 :: u32) = push_bit 8 1" "(0x800 :: u32) = push_bit 11 1"
  "(0xE0000 :: u32) = push_bit 17 (mask 3)"
  "(0xFFF1F7FD :: u32) = NOT (push_bit 17 (mask 3) OR push_bit 11 1 OR push_bit 1 1)"
  "(0xFF00000 :: u32) = push_bit 20 (mask 8)"
  by (simp_all add: push_bit_eq_mult mask_eq_exp_minus_1)

lemma ADC_Init_SQR1_eq:
  "SQR1 (ADC_Init a s) = SQR1 a AND NOT 0xF00000 OR push_bit 20 (ucast (ADC_NbrOfChannel s - 1))"
  by (simp add: ADC_Init_def Let_def)

lemma ADC_Init_CR1_eq:
  "CR1 (ADC_Init a s) = CR1 a AND NOT 0x100 OR push_bit 8 (fs_val (ADC_ScanConvMode s))"
  by (simp add: ADC_Init_def Let_def)

lemma ADC_Init_CR2_eq:
  "CR2 (ADC_Init a s) = CR2 a AND 0xFFF1F7FD OR
     (ADC_DataAlign s OR ADC_ExternalTrigConv s OR push_bit 1 (fs_val (ADC_ContinuousConvMode s)))"
  by (simp add: ADC_Init_def Let_def)

lemma ADC_Init_CR1:
  "bit (CR1 (ADC_Init a s)) n \<longleftrightarrow> (if n = 8 then ADC_ScanConvMode s = ENABLE else bit (CR1 a) n)"
  unfolding ADC_Init_CR1_eq
  by (simp only: adc_masks bit_and_iff bit_or_iff bit_not_iff bit_push_bit_iff bit_fs_val bit_mask_iff bit_1_iff) (auto dest: bit_imp_le_length)

lemma ADC_Init_CR2:
  assumes align: "ADC_DataAlign s AND NOT 0x800 = 0"
    and trig: "ADC_ExternalTrigConv s AND NOT 0xE0000 = 0"
  shows "CR2 (ADC_Init a s) AND 0xE0000 = ADC_ExternalTrigConv s \<and>
         (bit (CR2 (ADC_Init a s)) 11 \<longleftrightarrow> bit (ADC_DataAlign s) 11) \<and>
         (bit (CR2 (ADC_Init a s)) 1 \<longleftrightarrow> ADC_ContinuousConvMode s = ENABLE) \<and>
         (\<forall>n. n \<notin> {1, 11, 17, 18, 19} \<longrightarrow> bit (CR2 (ADC_Init a s)) n = bit (CR2 a) n)"
proof -
  have al: "bit (ADC_DataAlign s) n \<Longrightarrow> n = 11" for n
    using bit_within_field [OF align, of n] by (simp only: adc_masks bit_push_bit_iff bit_1_iff) simp
  have tr: "bit (ADC_ExternalTrigConv s) n \<Longrightarrow> 17 \<le> n \<and> n < 20" for n
    using bit_within_field [OF trig, of n] by (simp only: adc_masks bit_push_bit_iff bit_mask_iff) auto
  have c2: "bit (CR2 (ADC_Init a s)) n \<longleftrightarrow>
            (bit (CR2 a) n \<and> n \<notin> {1, 11, 17, 18, 19}) \<or> bit (ADC_DataAlign s) n \<or>
            bit (ADC_ExternalTrigConv s) n \<or> (n = 1 \<and> ADC_ContinuousConvMode s = ENABLE)" for n
    unfolding ADC_Init_CR2_eq
    by (simp only: adc_masks bit_and_iff bit_or_iff bit_not_iff bit_push_bit_iff bit_fs_val bit_mask_iff bit_1_iff) (auto dest: bit_imp_le_length)
  have "CR2 (ADC_Init a s) AND 0xE0000 = ADC_ExternalTrigConv s"
  proof (rule bit_eqI)
    fix n
    show "bit (CR2 (ADC_Init a s) AND 0xE0000) n = bit (ADC_ExternalTrigConv s) n"
      using al [of n] tr [of n] c2 [of n]
      by (simp only: bit_and_iff adc_masks bit_push_bit_iff bit_mask_iff) auto
  qed
  moreover have "bit (CR2 (ADC_Init a s)) 11 \<longleftrightarrow> bit (ADC_DataAlign s) 11"
    using c2 [of 11] tr [of 11] by auto
  moreover have "bit (CR2 (ADC_Init a s)) 1 \<longleftrightarrow> ADC_ContinuousConvMode s = ENABLE"
    using c2 [of 1] tr [of 1] al [of 1] by auto
  moreover have "\<forall>n. n \<notin> {1, 11, 17, 18, 19} \<longrightarrow> bit (CR2 (ADC_Init a s)) n = bit (CR2 a) n"
  proof (intro allI impI)
    fix n :: nat assume "n \<notin> {1, 11, 17, 18, 19}"
    then show "bit (CR2 (ADC_Init a s)) n = bit (CR2 a) n"
      using c2 [of n] tr [of n] al [of n] by auto
  qed
  ultimately show ?thesis by blast
qed

lemma ADC_Init_SQR1:
  assumes "1 \<le> ADC_NbrOfChannel s" "ADC_NbrOfChannel s \<le> 16"
  shows "unat (drop_bit 20 (SQR1 (ADC_Init a s) AND 0xF00000)) + 1 = unat (ADC_NbrOfChannel s) \<and>
         SQR1 (ADC_Init a s) AND NOT 0xF00000 = SQR1 a AND NOT 0xF00000"
proof -
  let ?v = "ucast (ADC_NbrOfChannel s - 1) :: u32"
  have n1: "unat (ADC_NbrOfChannel s - 1) = unat (ADC_NbrOfChannel s) - 1"
    using assms(1) by (simp add: unat_sub)
  have n16: "unat (ADC_NbrOfChannel s) \<le> 16" "1 \<le> unat (ADC_NbrOfChannel s)"
    using assms by (simp_all add: word_le_nat_alt)
  have v: "unat ?v = unat (ADC_NbrOfChannel s) - 1"
    using n1 n16 by (simp add: unat_ucast_small)
  then have v16: "unat ?v < 2 ^ 4" using n16 by simp
  show ?thesis
    unfolding ADC_Init_SQR1_eq ADC_SQR1_L_field
    using field_get_set [OF v16, of 20 "SQR1 a"] field_set_frame [OF v16, of "SQR1 a" 20] v n16
    by simp
qed

text \<open>
  C39: with parameters in their asserted ranges (\<open>ADC_DataAlign\<close> within \<open>ALIGN\<close>,
  \<open>ADC_ExternalTrigConv\<close> within \<open>EXTSEL\<close>, 1 to 16 channels), \<open>ADC_Init\<close> sets
  \<open>SCAN\<close> exactly for scan mode and keeps the rest of \<open>CR1\<close>; loads \<open>EXTSEL\<close> with
  the trigger, \<open>ALIGN\<close> with the alignment, \<open>CONT\<close> exactly for continuous mode and
  keeps the other bits of \<open>CR2\<close>; and the sequence length read back from the \<open>L\<close>
  field of \<open>SQR1\<close> plus one is the number of channels, the other bits of \<open>SQR1\<close>
  unchanged.
\<close>

theorem ADC_Init_configures:
  assumes "ADC_DataAlign s AND NOT 0x800 = 0" "ADC_ExternalTrigConv s AND NOT 0xE0000 = 0"
    and "1 \<le> ADC_NbrOfChannel s" "ADC_NbrOfChannel s \<le> 16"
  shows "(\<forall>n. bit (CR1 (ADC_Init a s)) n \<longleftrightarrow> (if n = 8 then ADC_ScanConvMode s = ENABLE else bit (CR1 a) n)) \<and>
         CR2 (ADC_Init a s) AND 0xE0000 = ADC_ExternalTrigConv s \<and>
         (bit (CR2 (ADC_Init a s)) 11 \<longleftrightarrow> bit (ADC_DataAlign s) 11) \<and>
         (bit (CR2 (ADC_Init a s)) 1 \<longleftrightarrow> ADC_ContinuousConvMode s = ENABLE) \<and>
         (\<forall>n. n \<notin> {1, 11, 17, 18, 19} \<longrightarrow> bit (CR2 (ADC_Init a s)) n = bit (CR2 a) n) \<and>
         unat (drop_bit 20 (SQR1 (ADC_Init a s) AND 0xF00000)) + 1 = unat (ADC_NbrOfChannel s) \<and>
         SQR1 (ADC_Init a s) AND NOT 0xF00000 = SQR1 a AND NOT 0xF00000"
  using ADC_Init_CR1 [of a s] ADC_Init_CR2 [OF assms(1,2), of a] ADC_Init_SQR1 [OF assms(3,4), of a]
  by blast

lemma ucast_u16_12: "h \<le> 0xFFF \<Longrightarrow> (ucast (h :: u16) :: u32) AND 0xFFFFF000 = 0"
  by (rule low_value_and_high [where k = 12]) (simp_all add: word_le_nat_alt unat_ucast_small mask_eq_exp_minus_1)
lemma ADC_Init_wf:
  assumes ok: "adc_op_ok (AInit s)" and wf: "adc_wf a"
  shows "adc_wf (ADC_Init a s)"
proof -
  have fs: "push_bit k (fs_val c) AND r = 0" if "bit r k = False" "k < 32" for c k and r :: u32
    using that by (cases c) (simp_all add: fs_val_def, rule bit_eqI, auto simp: bit_and_iff bit_exp_iff)
  have b: "1 \<le> ADC_NbrOfChannel s" "ADC_NbrOfChannel s \<le> 16" using ok by simp_all
  then have "unat (ADC_NbrOfChannel s - 1) = unat (ADC_NbrOfChannel s) - 1" "unat (ADC_NbrOfChannel s) \<le> 16"
    by (simp_all add: unat_sub word_le_nat_alt)
  then have n: "unat (ADC_NbrOfChannel s - 1) < 16" by linarith
  have len: "push_bit 20 (ucast (ADC_NbrOfChannel s - 1)) AND (0xFF000000 :: u32) = 0"
    by (rule push_low_value_and_high [where w = 4]) (use n in \<open>simp_all add: unat_ucast_small mask_eq_exp_minus_1\<close>)
  have cr1: "CR1 (ADC_Init a s) AND 0xFF3F0000 = 0"
    unfolding ADC_Init_CR1_eq using wf fs [where r = "0xFF3F0000" and k = 8] by (simp add: adc_wf_def or_and_zero and_and_zero)
  have cr2: "CR2 (ADC_Init a s) AND 0xFF0106F0 = 0"
    unfolding ADC_Init_CR2_eq using wf ok fs [where r = "0xFF0106F0" and k = 1]
    by (auto simp: adc_wf_def or_and_zero and_and_zero)
  have sqr1: "SQR1 (ADC_Init a s) AND 0xFF000000 = 0"
    unfolding ADC_Init_SQR1_eq using wf len by (simp add: adc_wf_def or_and_zero and_and_zero)
  show ?thesis using cr1 cr2 sqr1 wf by (simp add: adc_wf_def ADC_Init_def Let_def)
qed
lemma adc_step_wf:
  assumes ok: "adc_op_ok op" and wf: "adc_wf a"
  shows "adc_wf (adc_step op a)"
proof (cases op)
  case (AInit s) then show ?thesis using ADC_Init_wf ok wf by simp
next
  case (AWatchdogThresholds h l) then show ?thesis using ok wf
    by (simp add: adc_wf_def ADC_AnalogWatchdogThresholdsConfig_def ucast_u16_12)
next
  case (AWatchdogChannel ch)
  have "unat (ucast ch :: u32) < 2 ^ 5" using ok AWatchdogChannel by (simp add: word_le_nat_alt unat_ucast_small)
  then have "(ucast ch :: u32) AND 0xFF3F0000 = 0" by (rule low_value_and_high) (simp add: mask_eq_exp_minus_1)
  then show ?thesis using AWatchdogChannel wf
    by (simp add: adc_wf_def ADC_AnalogWatchdogSingleChannelConfig_def Let_def or_and_zero and_and_zero)
next
  case (AWatchdogCmd w) then show ?thesis using ok wf
    by (auto simp: adc_wf_def ADC_AnalogWatchdogCmd_def Let_def or_and_zero and_and_zero)
qed (use wf in \<open>simp_all add: adc_wf_def ADC_Cmd_def ADC_StartCalibration_def ADC_ResetCalibration_def
       ADC_TempSensorVrefintCmd_def cfg_bit_and_zero or_and_zero\<close>)

text \<open>
  C26: every sequence of driver requests whose arguments pass their
  \<open>assert_param\<close> checks keeps the reserved register bits clear. \<open>ADC_Init\<close> with no
  channels (C40) is the request outside the checks that breaks it.
\<close>

theorem ADC_ops_keep_reserved_clear:
  "adc_wf a \<Longrightarrow> list_all adc_op_ok ops \<Longrightarrow> adc_wf (fold adc_step ops a)"
proof (induction ops arbitrary: a)
  case (Cons op ops) then show ?case using adc_step_wf by simp
qed simp

text \<open>
  C40: \<open>ADC_Init\<close> with \<open>ADC_NbrOfChannel = 0\<close> (outside the asserted range, so
  unchecked in a release build) computes \<open>(uint8_t)(0 - 1) = 0xFF\<close> and ORs
  \<open>0xFF << 20\<close> into \<open>SQR1\<close>: the \<open>L\<close> field reads 16 conversions and the reserved
  bits 24 to 27 are set.
\<close>

theorem ADC_Init_zero_channels:
  assumes "ADC_NbrOfChannel s = 0"
  shows "SQR1 (ADC_Init a s) = SQR1 a OR 0xFF00000"
proof -
  have m: "(0xF00000 :: u32) AND NOT 0xFF00000 = 0" by simp
  have "ucast (- 1 :: u8) = (255 :: u32)" by (simp add: unsigned_minus_1_eq_mask mask_eq_exp_minus_1)
  then have "push_bit 20 (ucast (ADC_NbrOfChannel s - 1)) = (0xFF00000 :: u32)"
    using assms by (simp add: push_bit_eq_mult)
  then show ?thesis by (simp only: ADC_Init_SQR1_eq or_absorbs_field [OF m])
qed

section \<open>Witnesses\<close>

abbreviation (input) adc_ones :: ADC_TypeDef where
  "adc_ones \<equiv> \<lparr>SR = 0, CR1 = 0xFFFFFFFF, CR2 = 0xFFFFFFFF, SMPR1 = 0, SMPR2 = 0,
     JOFR1 = 0, JOFR2 = 0, JOFR3 = 0, JOFR4 = 0, HTR = 0, LTR = 0, SQR1 = 0, SQR2 = 0, SQR3 = 0,
     JSQR = 0, JDR1 = 0, JDR2 = 0, JDR3 = 0, JDR4 = 0, DR = 0\<rparr>"

abbreviation (input) adc_ones0 :: ADC_TypeDef where
  "adc_ones0 \<equiv> \<lparr>SR = 0, CR1 = 0, CR2 = 0, SMPR1 = 0, SMPR2 = 0,
     JOFR1 = 0, JOFR2 = 0, JOFR3 = 0, JOFR4 = 0, HTR = 0xFFF, LTR = 0, SQR1 = 0, SQR2 = 0, SQR3 = 0,
     JSQR = 0, JDR1 = 0, JDR2 = 0, JDR3 = 0, JDR4 = 0, DR = 0\<rparr>"

abbreviation (input) adc_cfg5 :: ADC_InitTypeDef where
  "adc_cfg5 \<equiv> \<lparr>ADC_ScanConvMode = ENABLE, ADC_ContinuousConvMode = DISABLE,
     ADC_ExternalTrigConv = 0x80000, ADC_DataAlign = 0, ADC_NbrOfChannel = 5\<rparr>"

theorem ADC_Init_configures_witness:
  "bit (CR1 (ADC_Init adc_ones adc_cfg5)) 8 \<and>
   CR2 (ADC_Init adc_ones adc_cfg5) AND 0xE0000 = 0x80000 \<and>
   \<not> bit (CR2 (ADC_Init adc_ones adc_cfg5)) 1 \<and>
   unat (drop_bit 20 (SQR1 (ADC_Init adc_ones adc_cfg5) AND 0xF00000)) = 4"
  using ADC_Init_configures [of adc_cfg5 adc_ones] by simp

theorem ADC_Init_zero_channels_witness:
  "SQR1 (ADC_Init adc_ones (ADC_StructInit adc_cfg5\<lparr>ADC_NbrOfChannel := 0\<rparr>)) = 0xFF00000"
  using ADC_Init_zero_channels [of "ADC_StructInit adc_cfg5\<lparr>ADC_NbrOfChannel := 0\<rparr>" adc_ones]
  by (simp add: ADC_StructInit_def)

theorem ADC_ops_keep_reserved_clear_witness:
  "adc_wf (fold adc_step [AInit adc_cfg5, ACmd ENABLE, AResetCalibration, AStartCalibration,
     AWatchdogChannel 5, AWatchdogThresholds 0xFFF 0, AWatchdogCmd 0x800200] adc_ones0)"
proof -
  have "adc_wf adc_ones0" by (simp add: adc_wf_def)
  then show ?thesis
    using ADC_ops_keep_reserved_clear [of adc_ones0 "[AInit adc_cfg5, ACmd ENABLE, AResetCalibration,
      AStartCalibration, AWatchdogChannel 5, AWatchdogThresholds 0xFFF 0, AWatchdogCmd 0x800200]"]
    by simp
qed

end
