(* ===== verification/Hid.thy ===== *)
theory Hid
  imports Debug
begin

text \<open>
  The Custom HID demo: \<^verbatim>\<open>src/Projects/Custom_HID/src/callback.c\<close> and
  \<^verbatim>\<open>src/Projects/Custom_HID/src/main.c\<close>. The USB library they call
  (\<open>pInformation\<close>, \<open>usb_printf\<close>, \<open>USB_Init\<close>, ...) is not in the repository.
  \<open>CTR_Callback\<close> is modelled by the string pointer it hands to the \<open>%s\<close> of
  \<open>usb_printf("c_s:%s\n", str)\<close>; the table \<open>control_state_string\<close> lives in the byte
  store of \<open>MiscLib\<close> as C lays out \<open>uint8_t [11][16]\<close>: row \<open>i\<close> at \<open>tbl + 16 * i\<close>,
  each literal copied and padded with NUL bytes. Here \<open>main\<close> is modelled up to the
  start-up message, which theory \<open>Boot\<close> composes into the whole of \<open>main\<close>;
  \<open>Delay\<close> is its busy countdown.
\<close>

section \<open>Strings and arrays in the byte store\<close>

definition bytes_of :: "string \<Rightarrow> u8 list" where
  "bytes_of s = map (\<lambda>c. of_nat (of_char c)) s"

text \<open>A \<open>char[n]\<close> initialised from a string literal: the characters, then NUL bytes.\<close>

definition c_string_row :: "nat \<Rightarrow> string \<Rightarrow> u8 list" where
  "c_string_row n s = take n (bytes_of s @ replicate n 0)"

definition array_at :: "mem \<Rightarrow> nat \<Rightarrow> nat \<Rightarrow> u8 list list \<Rightarrow> bool" where
  "array_at m base w rows = (\<forall>i<length rows. \<forall>j<w. m (base + w * i + j) = rows ! i ! j)"

section \<open>callback.c\<close>

definition control_state_names :: "string list" where
  "control_state_names = [''WAIT_SETUP'', ''SETTING_UP'', ''IN_DATA'', ''OUT_DATA'', ''LAST_IN_DATA'',
     ''LAST_OUT_DATA'', ''Error'', ''WAIT_STATUS_IN'', ''WAIT_STATUS_OUT'', ''STALLED'', ''PAUSE'']"

definition control_state_string :: "u8 list list" where
  "control_state_string = map (c_string_row 16) control_state_names"

text \<open>
  \<open>sizeof(control_state_string)/sizeof(control_state_string[0])\<close> is the number of
  rows; \<open>ControlState\<close> is the \<open>uint8_t\<close> field of the USB library's device information.
\<close>

definition CTR_Callback :: "nat \<Rightarrow> nat \<Rightarrow> u8 \<Rightarrow> nat" where
  "CTR_Callback tbl null_str ControlState =
     (if length control_state_string \<le> unat ControlState then null_str
      else tbl + 16 * unat ControlState)"

definition state_name :: "u8 \<Rightarrow> string" where
  "state_name cs = (if unat cs < length control_state_names then control_state_names ! unat cs else ''NULL'')"

section \<open>main.c\<close>

record main_state =
  PrevXferComplete :: u8
  TimingDelay :: u32

text \<open>\<open>for (; nCount != 0; nCount--) ;\<close>, counted in iterations.\<close>

function delay_spin :: "u32 \<Rightarrow> nat" where
  "delay_spin nCount = (if nCount \<noteq> 0 then Suc (delay_spin (nCount - 1)) else 0)"
  by auto
termination
  by (relation "measure unat") (auto simp: unat_minus_one less_Suc_eq_le unat_gt_0)

declare delay_spin.simps [simp del]

definition Delay :: "u32 \<Rightarrow> main_state \<Rightarrow> main_state \<times> nat" where
  "Delay nCount s = (s\<lparr>TimingDelay := nCount\<rparr>, delay_spin nCount)"

text \<open>
  \<open>main\<close> up to the start-up message: \<open>init_debug_fun()\<close> then
  \<open>stm_printf("startup\n")\<close>, the literal at address \<open>startup\<close> (lines 67-69); the
  rest of \<open>main\<close> is \<open>main_boot\<close> of theory \<open>Boot\<close>.
\<close>

definition main_startup :: "u32 \<Rightarrow> USART_TypeDef \<Rightarrow> mem \<Rightarrow> nat \<Rightarrow> USART_TypeDef \<times> u8 list option" where
  "main_startup pclk2 usart1 m startup = (init_debug_fun pclk2 usart1, stm_printf m startup (\<lambda>_. 0))"

section \<open>Properties\<close>

text \<open>
  A literal in a 16-byte row, and a terminated string in the store: \<open>StrLen\<close> of
  \<open>MiscLib\<close> finds its length, and the bytes before the terminator are the string.
\<close>

lemma control_state_names_ok:
  "length control_state_names = 11"
  "\<forall>s\<in>set control_state_names. length s < 16 \<and> 0 \<notin> set (bytes_of s)"
  by (simp_all add: control_state_names_def bytes_of_def)

lemma length_bytes_of [simp]: "length (bytes_of s) = length s"
  by (simp add: bytes_of_def)

lemma c_string_row_nth:
  "j < n \<Longrightarrow> c_string_row n s ! j = (if j < length s then bytes_of s ! j else 0)"
  by (simp add: c_string_row_def nth_append)

lemma c_string_in_store:
  assumes h: "map m [p..<p + Suc (length bs)] = bs @ [0]" and nz: "0 \<notin> set bs"
  shows "StrLen m p = Some (of_nat (length bs)) \<and> map m [p..<p + length bs] = bs"
proof -
  have split: "map m [p..<p + length bs] @ [m (p + length bs)] = bs @ [0]"
    using h by simp
  then have pre: "map m [p..<p + length bs] = bs" and z: "m (p + length bs) = 0"
    by simp_all
  have "\<forall>j<length bs. m (p + j) \<noteq> 0"
  proof (intro allI impI)
    fix j assume "j < length bs"
    then have "m (p + j) = bs ! j" using pre by (metis add_diff_cancel_left' length_map length_upt nth_map_upt)
    with \<open>j < length bs\<close> nz show "m (p + j) \<noteq> 0" by (metis nth_mem)
  qed
  then have "StrLen m p = Some (0 + of_nat (length bs))"
    unfolding StrLen_def using z by (rule StrLen_loop_Some)
  with pre show ?thesis by simp
qed

lemma control_state_row_in_store:
  assumes tab: "array_at m tbl 16 control_state_string" and i: "i < 11"
  shows "map m [tbl + 16 * i..<tbl + 16 * i + Suc (length (bytes_of (control_state_names ! i)))] =
         bytes_of (control_state_names ! i) @ [0]"
proof -
  let ?s = "control_state_names ! i"
  have s: "length ?s < 16" using control_state_names_ok i by (metis nth_mem)
  have row: "m (tbl + 16 * i + j) = c_string_row 16 ?s ! j" if "j < 16" for j
    using tab i that control_state_names_ok(1) by (simp add: array_at_def control_state_string_def)
  show ?thesis
  proof (rule nth_equalityI)
    fix k assume "k < length (map m [tbl + 16 * i..<tbl + 16 * i + Suc (length (bytes_of ?s))])"
    then have k: "k \<le> length ?s" by simp
    then show "map m [tbl + 16 * i..<tbl + 16 * i + Suc (length (bytes_of ?s))] ! k = (bytes_of ?s @ [0]) ! k"
      using s row [of k] by (simp add: c_string_row_nth nth_append del: upt_Suc)
  qed simp
qed

lemma concat_uniform_nth:
  "\<forall>r\<in>set rows. length r = w \<Longrightarrow> i < length rows \<Longrightarrow> j < w \<Longrightarrow> concat rows ! (w * i + j) = rows ! i ! j"
proof (induction rows arbitrary: i)
  case (Cons r rows)
  then show ?case by (cases i) (auto simp: nth_append)
qed simp

lemma length_concat_uniform: "\<forall>r\<in>set rows. length r = w \<Longrightarrow> length (concat rows) = w * length rows"
  by (induction rows) auto

lemma array_at_write_bytes:
  assumes "\<forall>r\<in>set rows. length r = w"
  shows "array_at (write_bytes base (concat rows) m) base w rows"
  unfolding array_at_def
proof (intro allI impI)
  fix i j assume i: "i < length rows" and j: "j < w"
  have "w * i + j < w * Suc i" using j by simp
  also have "\<dots> \<le> w * length rows" using i by (intro mult_le_mono2) (simp add: Suc_le_eq)
  finally have "w * i + j < w * length rows" .
  then show "write_bytes base (concat rows) m (base + w * i + j) = rows ! i ! j"
    using concat_uniform_nth [OF assms i j] length_concat_uniform [OF assms]
    by (simp add: add.assoc)
qed

lemma length_c_string_row [simp]: "length (c_string_row n s) = n"
  by (simp add: c_string_row_def)

lemma control_state_string_rows: "\<forall>r\<in>set control_state_string. length r = 16"
  by (simp add: control_state_string_def)

text \<open>
  \<open>Delay\<close> spins exactly \<open>nCount\<close> times; \<open>main\<close>, with the literal \<open>"startup\n"\<close> in
  the store, sends \<open>"startup"\<close> and a carriage return, newline on the console.
\<close>

lemma delay_spin_unat: "delay_spin n = unat n"
proof (induction n rule: delay_spin.induct)
  case (1 nCount)
  then show ?case
    by (subst delay_spin.simps) (auto simp: unat_minus_one unat_gt_0 Suc_diff_1)
qed

lemma store_nth: "map m [p..<p + n] = bs \<Longrightarrow> j < n \<Longrightarrow> m (p + j) = bs ! j"
proof -
  assume h: "map m [p..<p + n] = bs" and j: "j < n"
  have "map m [p..<p + n] ! j = m (p + j)" using j by simp
  with h show ?thesis by simp
qed

lemma main_startup_console:
  assumes "map m [p..<p + 9] = bytes_of ''startup'' @ [10, 0]"
  shows "snd (main_startup pclk2 u m p) = Some (bytes_of ''startup'' @ [13, 10])"
proof -
  let ?bs = "bytes_of ''startup'' @ [10, 0]"
  have nth: "m (p + j) = ?bs ! j" if "j < 9" for j
    by (rule store_nth [OF assms that])
  have "\<forall>j<8. m (p + j) \<noteq> 0 \<and> m (p + j) \<noteq> 37"
  proof (intro allI impI)
    fix j :: nat assume "j < 8"
    then have "j \<in> {0, 1, 2, 3, 4, 5, 6, 7}" by auto
    then show "m (p + j) \<noteq> 0 \<and> m (p + j) \<noteq> 37" using nth [of j] by (auto simp: bytes_of_def)
  qed
  moreover have "m (p + 8) = 0" using nth [of 8] by (simp add: bytes_of_def)
  ultimately have "printf_loop m (\<lambda>_. 0) 0 p [] = Some ([] @ crlf (map m [p..<p + 8]))"
    by (rule printf_plain)
  moreover have "map m [p..<p + 8] = take 8 (map m [p..<p + 9])"
    by (simp add: take_map take_upt)
  then have "map m [p..<p + 8] = bytes_of ''startup'' @ [10]"
    using assms by (simp add: bytes_of_def)
  ultimately show ?thesis by (simp add: main_startup_def stm_printf_def bytes_of_def)
qed

text \<open>
  C25: whatever \<open>ControlState\<close> the USB library reports, the string \<open>CTR_Callback\<close>
  hands to \<open>%s\<close> is terminated and reads as the name of that state, or as \<open>"NULL"\<close>
  for a value past the table: the bound check keeps the index inside the eleven rows,
  and every literal, \<open>"WAIT_STATUS_OUT"\<close> with its 15 characters included, leaves
  room for its terminator in the 16-byte row.
\<close>

theorem CTR_Callback_state_string:
  assumes tab: "array_at m tbl 16 control_state_string"
    and nul: "map m [ns..<ns + 5] = bytes_of ''NULL'' @ [0]"
  shows "StrLen m (CTR_Callback tbl ns cs) = Some (of_nat (length (state_name cs))) \<and>
         map m [CTR_Callback tbl ns cs..<CTR_Callback tbl ns cs + length (state_name cs)] = bytes_of (state_name cs)"
proof (cases "unat cs < 11")
  case True
  let ?s = "control_state_names ! unat cs"
  have "0 \<notin> set (bytes_of ?s)" using control_state_names_ok True by (metis nth_mem)
  moreover have "CTR_Callback tbl ns cs = tbl + 16 * unat cs" "state_name cs = ?s"
    using True control_state_names_ok(1)
    by (simp_all add: CTR_Callback_def state_name_def control_state_string_def)
  ultimately show ?thesis
    using c_string_in_store [OF control_state_row_in_store [OF tab True]] by simp
next
  case False
  have "CTR_Callback tbl ns cs = ns" "state_name cs = ''NULL''"
    using False control_state_names_ok(1)
    by (simp_all add: CTR_Callback_def state_name_def control_state_string_def)
  moreover have "0 \<notin> set (bytes_of ''NULL'')" by (simp add: bytes_of_def)
  ultimately show ?thesis
    using c_string_in_store [of m ns "bytes_of ''NULL''"] nul by (simp add: numeral_eq_Suc)
qed

section \<open>Witnesses\<close>

abbreviation (input) hid_store :: mem where
  "hid_store \<equiv> write_bytes 0 (concat control_state_string) (write_bytes 200 (bytes_of ''NULL'' @ [0]) (\<lambda>_. 0))"

theorem CTR_Callback_state_string_witness:
  "StrLen hid_store (CTR_Callback 0 200 8) = Some 15 \<and> StrLen hid_store (CTR_Callback 0 200 200) = Some 4"
proof -
  have tab: "array_at hid_store 0 16 control_state_string"
    using array_at_write_bytes [OF control_state_string_rows] .
  have len: "length (concat control_state_string) = 176"
    using length_concat_uniform [OF control_state_string_rows]
    by (simp add: control_state_string_def control_state_names_def)
  have nul: "map hid_store [200..<200 + 5] = bytes_of ''NULL'' @ [0]"
    by (simp add: upt_rec len bytes_of_def)
  show ?thesis
    using CTR_Callback_state_string [OF tab nul, of 8] CTR_Callback_state_string [OF tab nul, of 200]
    by (simp add: state_name_def control_state_names_def)
qed

end
