(* ===== verification/Dump.thy ===== *)
theory Dump
  imports Debug SysTimer
begin

text \<open>
  \<open>system_dump\<close> of \<^verbatim>\<open>debug.c\<close> composed with the delay of \<^verbatim>\<open>sys_timer.c\<close>:
  \<^verbatim>\<open>while (1) { stm_printf(str); busy_delay_ms(1000); }\<close>. \<open>stm_printf\<close> runs with
  interrupts disabled (\<open>__disable_irq\<close> to \<open>__enable_irq\<close>), so a print is one atomic
  step; the delay is the thread of \<open>SysTimer\<close>, whose steps interleave with the
  SysTick interrupt. The ghost field \<open>waited\<close> adds up the interrupts seen by the
  completed delays.
\<close>

datatype dump_pc = Printing | Delaying

record dump_state =
  console :: "u8 list"
  dpc :: dump_pc
  dly :: delay_cfg
  prints :: nat
  waited :: nat

definition dump_init :: "systick_state \<Rightarrow> dump_state" where
  "dump_init t = \<lparr>console = [], dpc = Printing, dly = delay_start t, prints = 0, waited = 0\<rparr>"

inductive dump_step :: "mem \<Rightarrow> nat \<Rightarrow> (nat \<Rightarrow> u32) \<Rightarrow> dump_state \<Rightarrow> dump_state \<Rightarrow> bool"
  for m str args where
  print: "dpc s = Printing \<Longrightarrow> stm_printf m str args = Some out \<Longrightarrow>
    dump_step m str args s
      (s\<lparr>console := console s @ out, dpc := Delaying, dly := delay_start (timer (dly s)), prints := prints s + 1\<rparr>)"
| delay: "dpc s = Delaying \<Longrightarrow> busy_delay_ms 1000 (dly s) c' \<Longrightarrow>
    dump_step m str args s (s\<lparr>dly := c'\<rparr>)"
| return: "dpc s = Delaying \<Longrightarrow> pc (dly s) = Return \<Longrightarrow>
    dump_step m str args s (s\<lparr>dpc := Printing, waited := waited s + elapsed (dly s)\<rparr>)"

inductive_cases dump_stepE: "dump_step m str args s s'"

text \<open>
  The invariant: the console holds the output of the completed prints; before a print
  every earlier round waited more than 10000 interrupts; during a delay, the delay
  thread is a run of \<open>busy_delay_ms 1000\<close>.
\<close>

definition dump_inv :: "u8 list \<Rightarrow> dump_state \<Rightarrow> bool" where
  "dump_inv out s \<longleftrightarrow>
     console s = concat (replicate (prints s) out) \<and>
     (dpc s = Printing \<longrightarrow> 10001 * prints s \<le> waited s) \<and>
     (dpc s = Delaying \<longrightarrow> 0 < prints s \<and> 10001 * (prints s - 1) \<le> waited s \<and>
        (\<exists>t. (busy_delay_ms 1000)\<^sup>*\<^sup>* (delay_start t) (dly s)))"

section \<open>Invariant\<close>

lemma replicate_Suc_append: "concat (replicate n xs) @ xs = concat (replicate (Suc n) xs)"
  by (induction n) simp_all

lemma dump_inv_step:
  assumes "dump_step m str args s s'" "stm_printf m str args = Some out" "dump_inv out s"
  shows "dump_inv out s'"
  using assms
proof (induction rule: dump_step.induct)
  case (print s out')
  then show ?case by (auto simp: dump_inv_def replicate_Suc_append)
next
  case (delay s c')
  then show ?case by (auto simp: dump_inv_def intro: rtranclp.rtrancl_into_rtrancl)
next
  case (return s)
  then obtain t where "(busy_delay_ms 1000)\<^sup>*\<^sup>* (delay_start t) (dly s)" by (auto simp: dump_inv_def)
  then have "delay_inv (1000 * 10) (dly s)"
    using delay_inv_reachable [of "1000 * 10" t "dly s"] by (simp add: busy_delay_ms_def)
  then have "10000 < elapsed (dly s)" using return.hyps(2) by (simp add: delay_inv_def)
  with return show ?case by (auto simp: dump_inv_def)
qed

lemma dump_delay_steps:
  assumes "(busy_delay_ms 1000)\<^sup>*\<^sup>* c c'" "dpc s = Delaying" "dly s = c"
  shows "(dump_step m str args)\<^sup>*\<^sup>* s (s\<lparr>dly := c'\<rparr>)"
  using assms(1)
proof (induction rule: rtranclp_induct)
  case base then show ?case using assms(3) [symmetric] by simp
next
  case (step c' c'')
  have "dump_step m str args (s\<lparr>dly := c'\<rparr>) (s\<lparr>dly := c''\<rparr>)"
    using dump_step.delay [where s = "s\<lparr>dly := c'\<rparr>" and m = m and str = str and args = args and c' = c'']
      step.hyps(2) assms(2) by simp
  with step.IH show ?case by (rule rtranclp.rtrancl_into_rtrancl)
qed

text \<open>
  C27: in every run of \<open>system_dump\<close> interleaved with the SysTick interrupt, the
  console holds one copy of the string's output per round, and whenever the loop is
  about to print again, more than 10000 interrupts (one second at 10 kHz) have
  passed for every round printed so far: \<open>busy_delay_ms(1000)\<close> between the prints
  cannot be cut short by any interleaving.
\<close>

theorem system_dump_rate:
  assumes "(dump_step m str args)\<^sup>*\<^sup>* (dump_init t) s" and "stm_printf m str args = Some out"
  shows "console s = concat (replicate (prints s) out) \<and>
         (dpc s = Printing \<longrightarrow> 10001 * prints s \<le> waited s)"
proof -
  have "dump_inv out s"
    using assms(1)
  proof (induction rule: rtranclp_induct)
    case base then show ?case by (simp add: dump_inv_def dump_init_def)
  next
    case (step s s') then show ?case using dump_inv_step assms(2) by blast
  qed
  then show ?thesis by (simp add: dump_inv_def)
qed

section \<open>Witnesses\<close>

abbreviation (input) dump_mem :: mem where
  "dump_mem \<equiv> (\<lambda>_. 0)(0 := 97)"

lemma dump_print_a: "stm_printf dump_mem 0 (\<lambda>_. 0) = Some [97]"
  using printf_plain [of 1 dump_mem 0 "\<lambda>_. 0" 0 "[]"] by (simp add: stm_printf_def)

lemma dump_one_round:
  "\<exists>s. (dump_step dump_mem 0 (\<lambda>_. 0))\<^sup>*\<^sup>* (dump_init \<lparr>sys_int_times = 0, tick_count = 0\<rparr>) s \<and>
       dpc s = Printing \<and> prints s = 1"
proof -
  let ?t = "\<lparr>sys_int_times = 0, tick_count = 0\<rparr> :: systick_state"
  let ?s0 = "dump_init ?t"
  let ?s1 = "?s0\<lparr>console := [97], dpc := Delaying, dly := delay_start ?t, prints := 1\<rparr>"
  let ?c1 = "delay_thread 10000 (delay_start ?t)"
  let ?cR = "delay_thread 10000 ((delay_irq ^^ 10001) ?c1)"
  have p: "dump_step dump_mem 0 (\<lambda>_. 0) ?s0 ?s1"
    using dump_step.print [of ?s0 dump_mem 0 "\<lambda>_. 0" "[97]"] dump_print_a
    by (simp add: dump_init_def delay_start_def)
  have c1: "pc ?c1 = Wait" "sys_int_times (timer ?c1) = 0" "expect_value ?c1 = 10000" "elapsed ?c1 = 0"
    by (simp_all add: delay_thread_def delay_entry_def delay_start_def)
  have "delay_step 10000 (delay_start ?t) ?c1" by (rule delay_step.thread) (simp add: delay_start_def)
  moreover have "(delay_step 10000)\<^sup>*\<^sup>* ?c1 ?cR \<and> pc ?cR = Return"
    using delay_wait_to_return [of ?c1 0 10001 10000] c1 by simp
  ultimately have d: "(busy_delay_ms 1000)\<^sup>*\<^sup>* (delay_start ?t) ?cR" "pc ?cR = Return"
    by (auto simp: busy_delay_ms_def intro: converse_rtranclp_into_rtranclp)
  have "(dump_step dump_mem 0 (\<lambda>_. 0))\<^sup>*\<^sup>* ?s1 (?s1\<lparr>dly := ?cR\<rparr>)"
    by (rule dump_delay_steps [OF d(1)]) simp_all
  moreover have "dump_step dump_mem 0 (\<lambda>_. 0) (?s1\<lparr>dly := ?cR\<rparr>)
      (?s1\<lparr>dly := ?cR, dpc := Printing, waited := waited ?s1 + elapsed ?cR\<rparr>)"
    using dump_step.return [of "?s1\<lparr>dly := ?cR\<rparr>"] d(2) by simp
  ultimately show ?thesis using p
    by (intro exI [of _ "?s1\<lparr>dly := ?cR, dpc := Printing, waited := waited ?s1 + elapsed ?cR\<rparr>"])
       (auto intro: converse_rtranclp_into_rtranclp rtranclp.rtrancl_into_rtrancl)
qed

theorem system_dump_rate_witness:
  "\<exists>s. (dump_step dump_mem 0 (\<lambda>_. 0))\<^sup>*\<^sup>* (dump_init \<lparr>sys_int_times = 0, tick_count = 0\<rparr>) s \<and>
       console s = [97] \<and> 10001 \<le> waited s"
proof -
  obtain s where s: "(dump_step dump_mem 0 (\<lambda>_. 0))\<^sup>*\<^sup>* (dump_init \<lparr>sys_int_times = 0, tick_count = 0\<rparr>) s"
      "dpc s = Printing" "prints s = 1"
    using dump_one_round by blast
  from system_dump_rate [OF s(1) dump_print_a] s show ?thesis by auto
qed
end
