(* ===== verification/Assert.thy ===== *)
theory Assert
  imports Prelude
begin

text \<open>
  Parameter checking of the ST drivers. Every driver function starts with
  \<open>assert_param(...)\<close> checks, a macro of the project configuration header
  (\<^verbatim>\<open>stm32f37x_conf.h\<close>, \<^verbatim>\<open>stm32f30x_conf.h\<close>; not in the repository):
  \<^verbatim>\<open>#ifdef USE_FULL_ASSERT
  #define assert_param(expr) ((expr) ? (void)0 : assert_failed((uint8_t *)__FILE__, __LINE__))
#else
  #define assert_param(expr) ((void)0)
#endif\<close>
  The handler \<open>assert_failed\<close> is the application's, in
  \<^verbatim>\<open>src/Projects/Custom_HID/src/main.c\<close> (lines 114-122): an empty \<open>while (1)\<close>.
  The build is a value of \<open>build\<close>; a call that never returns is \<open>None\<close>.
\<close>

datatype build = Release | Full_assert

text \<open>\<open>while (1) { }\<close>: the loop body does nothing and the loop never exits.\<close>

partial_function (option) spin_forever :: "unit \<Rightarrow> unit option" where
  "spin_forever u = spin_forever u"

declare spin_forever.simps [code]

definition assert_failed :: "string \<Rightarrow> nat \<Rightarrow> unit option" where
  "assert_failed file line = spin_forever ()"

definition assert_param :: "build \<Rightarrow> bool \<Rightarrow> string \<Rightarrow> nat \<Rightarrow> unit option" where
  "assert_param b expr file line =
     (if b = Full_assert \<and> \<not> expr then assert_failed file line else Some ())"

text \<open>
  The checks at the start of a driver function, in source order, each with the line
  of its \<open>assert_param\<close>: the first that fails does not return.
\<close>

fun assert_all :: "build \<Rightarrow> string \<Rightarrow> (bool \<times> nat) list \<Rightarrow> unit option" where
  "assert_all b file [] = Some ()"
| "assert_all b file ((e, l) # es) = Option.bind (assert_param b e file l) (\<lambda>_. assert_all b file es)"

section \<open>Lemmas\<close>

lemma spin_forever_Some_False: "spin_forever u = Some r \<Longrightarrow> False"
proof (erule spin_forever.raw_induct [where P = "\<lambda>u r. False", rotated])
  fix f :: "unit \<Rightarrow> unit option" and u y
  assume "\<And>u y. f u = Some y \<Longrightarrow> False" and "f u = Some y"
  then show False by blast
qed

lemma spin_forever_None [simp]: "spin_forever u = None"
  using spin_forever_Some_False by (cases "spin_forever u") auto

lemma assert_failed_None [simp]: "assert_failed file line = None"
  by (simp add: assert_failed_def)

lemma assert_param_eq [simp]:
  "assert_param b e file line = (if b = Full_assert \<and> \<not> e then None else Some ())"
  by (simp add: assert_param_def)

text \<open>
  A release build passes every check; a full-assert build returns from the checks
  exactly when all of them hold.
\<close>

lemma assert_all_eq:
  "assert_all b file es = (if b = Full_assert \<and> \<not> list_all fst es then None else Some ())"
  by (induction es) auto

end
