(* ===== verification/Checked.thy ===== *)
theory Checked
  imports Assert Adc Can
begin

text \<open>
  The driver functions of \<open>Adc\<close> and \<open>Can\<close> with their \<open>assert_param\<close> checks put
  back in front of the body, for either build of \<open>Assert\<close>. Each list names the
  checks of one function in source order with their lines; the checks
  \<open>IS_ADC_ALL_PERIPH\<close>, \<open>IS_CAN_ALL_PERIPH\<close> and \<open>IS_FUNCTIONAL_STATE\<close> hold by the
  types of the model (one ADC, one CAN, \<open>functional_state\<close> has two values) and are
  left out.
\<close>

section \<open>ADC\<close>

text \<open>
  \<open>IS_ADC_EXT_TRIG\<close>, \<open>IS_ADC_DATA_ALIGN\<close>, \<open>IS_ADC_REGULAR_LENGTH\<close> of \<open>ADC_Init\<close>
  (lines 173-175), \<open>IS_ADC_ANALOG_WATCHDOG\<close> (line 333), \<open>IS_ADC_THRESHOLD\<close>
  twice (lines 360-361), \<open>IS_ADC_CHANNEL\<close> (line 399), with the values of the
  \<^verbatim>\<open>stm32f37x_adc.h\<close> macros.
\<close>

fun adc_asserts :: "adc_op \<Rightarrow> (bool \<times> nat) list" where
  "adc_asserts (AInit s) =
     [(ADC_ExternalTrigConv s \<in> {0, 0x20000, 0x40000, 0x60000, 0x80000, 0xA0000, 0xC0000, 0xE0000}, 173),
      (ADC_DataAlign s \<in> {0, 0x800}, 174),
      (1 \<le> ADC_NbrOfChannel s \<and> ADC_NbrOfChannel s \<le> 16, 175)]"
| "adc_asserts (AWatchdogCmd w) = [(w \<in> {0x800200, 0x400200, 0xC00200, 0x800000, 0x400000, 0xC00000, 0}, 333)]"
| "adc_asserts (AWatchdogThresholds h l) = [(h \<le> 0xFFF, 360), (l \<le> 0xFFF, 361)]"
| "adc_asserts (AWatchdogChannel ch) = [(ch \<le> 17, 399)]"
| "adc_asserts _ = []"

definition adc_call :: "build \<Rightarrow> adc_op \<Rightarrow> ADC_TypeDef \<Rightarrow> ADC_TypeDef option" where
  "adc_call b op a = Option.bind (assert_all b ''stm32f37x_adc.c'' (adc_asserts op)) (\<lambda>_. Some (adc_step op a))"

text \<open>A sequence of calls; a call that does not return ends the run.\<close>

fun adc_run :: "build \<Rightarrow> adc_op list \<Rightarrow> ADC_TypeDef \<Rightarrow> ADC_TypeDef option" where
  "adc_run b [] a = Some a"
| "adc_run b (op # ops) a = Option.bind (adc_call b op a) (adc_run b ops)"

section \<open>CAN\<close>

text \<open>\<open>CAN_Init\<close>, lines 196-200: \<open>IS_CAN_MODE\<close>, \<open>IS_CAN_SJW\<close>, \<open>IS_CAN_BS1\<close>, \<open>IS_CAN_BS2\<close>, \<open>IS_CAN_PRESCALER\<close>.\<close>

definition CAN_Init_asserts :: "CAN_InitTypeDef \<Rightarrow> (bool \<times> nat) list" where
  "CAN_Init_asserts c =
     [(CAN_Mode c \<le> 3, 196), (CAN_SJW c \<le> 3, 197), (CAN_BS1 c \<le> 15, 198), (CAN_BS2 c \<le> 7, 199),
      (1 \<le> CAN_Prescaler c \<and> CAN_Prescaler c \<le> 1024, 200)]"

definition CAN_Init_checked :: "build \<Rightarrow> CAN_InitTypeDef \<Rightarrow> CAN_TypeDef \<Rightarrow> (CAN_InitStatus \<times> CAN_TypeDef) option" where
  "CAN_Init_checked b c s = Option.bind (assert_all b ''stm32f37x_can.c'' (CAN_Init_asserts c)) (\<lambda>_. Some (CAN_Init c s))"

text \<open>
  \<open>CAN_FilterInit\<close>, lines 306-312: \<open>IS_CAN_FILTER_NUMBER\<close> (14 banks on the
  STM32F37x), \<open>IS_CAN_FILTER_MODE\<close>, \<open>IS_CAN_FILTER_SCALE\<close>, \<open>IS_CAN_FILTER_FIFO\<close>.
\<close>

definition CAN_FilterInit_asserts :: "CAN_FilterInitTypeDef \<Rightarrow> (bool \<times> nat) list" where
  "CAN_FilterInit_asserts f =
     [(CAN_FilterNumber f \<le> 13, 306), (CAN_FilterMode f \<le> 1, 308), (CAN_FilterScale f \<le> 1, 309),
      (CAN_FilterFIFOAssignment f \<le> 1, 311)]"

definition CAN_FilterInit_checked :: "build \<Rightarrow> CAN_FilterInitTypeDef \<Rightarrow> CAN_TypeDef \<Rightarrow> CAN_TypeDef option" where
  "CAN_FilterInit_checked b f s =
     Option.bind (assert_all b ''stm32f37x_can.c'' (CAN_FilterInit_asserts f)) (\<lambda>_. Some (CAN_FilterInit f s))"

section \<open>Lemmas\<close>

lemma adc_asserts_ok: "list_all fst (adc_asserts op) \<longleftrightarrow> adc_op_ok op"
  by (cases op) auto

lemma adc_call_eq:
  "adc_call b op a = (if b = Full_assert \<and> \<not> adc_op_ok op then None else Some (adc_step op a))"
  by (simp add: adc_call_def assert_all_eq adc_asserts_ok)

lemma adc_run_Release: "adc_run Release ops a = Some (fold adc_step ops a)"
  by (induction ops arbitrary: a) (simp_all add: adc_call_eq)

lemma adc_run_Full_assert:
  "adc_run Full_assert ops a = (if list_all adc_op_ok ops then Some (fold adc_step ops a) else None)"
  by (induction ops arbitrary: a) (simp_all add: adc_call_eq)

lemma adc_fold_wf: "adc_wf a \<Longrightarrow> list_all adc_op_ok ops \<Longrightarrow> adc_wf (fold adc_step ops a)"
  by (induction ops arbitrary: a) (simp_all add: adc_step_wf)

lemma CAN_Init_asserts_ok: "list_all fst (CAN_Init_asserts c) \<longleftrightarrow> can_init_params_ok c"
  by (auto simp: CAN_Init_asserts_def can_init_params_ok_def)

lemma CAN_Init_checked_eq:
  "CAN_Init_checked b c s = (if b = Full_assert \<and> \<not> can_init_params_ok c then None else Some (CAN_Init c s))"
  by (simp add: CAN_Init_checked_def assert_all_eq CAN_Init_asserts_ok)

lemma CAN_FilterInit_checked_eq:
  "CAN_FilterInit_checked b f s =
     (if b = Full_assert \<and> \<not> list_all fst (CAN_FilterInit_asserts f) then None else Some (CAN_FilterInit f s))"
  by (simp add: CAN_FilterInit_checked_def assert_all_eq)

section \<open>Properties\<close>

text \<open>
  C6: in a full-assert build the ADC driver cannot break the reserved-bit invariant
  of \<open>Adc\<close>: from a well-formed register image a run of requests returns exactly when
  every request passes its checks, with the image of the release build, and whatever
  it returns is well formed. A request outside the checked ranges, such as the
  \<open>ADC_NbrOfChannel = 0\<close> of C40 that sets reserved bits of \<open>SQR1\<close> in a release build,
  makes the run hang in \<open>assert_failed\<close> instead.
\<close>

theorem ADC_full_assert_run:
  assumes wf: "adc_wf a"
  shows "adc_run Full_assert ops a = (if list_all adc_op_ok ops then Some (fold adc_step ops a) else None) \<and>
         (\<forall>a'. adc_run Full_assert ops a = Some a' \<longrightarrow> adc_wf a') \<and>
         adc_run Release ops a = Some (fold adc_step ops a)"
  using adc_fold_wf [OF wf] by (simp add: adc_run_Full_assert adc_run_Release)

text \<open>
  C12: in a full-assert build \<open>CAN_FilterInit\<close> returns exactly when the bank number,
  mode, scale and FIFO are in range, and a call that returns has configured the bank
  as requested: scale, mode, FIFO and activation bits, the register pair packed for
  the scale, and filter initialisation mode left. The release-build gap of C13 (an
  out-of-range scale leaves the scale bit and the register pair as they were) cannot
  occur: that call never returns.
\<close>

theorem CAN_FilterInit_full_assert:
  "(CAN_FilterInit_checked Full_assert f s = None \<longleftrightarrow>
      \<not> (CAN_FilterNumber f \<le> 13 \<and> CAN_FilterMode f \<le> 1 \<and> CAN_FilterScale f \<le> 1 \<and> CAN_FilterFIFOAssignment f \<le> 1)) \<and>
   (\<forall>s'. CAN_FilterInit_checked Full_assert f s = Some s' \<longrightarrow>
      (let n = unat (CAN_FilterNumber f) in
        (bit (FS1R s') n \<longleftrightarrow> CAN_FilterScale f = CAN_FilterScale_32bit) \<and>
        (bit (FM1R s') n \<longleftrightarrow> CAN_FilterMode f = CAN_FilterMode_IdList) \<and>
        (bit (FFA1R s') n \<longleftrightarrow> CAN_FilterFIFOAssignment f = CAN_Filter_FIFO1) \<and>
        (bit (FA1R s') n \<longleftrightarrow> CAN_FilterActivation f = ENABLE) \<and> \<not> bit (FMR s') 0 \<and>
        sFilterRegister s' n =
          (if CAN_FilterScale f = CAN_FilterScale_32bit
           then \<lparr>FR1 = pack16 (CAN_FilterIdHigh f) (CAN_FilterIdLow f),
                 FR2 = pack16 (CAN_FilterMaskIdHigh f) (CAN_FilterMaskIdLow f)\<rparr>
           else \<lparr>FR1 = pack16 (CAN_FilterMaskIdLow f) (CAN_FilterIdLow f),
                 FR2 = pack16 (CAN_FilterMaskIdHigh f) (CAN_FilterIdHigh f)\<rparr>)))"
proof (intro conjI allI impI)
  show "CAN_FilterInit_checked Full_assert f s = None \<longleftrightarrow>
      \<not> (CAN_FilterNumber f \<le> 13 \<and> CAN_FilterMode f \<le> 1 \<and> CAN_FilterScale f \<le> 1 \<and> CAN_FilterFIFOAssignment f \<le> 1)"
    by (simp add: CAN_FilterInit_checked_eq CAN_FilterInit_asserts_def)
next
  fix s' assume "CAN_FilterInit_checked Full_assert f s = Some s'"
  then have ok: "CAN_FilterNumber f \<le> 13" "CAN_FilterMode f \<le> 1" "CAN_FilterScale f \<le> 1" "CAN_FilterFIFOAssignment f \<le> 1"
    and s': "s' = CAN_FilterInit f s"
    by (simp_all add: CAN_FilterInit_checked_eq CAN_FilterInit_asserts_def split: if_splits)
  have n: "unat (CAN_FilterNumber f) < 32" using ok(1) by (simp add: word_le_nat_alt)
  have c: "CAN_FilterMode f = 0 \<or> CAN_FilterMode f = 1" "CAN_FilterScale f = 0 \<or> CAN_FilterScale f = 1"
    "CAN_FilterFIFOAssignment f = 0 \<or> CAN_FilterFIFOAssignment f = 1"
    using ok(2-4) by (simp_all only: word_le_1_iff)
  show "let n = unat (CAN_FilterNumber f) in
        (bit (FS1R s') n \<longleftrightarrow> CAN_FilterScale f = CAN_FilterScale_32bit) \<and>
        (bit (FM1R s') n \<longleftrightarrow> CAN_FilterMode f = CAN_FilterMode_IdList) \<and>
        (bit (FFA1R s') n \<longleftrightarrow> CAN_FilterFIFOAssignment f = CAN_Filter_FIFO1) \<and>
        (bit (FA1R s') n \<longleftrightarrow> CAN_FilterActivation f = ENABLE) \<and> \<not> bit (FMR s') 0 \<and>
        sFilterRegister s' n =
          (if CAN_FilterScale f = CAN_FilterScale_32bit
           then \<lparr>FR1 = pack16 (CAN_FilterIdHigh f) (CAN_FilterIdLow f),
                 FR2 = pack16 (CAN_FilterMaskIdHigh f) (CAN_FilterMaskIdLow f)\<rparr>
           else \<lparr>FR1 = pack16 (CAN_FilterMaskIdLow f) (CAN_FilterIdLow f),
                 FR2 = pack16 (CAN_FilterMaskIdHigh f) (CAN_FilterIdHigh f)\<rparr>)"
    using c n unfolding s'
    by (elim disjE) (simp_all add: filter_regs_after_def Let_def reg_simps)
qed

section \<open>Witnesses\<close>

theorem ADC_full_assert_run_witness:
  "adc_run Full_assert [AInit (adc_cfg5\<lparr>ADC_NbrOfChannel := 0\<rparr>)] adc_ones0 = None \<and>
   adc_wf (the (adc_run Full_assert [AInit adc_cfg5, ACmd ENABLE] adc_ones0))"
proof -
  have wf: "adc_wf adc_ones0" by (simp add: adc_wf_def)
  show ?thesis
    using ADC_full_assert_run [OF wf, of "[AInit (adc_cfg5\<lparr>ADC_NbrOfChannel := 0\<rparr>)]"]
      ADC_full_assert_run [OF wf, of "[AInit adc_cfg5, ACmd ENABLE]"]
    by simp
qed

theorem CAN_FilterInit_full_assert_witness:
  "CAN_FilterInit_checked Full_assert (can_filter32_example\<lparr>CAN_FilterScale := 2\<rparr>) can_example_hw = None \<and>
   bit (FS1R (the (CAN_FilterInit_checked Full_assert can_filter32_example can_example_hw))) 0 \<and>
   FR1 (sFilterRegister (the (CAN_FilterInit_checked Full_assert can_filter32_example can_example_hw)) 0) = 0x12345678"
proof -
  have "CAN_FilterInit_checked Full_assert can_filter32_example can_example_hw \<noteq> None"
    using CAN_FilterInit_full_assert [of can_filter32_example can_example_hw] by simp
  then obtain s' where s': "CAN_FilterInit_checked Full_assert can_filter32_example can_example_hw = Some s'"
    by blast
  show ?thesis
    using CAN_FilterInit_full_assert [of "can_filter32_example\<lparr>CAN_FilterScale := 2\<rparr>" can_example_hw]
      CAN_FilterInit_full_assert [of can_filter32_example can_example_hw] s'
    by (simp add: pack16_def word_le_1_iff)
qed

end
