(* ===== verification/Boot.thy ===== *)
theory Boot
  imports Hid SysTimer Assert
begin

text \<open>
  The whole of \<^verbatim>\<open>main()\<close> of \<^verbatim>\<open>src/Projects/Custom_HID/src/main.c\<close> on a board
  state that gathers the parts of the machine it touches, and the firmware running
  after it: \<open>main\<close> ends in \<open>while (1)\<close>, and from then on only interrupts change the
  board. The step relation \<open>board_step\<close> takes the SysTick exception
  (\<open>SysTick_Handler\<close> of \<open>SysTimer\<close>), the USART1 receive interrupt
  (\<open>USART1_IRQHandler\<close> of \<open>Debug\<close>) and the arrival of a byte at the USART, in any
  order. \<open>RESET_Callback\<close> of \<^verbatim>\<open>callback.c\<close> is here as the \<open>usb_printf\<close> call it makes.
\<close>

section \<open>Vendor definitions the boot code uses\<close>

text \<open>
  \<open>SCB_VTOR_TBLBASE\<close> of \<^verbatim>\<open>stm32f10x.h\<close> (table in SRAM), the clock frequencies
  \<open>RCC_GetClocksFreq\<close> reports (\<^verbatim>\<open>stm32f10x_rcc.h\<close>), and the four calls into the USB
  part of the demo (\<^verbatim>\<open>hw_config.c\<close>, \<^verbatim>\<open>usb_init.c\<close>); none is in the repository.
\<close>

definition SCB_VTOR_TBLBASE :: u32 where
  "SCB_VTOR_TBLBASE = 0x20000000"

record RCC_ClocksTypeDef =
  SYSCLK_Frequency :: u32
  HCLK_Frequency :: u32
  PCLK1_Frequency :: u32
  PCLK2_Frequency :: u32
  ADCCLK_Frequency :: u32

datatype usb_call = Set_System | Set_USBClock | USB_Interrupts_Config | USB_Init

section \<open>The board\<close>

text \<open>
  \<open>VTOR\<close> of the system control block, the SysTick registers, the globals of
  \<^verbatim>\<open>sys_timer.c\<close> (\<open>systick\<close>, \<open>sys_clk_def\<close>) and of \<^verbatim>\<open>main.c\<close> (\<open>hid_globals\<close>), the
  USART1 registers, the bytes sent on the console, and the library calls made so far.
  \<open>ticks_taken\<close> counts the SysTick exceptions taken; no code reads it.
\<close>

record board =
  SCB_VTOR :: u32
  SysTick :: SysTick_Type
  systick :: systick_state
  sys_clk_def :: RCC_ClocksTypeDef
  hid_globals :: main_state
  USART1 :: USART_TypeDef
  console :: "u8 list"
  debug_calls :: "lib_call list"
  usb_calls :: "usb_call list"
  ticks_taken :: nat

text \<open>The initialised globals: \<open>PrevXferComplete = 1\<close>, \<open>TimingDelay = 0\<close> (\<^verbatim>\<open>main.c\<close>
  lines 41-42), \<open>tick_count = sys_int_times = 0\<close> (\<^verbatim>\<open>sys_timer.c\<close> lines 3-4).\<close>

definition hid_globals0 :: main_state where
  "hid_globals0 = \<lparr>PrevXferComplete = 1, TimingDelay = 0\<rparr>"

definition systick0 :: systick_state where
  "systick0 = \<lparr>sys_int_times = 0, tick_count = 0\<rparr>"

definition board_reset :: "SysTick_Type \<Rightarrow> RCC_ClocksTypeDef \<Rightarrow> USART_TypeDef \<Rightarrow> board" where
  "board_reset st clk u =
     \<lparr>SCB_VTOR = 0, SysTick = st, systick = systick0, sys_clk_def = clk, hid_globals = hid_globals0,
      USART1 = u, console = [], debug_calls = [], usb_calls = [], ticks_taken = 0\<rparr>"

section \<open>main\<close>

text \<open>
  Lines 58-85: the vector table base (\<open>VECT_TAB_SRAM\<close> is a build option), the timer
  (its status is ignored), the console and the start-up message through
  \<open>main_startup\<close> of \<open>Hid\<close>, the literal at address \<open>startup\<close>; then the USB set-up.
  \<open>RCC_GetClocksFreq\<close> reports \<open>clk\<close>. A \<open>stm_printf\<close> that does not return stops the boot.
\<close>

definition main_boot :: "bool \<Rightarrow> u32 \<Rightarrow> RCC_ClocksTypeDef \<Rightarrow> mem \<Rightarrow> nat \<Rightarrow> board \<Rightarrow> board option" where
  "main_boot vect_tab_sram vectors clk m startup b0 =
     (let b1 = b0\<lparr>SCB_VTOR := (if vect_tab_sram then vectors OR SCB_VTOR_TBLBASE else vectors)\<rparr>;
          (_, st) = init_sys_timer (SYSCLK_Frequency clk) (SysTick b1);
          b2 = b1\<lparr>SysTick := st, sys_clk_def := clk\<rparr>;
          (u, out) = main_startup (PCLK2_Frequency clk) (USART1 b2) m startup
      in case out of
           None \<Rightarrow> None
         | Some s \<Rightarrow> Some (b2\<lparr>USART1 := u, debug_calls := debug_calls b2 @ init_debug_calls,
                              console := console b2 @ s,
                              usb_calls := usb_calls b2 @ [Set_System, Set_USBClock, USB_Interrupts_Config, USB_Init]\<rparr>))"

text \<open>Lines 56-89: the boot, then \<open>while (1) { }\<close>.\<close>

definition main :: "bool \<Rightarrow> u32 \<Rightarrow> RCC_ClocksTypeDef \<Rightarrow> mem \<Rightarrow> nat \<Rightarrow> board \<Rightarrow> board option" where
  "main vect_tab_sram vectors clk m startup b0 =
     Option.bind (main_boot vect_tab_sram vectors clk m startup b0) (\<lambda>b. Option.bind (spin_forever ()) (\<lambda>_. Some b))"

section \<open>Interrupts\<close>

text \<open>
  The SysTick exception is taken when the counter and its interrupt are enabled
  (\<open>CTRL\<close> bits 0 and 1); the USART1 interrupt when \<open>RXNEIE\<close> (\<open>CR1\<close> bit 5) and
  \<open>RXNE\<close> (\<open>SR\<close> bit 5) are set; a received byte lands in \<open>DR\<close> and sets \<open>RXNE\<close>.
\<close>

inductive board_step :: "board \<Rightarrow> board \<Rightarrow> bool" where
  systick_irq: "bit (CTRL (SysTick b)) 0 \<Longrightarrow> bit (CTRL (SysTick b)) 1 \<Longrightarrow>
     board_step b (b\<lparr>systick := SysTick_Handler (systick b), ticks_taken := Suc (ticks_taken b)\<rparr>)"
| usart1_irq: "bit (CR1 (USART1 b)) 5 \<Longrightarrow> bit (SR (USART1 b)) 5 \<Longrightarrow>
     board_step b (b\<lparr>USART1 := USART1_IRQHandler (USART1 b)\<rparr>)"
| usart1_rx: "board_step b (b\<lparr>USART1 := (USART1 b)\<lparr>SR := SR (USART1 b) OR 0x20, DR := ucast (c :: u8)\<rparr>\<rparr>)"

text \<open>What an interrupt leaves alone: everything the boot configured.\<close>

definition board_config :: "board \<Rightarrow> u32 \<times> SysTick_Type \<times> main_state \<times> u16 \<times> u16 \<times> u16 \<times> u8 list \<times> lib_call list \<times> usb_call list" where
  "board_config b = (SCB_VTOR b, SysTick b, hid_globals b, BRR (USART1 b), CR1 (USART1 b), CR2 (USART1 b),
     console b, debug_calls b, usb_calls b)"

inductive_cases board_stepE: "board_step b b'"

section \<open>callback.c\<close>

text \<open>\<open>RESET_Callback\<close> (lines 55-59): \<open>usb_printf("cntr:%x\n", *CNTR)\<close>, the format and the argument list.\<close>

definition RESET_Callback :: "u32 \<Rightarrow> string \<times> u32 list" where
  "RESET_Callback cntr = (''cntr:%x'' @ [CHR ''\<newline>''], [cntr])"

section \<open>Lemmas\<close>

lemma main_never_returns: "main vect_tab_sram vectors clk m startup b0 = None"
  by (cases "main_boot vect_tab_sram vectors clk m startup b0") (simp_all add: main_def)

text \<open>
  The SysTick handler touches only \<open>systick\<close>, which the boot neither reads nor
  writes: an exception taken during the boot, once \<open>init_sys_timer\<close> has enabled it,
  gives the state of the same exception taken after the boot.
\<close>

lemma main_boot_tick:
  "main_boot vect_tab_sram vectors clk m startup (b\<lparr>systick := SysTick_Handler (systick b), ticks_taken := Suc (ticks_taken b)\<rparr>) =
   map_option (\<lambda>b'. b'\<lparr>systick := SysTick_Handler (systick b'), ticks_taken := Suc (ticks_taken b')\<rparr>)
     (main_boot vect_tab_sram vectors clk m startup b)"
  by (simp add: main_boot_def Let_def split: prod.splits option.splits)

lemma tick_count_SysTick_Handler_lt: "tick_count (SysTick_Handler s) < 200"
proof -
  have "\<not> 200 \<le> tick_count s + 1 \<Longrightarrow> tick_count s + 1 < 200" by (simp add: not_le)
  then show ?thesis by (simp add: tick_count_SysTick_Handler)
qed

lemma USART1_IRQHandler_regs [simp]:
  "BRR (USART1_IRQHandler u) = BRR u" "CR1 (USART1_IRQHandler u) = CR1 u" "CR2 (USART1_IRQHandler u) = CR2 u"
  by (simp_all add: USART1_IRQHandler_eq)

lemma board_step_config: "board_step b b' \<Longrightarrow> board_config b' = board_config b"
  by (erule board_stepE) (simp_all add: board_config_def)

lemma board_step_ticks:
  "board_step b b' \<Longrightarrow> sys_int_times (systick b) = of_nat (ticks_taken b) \<Longrightarrow> tick_count (systick b) < 200 \<Longrightarrow>
   sys_int_times (systick b') = of_nat (ticks_taken b') \<and> tick_count (systick b') < 200"
  by (erule board_stepE) (simp_all add: tick_count_SysTick_Handler_lt)

lemma board_steps:
  assumes "board_step\<^sup>*\<^sup>* b0 b" and "sys_int_times (systick b0) = of_nat (ticks_taken b0)" and "tick_count (systick b0) < 200"
  shows "board_config b = board_config b0 \<and> sys_int_times (systick b) = of_nat (ticks_taken b) \<and> tick_count (systick b) < 200"
  using assms
proof (induction rule: rtranclp_induct)
  case (step b b')
  then show ?case using board_step_config [OF step.hyps(2)] board_step_ticks [OF step.hyps(2)] by simp
qed simp

lemma main_boot_reset:
  assumes "map m [p..<p + 9] = bytes_of ''startup'' @ [10, 0]"
  shows "main_boot vect_tab_sram vectors clk m p (board_reset st clk0 u) =
    Some \<lparr>SCB_VTOR = (if vect_tab_sram then vectors OR SCB_VTOR_TBLBASE else vectors),
          SysTick = st\<lparr>LOAD := (SYSCLK_Frequency clk div 10000 - 1) AND 0xFFFFFF, VAL := 0, CTRL := 7\<rparr>,
          systick = systick0, sys_clk_def = clk, hid_globals = hid_globals0,
          USART1 = init_debug_fun (PCLK2_Frequency clk) u, console = bytes_of ''startup'' @ [13, 10],
          debug_calls = init_debug_calls, usb_calls = [Set_System, Set_USBClock, USB_Interrupts_Config, USB_Init],
          ticks_taken = 0\<rparr>"
proof -
  have "snd (main_startup (PCLK2_Frequency clk) u m p) = Some (bytes_of ''startup'' @ [13, 10])"
    by (rule main_startup_console [OF assms])
  then show ?thesis
    by (simp add: main_boot_def board_reset_def init_sys_timer_load main_startup_def Let_def)
qed

lemma bit_CR1_init_debug_fun: "bit (CR1 (init_debug_fun pclk2 u)) 5"
  by (simp add: init_debug_fun_def Let_def bit_or_iff)

section \<open>Properties\<close>

text \<open>
  C24: with the literal \<open>"startup\n"\<close> in the store, \<open>main\<close> never returns, its boot
  returns, and in every state the running firmware reaches from there, by any
  interleaving of SysTick exceptions, USART1 interrupts and received bytes, the
  configuration made by the boot is intact (vector table base, SysTick reload for
  \<open>SYSCLK/10000\<close> and \<open>CTRL = 7\<close>, the USART1 baud rate and its receive interrupt,
  the console holding \<open>"startup\r\n"\<close>, the USB set-up calls made after the message,
  the \<open>main.c\<close> globals at their initial values), \<open>tick_count\<close> stays below 200,
  \<open>sys_int_times\<close> counts the SysTick exceptions taken modulo \<open>2^32\<close>, and a further
  SysTick exception can always be taken.
\<close>

theorem main_firmware_runs:
  assumes lit: "map m [p..<p + 9] = bytes_of ''startup'' @ [10, 0]"
  shows "main vect_tab_sram vectors clk m p (board_reset st clk0 u) = None \<and>
   (\<exists>b0. main_boot vect_tab_sram vectors clk m p (board_reset st clk0 u) = Some b0 \<and>
     (\<forall>b. board_step\<^sup>*\<^sup>* b0 b \<longrightarrow>
        SCB_VTOR b = (if vect_tab_sram then vectors OR SCB_VTOR_TBLBASE else vectors) \<and>
        LOAD (SysTick b) = (SYSCLK_Frequency clk div 10000 - 1) AND 0xFFFFFF \<and> CTRL (SysTick b) = 7 \<and>
        BRR (USART1 b) = BRR (init_debug_fun (PCLK2_Frequency clk) u) \<and> bit (CR1 (USART1 b)) 5 \<and>
        console b = bytes_of ''startup'' @ [13, 10] \<and>
        usb_calls b = [Set_System, Set_USBClock, USB_Interrupts_Config, USB_Init] \<and>
        hid_globals b = hid_globals0 \<and>
        tick_count (systick b) < 200 \<and> sys_int_times (systick b) = of_nat (ticks_taken b) \<and>
        (\<exists>b'. board_step b b' \<and> ticks_taken b' = Suc (ticks_taken b))))"
proof -
  define b0 where "b0 = \<lparr>SCB_VTOR = (if vect_tab_sram then vectors OR SCB_VTOR_TBLBASE else vectors),
          SysTick = st\<lparr>LOAD := (SYSCLK_Frequency clk div 10000 - 1) AND 0xFFFFFF, VAL := 0, CTRL := 7\<rparr>,
          systick = systick0, sys_clk_def = clk, hid_globals = hid_globals0,
          USART1 = init_debug_fun (PCLK2_Frequency clk) u, console = bytes_of ''startup'' @ [13, 10],
          debug_calls = init_debug_calls, usb_calls = [Set_System, Set_USBClock, USB_Interrupts_Config, USB_Init],
          ticks_taken = 0\<rparr>"
  have boot: "main_boot vect_tab_sram vectors clk m p (board_reset st clk0 u) = Some b0"
    unfolding b0_def by (rule main_boot_reset [OF lit])
  have reach: "board_config b = board_config b0 \<and> sys_int_times (systick b) = of_nat (ticks_taken b) \<and>
      tick_count (systick b) < 200 \<and> (\<exists>b'. board_step b b' \<and> ticks_taken b' = Suc (ticks_taken b))"
    if run: "board_step\<^sup>*\<^sup>* b0 b" for b
  proof -
    have inv: "board_config b = board_config b0 \<and> sys_int_times (systick b) = of_nat (ticks_taken b) \<and>
        tick_count (systick b) < 200"
      using board_steps [OF run] by (simp add: b0_def systick0_def)
    then have "CTRL (SysTick b) = 7" by (simp add: board_config_def b0_def)
    then have "board_step b (b\<lparr>systick := SysTick_Handler (systick b), ticks_taken := Suc (ticks_taken b)\<rparr>)"
      by (intro board_step.systick_irq) simp_all
    with inv show ?thesis by auto
  qed
  show ?thesis
    using main_never_returns boot reach
    by (simp add: board_config_def b0_def bit_CR1_init_debug_fun)
qed

section \<open>Witnesses\<close>

abbreviation (input) boot_store :: mem where
  "boot_store \<equiv> write_bytes 0 (bytes_of ''startup'' @ [10, 0]) (\<lambda>_. 0)"

abbreviation (input) clk72 :: RCC_ClocksTypeDef where
  "clk72 \<equiv> \<lparr>SYSCLK_Frequency = 72000000, HCLK_Frequency = 72000000, PCLK1_Frequency = 36000000,
     PCLK2_Frequency = 72000000, ADCCLK_Frequency = 12000000\<rparr>"

theorem main_firmware_runs_witness:
  "main False 0x08000000 clk72 boot_store 0 (board_reset \<lparr>CTRL = 0, LOAD = 0, VAL = 0\<rparr> clk72 \<lparr>SR = 0, DR = 0, BRR = 0, CR1 = 0, CR2 = 0\<rparr>) = None \<and>
   (\<exists>b0. main_boot False 0x08000000 clk72 boot_store 0
           (board_reset \<lparr>CTRL = 0, LOAD = 0, VAL = 0\<rparr> clk72 \<lparr>SR = 0, DR = 0, BRR = 0, CR1 = 0, CR2 = 0\<rparr>) = Some b0 \<and>
         LOAD (SysTick b0) = 7199 \<and> SCB_VTOR b0 = 0x08000000)"
proof -
  have lit: "map boot_store [0..<0 + 9] = bytes_of ''startup'' @ [10, 0]"
    by (simp add: upt_rec bytes_of_def)
  show ?thesis
    using main_firmware_runs [OF lit, of False "0x08000000" clk72 "\<lparr>CTRL = 0, LOAD = 0, VAL = 0\<rparr>" clk72
        "\<lparr>SR = 0, DR = 0, BRR = 0, CR1 = 0, CR2 = 0\<rparr>"]
    by auto
qed

end
