(* ===== verification/Spec2Isabelle.thy ===== *)
theory Spec2Isabelle
  imports Can MiscLib SysTimer Tim TimCR1 Debug Adc Hid Dump Assert Checked Boot
begin

text \<open>
  \<^bold>\<open>A verification library for the STM32 USB HID firmware and its peripheral drivers.\<close>

  \<^bold>\<open>The program.\<close> The repository holds three groups of C code: the ST standard
  peripheral library drivers for the CAN controller
  (\<^verbatim>\<open>src/Libraries/STM32F37x_StdPeriph_Driver/src/stm32f37x_can.c\<close>), the ADC
  (\<^verbatim>\<open>.../stm32f37x_adc.c\<close>) and the timers (\<^verbatim>\<open>src/Libraries/STM32F30x_StdPeriph_Driver/src/stm32f30x_tim.c\<close>);
  the board utilities of \<^verbatim>\<open>src/Utilities/STM32_EVAL/STM3210B_EVAL\<close> (string and
  memory helpers in \<^verbatim>\<open>misc_lib.c\<close>, the SysTick tick counter and busy-wait delays in
  \<^verbatim>\<open>sys_timer.c\<close>, the USART debug console and its \<open>printf\<close> in \<^verbatim>\<open>debug.c\<close>);
  and the Custom HID demo (\<^verbatim>\<open>src/Projects/Custom_HID/src/main.c\<close>, \<^verbatim>\<open>callback.c\<close>).
  The drivers are read-modify-write sequences on memory-mapped registers; the only
  component with a protocol is the CAN driver, whose initialisation is a handshake
  with the controller (request, bounded polling for the acknowledge bit INAK,
  configuration, release, polling again). The console formats integers with
  \<open>DECToASCII\<close>/\<open>HexToASCII\<close> of \<^verbatim>\<open>misc_lib.c\<close>; \<open>system_dump\<close> uses the busy-wait
  delay of \<^verbatim>\<open>sys_timer.c\<close>, whose counter is advanced by the SysTick interrupt.

  \<^bold>\<open>How the code is modelled.\<close> Registers are words of their C width (\<open>u8\<close>,
  \<open>u16\<close>, \<open>u32\<close> of theory \<open>Prelude\<close>), a peripheral's register block is a record,
  each driver function is a HOL function from its arguments and the register block
  to its result and the new register block. Loops are recursive functions with a
  termination measure (the polling loops of \<open>CAN_Init\<close> terminate because the
  32-bit distance \<open>INAK_TIMEOUT - wait_ack\<close> decreases). A status register that the
  hardware changes on its own is modelled by the sequence of values its successive
  reads return, with the number of reads in the state: the timeout of a polling loop
  is then exactly a number of reads. Bit masks of the vendor headers (not in the
  repository) are opaque constants with their header values. \<open>assert_param\<close> checks
  are compiled out in release builds: the driver models of \<open>Can\<close>, \<open>Adc\<close> and \<open>Tim\<close>
  are that build, with the checked ranges as hypotheses of theorems; theory
  \<open>Checked\<close> puts the checks back for the \<open>USE_FULL_ASSERT\<close> build, where a failing
  check ends in \<open>assert_failed\<close> of \<open>main.c\<close>, a loop that never returns.

  \<^bold>\<open>Theories.\<close>
  \<^item> \<open>Prelude\<close>: word types, \<open>FunctionalState\<close>, the set/clear idiom \<open>cfg_bit\<close>, the
    bit lemmas of the collection \<open>reg_simps\<close>, counting loops on words, half-word
    packing \<open>pack16\<close>, signed \<open>int32_t\<close> counters, and deadlines on a wrapping
    counter (\<open>deadline_wrapped\<close>, \<open>deadline_passed\<close>), the RCC reset calls
    \<open>rcc_call\<close> the \<open>DeInit\<close> functions make, and the mask lemmas for fields,
    keep-masks and reserved bits the register proofs share.
  \<^item> \<open>Can\<close>: \<open>CAN_TypeDef\<close>, \<open>CAN_InitTypeDef\<close>, \<open>CAN_FilterInitTypeDef\<close>;
    \<open>CAN_DeInit\<close> (lines 162-173) as its RCC calls; the polling
    loop \<open>wait_inak\<close>, \<open>can_mcr_flags\<close>, \<open>can_btr_value\<close>, \<open>CAN_Init\<close>
    (\<open>CAN_Init\<close>, lines 184-293); \<open>CAN_FilterInit_head\<close> (lines 302-366),
    \<open>CAN_FilterInit_tail\<close> and \<open>CAN_FilterInit\<close>. The source file ends at line 372,
    inside \<open>CAN_FilterInit\<close>, after the mode test and the start of its identifier/mask
    branch (lines 368-372): the identifier-list branch, FIFO, activation and exit
    steps of \<open>CAN_FilterInit_tail\<close> are modelled from the spec (section 4.2, steps 4
    to 7) and the ST driver structure.
  \<^item> \<open>MiscLib\<close> (\<^verbatim>\<open>misc_lib.c\<close>): memory is a byte store \<open>mem = nat \<Rightarrow> u8\<close>, a pointer
    is an address, \<open>NULL\<close> is 0. \<open>DECToASCII\<close> and \<open>HexToASCII\<close> are the digit loops
    (\<open>dec_push\<close>, \<open>hex_push\<close>) pushing onto the stack \<open>tmp\<close>, popped down to its
    sentinel and written with \<open>write_bytes\<close>; \<open>Memcpy\<close> and \<open>MemSet\<close> loop on their
    \<open>int32_t\<close> counter; \<open>StrLen\<close>, \<open>StrNLen\<close> and the two loops of \<open>StrCat\<close>
    (\<open>scan_nul\<close>, \<open>copy_str\<close>) scan for a NUL and are \<^theory_text>\<open>partial_function (option)\<close>:
    \<open>None\<close> is a call that never returns; \<open>MemCmp\<close> compares unsigned characters.
  \<^item> \<open>SysTimer\<close> (\<^verbatim>\<open>sys_timer.c\<close>, \<^verbatim>\<open>sys_timer.h\<close>): \<open>init_sys_timer\<close>
    with \<open>SYS_TIMER_FREQ\<close> and the CMSIS \<open>SysTick_Config\<close> (V1.30, modelled from its
    definition since CMSIS is not in the repository) on the SysTick registers; the globals \<open>sys_int_times\<close>, \<open>tick_count\<close> as a
    record, \<open>SysTick_Handler\<close>, and the busy-wait delays as a thread of control points
    (\<open>Entry\<close>, the wrap loop, the wait loop, \<open>Return\<close>) whose steps
    (\<open>delay_thread\<close>) interleave with interrupts (\<open>delay_irq\<close>) in the inductive
    relation \<open>delay_step\<close>; the section between \<open>__disable_irq\<close> and \<open>__enable_irq\<close> is
    one atomic step. A ghost counter \<open>elapsed\<close> counts interrupts since the deadline
    was computed; \<open>delay_inv\<close> is the invariant, proved by rule induction.
  \<^item> \<open>Tim\<close> (\<^verbatim>\<open>stm32f30x_tim.c\<close>): the register block \<open>TIM_TypeDef\<close> with the timer
    identity \<open>tim_id\<close> the driver compares against; every function of the file:
    \<open>TIM_DeInit\<close> as its sequence of RCC calls, time base, the \<open>CR1\<close> setters through
    \<open>cfg_bit\<close>, the six \<open>TIM_OCxInit\<close>, \<open>TIM_SelectGC5C1/2\<close>. Channel masks are
    families indexed by the channel, following the header's register layout.
  \<^item> \<open>TimCR1\<close>: an abstract specification of the timer control register \<open>CR1\<close>
    (the record \<open>tim_cr1_cfg\<close> of its fields, \<open>abs_cr1\<close>/\<open>conc_cr1\<close> between it and
    the register) and of each \<open>CR1\<close> request (\<open>cr1_spec\<close> over the request type
    \<open>cr1_op\<close>, with the \<open>assert_param\<close> ranges as \<open>cr1_op_ok\<close>); \<open>cr1_impl\<close>
    dispatches a request to the driver function of \<open>Tim\<close> that serves it.
  \<^item> \<open>Debug\<close> (\<^verbatim>\<open>debug.c\<close>): the USART register block \<open>USART_TypeDef\<close>; the
    USART1 writes of \<open>init_debug_fun\<close> for a given \<open>PCLK2\<close> and the NVIC, clock
    and pin set-up before them as the list of library calls it makes
    (\<open>init_debug_calls\<close>), \<open>USART1_IRQHandler\<close>;
    the console output is the list of bytes written to \<open>DR\<close> (each \<open>TXE\<close> wait taken
    as completed): \<open>stm_putc\<close>, \<open>serial_put_binary\<close>, \<open>stm_puts\<close> (a partial
    function, since it scans for a NUL) and \<open>stm_printf\<close> of the \<open>DEBUG\<close> build, whose
    format loop \<open>printf_loop\<close> reads the format string from the byte store of
    \<open>MiscLib\<close> and the arguments from 32-bit slots; \<open>%d\<close> and \<open>%x\<close> go through
    \<open>DECToASCII\<close>/\<open>HexToASCII\<close> of \<open>MiscLib\<close> into a zeroed buffer
    (\<open>printf_number\<close>); \<open>stm_printf_nodebug\<close> is the build without \<open>DEBUG\<close>;
    \<open>system_dump\<close> repeats \<open>stm_printf\<close> forever (a partial function that is
    proved never to return).
  \<^item> \<open>Dump\<close>: the composition of \<^verbatim>\<open>debug.c\<close> and \<^verbatim>\<open>sys_timer.c\<close> in
    \<open>system_dump\<close>: the inductive relation \<open>dump_step\<close> alternates an atomic
    \<open>stm_printf\<close> (it runs with interrupts disabled) with the delay thread of
    \<open>SysTimer\<close>, interleaved with SysTick interrupts; \<open>dump_inv\<close> is its invariant.
  \<^item> \<open>Adc\<close> (\<^verbatim>\<open>stm32f37x_adc.c\<close>): \<open>ADC_TypeDef\<close>, \<open>ADC_InitTypeDef\<close>; every
    function of the file up to line 509, where the source ends: \<open>ADC_Init\<close> as its three
    read-modify-write sequences with the \<open>uint8_t\<close> sequence length, \<open>ADC_StructInit\<close>,
    \<open>ADC_Cmd\<close>, the calibration starts, the analog watchdog setters and
    \<open>ADC_TempSensorVrefintCmd\<close>; \<open>ADC_DeInit\<close> as its RCC calls (\<open>rcc_call\<close>). The register-field lemmas of \<open>Prelude\<close> (\<open>field_get_set\<close>,
    \<open>field_set_frame\<close>) give the read-back of a field written under a mask.
  \<^item> \<open>Hid\<close> (\<^verbatim>\<open>callback.c\<close>, \<^verbatim>\<open>main.c\<close>): the table \<open>control_state_string\<close> laid
    out in the byte store as C lays out \<open>uint8_t [11][16]\<close> (\<open>array_at\<close>),
    \<open>CTR_Callback\<close> as the string pointer it hands to \<open>usb_printf\<close>'s \<open>%s\<close>; the
    globals of \<open>main.c\<close>, \<open>Delay\<close>, and \<open>main\<close> up to its start-up message
    (\<open>main_startup\<close>: \<open>init_debug_fun\<close> of \<open>Debug\<close>, then \<open>stm_printf\<close>).
  \<^item> \<open>Assert\<close>: the \<open>assert_param\<close> macro of the configuration header for both
    builds (\<open>build\<close>), \<open>assert_failed\<close> of \<^verbatim>\<open>main.c\<close> (lines 114-122) over
    \<open>spin_forever\<close>, the empty \<open>while (1)\<close> as a partial function that never returns,
    and \<open>assert_all\<close>, the checks at the start of a function in source order.
  \<^item> \<open>Checked\<close>: the ADC functions (\<open>adc_asserts\<close>, \<open>adc_call\<close>, runs of calls
    \<open>adc_run\<close>), \<open>CAN_Init\<close> and \<open>CAN_FilterInit\<close> with their checks in front; the
    checks are shown to be exactly the ranges the driver theorems assume
    (\<open>adc_asserts_ok\<close>, \<open>CAN_Init_asserts_ok\<close>).
  \<^item> \<open>Boot\<close> (\<^verbatim>\<open>main.c\<close>, \<^verbatim>\<open>callback.c\<close>): the whole of \<open>main\<close> on the
    record \<open>board\<close> (vector table base, SysTick registers, the globals of
    \<^verbatim>\<open>sys_timer.c\<close> and \<^verbatim>\<open>main.c\<close>, USART1, console, library calls):
    \<open>main_boot\<close> sets \<open>VTOR\<close> for either \<open>VECT_TAB_SRAM\<close> setting, calls
    \<open>init_sys_timer\<close> of \<open>SysTimer\<close> and \<open>main_startup\<close> of \<open>Hid\<close>, then the four USB
    set-up calls; \<open>main\<close> adds the final \<open>while (1)\<close>. The running firmware is the
    inductive relation \<open>board_step\<close>: SysTick exceptions (\<open>SysTick_Handler\<close>), USART1
    interrupts (\<open>USART1_IRQHandler\<close>) and received bytes in any order; the boot is one
    step, justified by \<open>main_boot_tick\<close> (a SysTick exception during the boot commutes
    with it). \<open>RESET_Callback\<close> is its \<open>usb_printf\<close> format and argument.

  \<^bold>\<open>What is proved.\<close> CAN: the loop lemmas give the exact exit point of
  \<open>wait_inak\<close> and its frame; the success branch of \<open>CAN_Init\<close> in closed form (C1),
  the read-back of the six control flags (C2), the timeout after
  exactly 65537 reads with nothing configured (C4), the BTR round trip under the
  asserted ranges (C5), the late acknowledge (C7);
  the filter registers for both scales (C8, C9), no residue on reconfiguration (C10),
  other banks untouched (C11), an invalid scale writes nothing in a release build
  (C13), while in a full-assert build \<open>CAN_FilterInit\<close> returns exactly for valid
  arguments and then configures the bank completely (C12). MiscLib: the numbers written by \<open>DECToASCII\<close>/\<open>HexToASCII\<close>
  parse back, are terminated and fit their buffers (C14-C16), the decimal string being
  the canonical one: non-empty, digits only, no leading zero (C14); equivalence with a
  reference conversion through base-\<open>b\<close> digits being the key lemma; \<open>StrLen\<close>
  returns on a terminated string and never on an unterminated one (C17, C18);
  \<open>StrNLen\<close> with a precision always returns and with -1 is \<open>StrLen\<close> (C19, C20);
  \<open>StrCat\<close> appends disjoint strings and never returns on \<open>StrCat(s, s)\<close> (C21, C22);
  \<open>Memcpy\<close> on disjoint buffers (C23).
  Hid: the string \<open>CTR_Callback\<close> prints is always terminated inside the table and
  names the control state, or is \<open>"NULL"\<close> (C25). Boot: \<open>main\<close> never returns, and in
  every state the interrupts reach after its boot the boot's configuration is intact,
  the tick counters stay consistent and the SysTick exception stays enabled (C24),
  by rule induction over \<open>board_step\<close>.
  SysTimer: a delay returns only
  after more than \<open>time_ms * 10\<close> interrupts, product in \<open>uint32_t\<close> (C28), can return
  after exactly one more (C29), and hangs for the deadline \<open>0xFFFFFFFF\<close> (C30);
  composed with the console in \<open>system_dump\<close>, every round prints the same output and
  is separated from the next by more than 10000 interrupts (C27), proved by rule
  induction over \<open>dump_step\<close> with the delay invariant of \<open>SysTimer\<close>.
  Tim: the placement of channel 1's configuration (C31), channel 2 leaving channel 1
  alone (C32), and the idle-state bugs of channels 5 and 6 (C33, C34); the \<open>CR1\<close>
  setters refine the abstract \<open>CR1\<close> specification over any sequence of requests,
  a simulation whose abstraction loses nothing (C3).
  Debug: \<open>stm_printf\<close> on a plain format string returns the string with newlines
  translated (C35); \<open>%d\<close> prints the argument as unsigned, through the round trip of
  \<open>DECToASCII\<close> (C36); a trailing \<open>'%'\<close> prints memory past the terminator (C37);
  \<open>init_debug_fun\<close> loads \<open>BRR\<close> with \<open>PCLK2 / 115200\<close> but copies \<open>CR1\<close> into \<open>CR2\<close>
  (C38). Adc: \<open>ADC_Init\<close> with asserted parameters sets exactly its fields, and the
  sequence length reads back (C39); zero channels wrap to 16 and set reserved bits
  of \<open>SQR1\<close> (C40); the driver's requests, as the datatype \<open>adc_op\<close> with the step
  function \<open>adc_step\<close>, keep the reserved register bits clear (\<open>adc_wf\<close>) whenever their
  arguments pass \<open>assert_param\<close> (C26); in a full-assert build no argument is
  needed: a run returns exactly when its arguments pass, and then keeps them
  clear (C6). Each theorem
  with hypotheses has a witness on a concrete register image or store. Beyond the
  claims: \<open>init_sys_timer\<close> always succeeds, with a tick period of \<open>SYSCLK / 10000\<close>
  cycles that wraps to the 24-bit maximum below 10 kHz (\<open>init_sys_timer_load\<close>);
  \<open>system_dump\<close> never returns (\<open>system_dump_never_returns\<close>); \<open>main\<close> prints
  \<open>"startup"\<close> with a carriage return (\<open>main_startup_console\<close>); \<open>Delay\<close> spins
  \<open>nCount\<close> times (\<open>delay_spin_unat\<close>); \<open>n\<close> SysTick interrupts count modulo
  \<open>2^32\<close> and 200 (\<open>SysTick_Handler_iterate\<close>); a zero CAN prescaler wraps and sets
  every BTR field (\<open>can_btr_prescaler_zero\<close>); \<open>Memcpy\<close> smears overlapping buffers
  (\<open>Memcpy_overlap_smear\<close>); \<open>CAN_Init\<close> with its checks returns in a full-assert
  build exactly for valid parameters (\<open>CAN_Init_checked_eq\<close>).

  \<^bold>\<open>Bounds and fuel.\<close> No fuel is used: the CAN polling loops terminate by the
  measure \<open>unat (INAK_TIMEOUT - wait_ack)\<close>, the digit loops by \<open>unat dat\<close>, the
  \<open>int32_t\<close> loops by \<open>nat (sint c)\<close>; the loops that may run forever are partial
  functions or the steps of \<open>delay_step\<close>, and their termination is proved as the
  existence of a result (C17, C19, C29) or refuted (C18, C22, C30).

  \<^bold>\<open>Plan.\<close> Every function of the repository's sources is modelled, up to the
  library calls listed below; what remains is strengthening the properties.

  \<^bold>\<open>Not modelled.\<close> The vendor library functions the drivers call (\<open>RCC\<close>,
  \<open>GPIO\<close>, \<open>NVIC\<close>) are not in the repository: the \<open>DeInit\<close> functions and the set-up
  part of \<open>init_debug_fun\<close> are modelled as the calls they make, \<open>RCC_GetClocksFreq\<close>
  enters as a clock argument, and the interrupt priority write of \<open>SysTick_Config\<close> is
  left out, as it configures the NVIC. \<open>usb_printf\<close>,
  \<open>pInformation\<close> and the USB set-up calls of \<open>main\<close> belong to the USB library, also
  absent, so \<open>CTR_Callback\<close> and \<open>RESET_Callback\<close> are modelled up to what they pass
  to \<open>usb_printf\<close>, the USB set-up as the calls \<open>main\<close> makes, and the USB
  interrupts are not among the steps of \<open>board_step\<close>. The timer driver's
  \<open>assert_param\<close> checks are not put back in \<open>Checked\<close>; its theorems assume their
  ranges. The
  declarations of \<^verbatim>\<open>misc_lib.h\<close> and \<^verbatim>\<open>sys_timer.h\<close> are the prototypes of the
  functions modelled from the \<^verbatim>\<open>.c\<close> files; the vendor headers enter only through
  their constants and register layouts.
\<close>

end
